theory Spec2Isabelle
  imports Main "HOL-Library.AList"
begin

section \<open>JavaScript values\<close>

text \<open>
  Request and response bodies are JavaScript values. Numbers are modelled by the
  integers (every number the modelled handlers compute from integer inputs is an
  integer, exact in a double below \<open>2^53\<close>); an object is the list of its own
  properties in property order.
\<close>

datatype jsval =
    JUndefined
  | JNull
  | JBool bool
  | JNum int
  | JStr string
  | JArr "jsval list"
  | JObj "(string \<times> jsval) list"

text \<open>\<open>has_key k v\<close>: some object inside \<open>v\<close> (at any depth) has a property named \<open>k\<close>.\<close>

primrec has_key :: "string \<Rightarrow> jsval \<Rightarrow> bool" where
  "has_key k JUndefined = False"
| "has_key k JNull = False"
| "has_key k (JBool b) = False"
| "has_key k (JNum n) = False"
| "has_key k (JStr s) = False"
| "has_key k (JArr vs) = list_ex (\<lambda>b. b) (map (has_key k) vs)"
| "has_key k (JObj kvs) =
     list_ex (\<lambda>p. fst p = k \<or> snd p) (map (map_prod (\<lambda>x. x) (has_key k)) kvs)"

text \<open>Property read \<open>o.k\<close> on an object: \<open>undefined\<close> when the property is absent.\<close>

definition get_prop :: "(string \<times> jsval) list \<Rightarrow> string \<Rightarrow> jsval" where
  "get_prop kvs k = (case map_of kvs k of None \<Rightarrow> JUndefined | Some v \<Rightarrow> v)"

text \<open>\<open>v.k\<close>: a \<open>TypeError\<close> (\<open>None\<close>) on \<open>undefined\<close> and \<open>null\<close>, the property of an
  object, \<open>undefined\<close> on a value that has no such property.\<close>

definition js_get :: "jsval \<Rightarrow> string \<Rightarrow> jsval option" where
  "js_get v k =
     (case v of
        JUndefined \<Rightarrow> None
      | JNull \<Rightarrow> None
      | JObj kvs \<Rightarrow> Some (get_prop kvs k)
      | _ \<Rightarrow> Some JUndefined)"

definition js_truthy :: "jsval \<Rightarrow> bool" where
  "js_truthy v =
     (case v of
        JUndefined \<Rightarrow> False
      | JNull \<Rightarrow> False
      | JBool b \<Rightarrow> b
      | JNum n \<Rightarrow> n \<noteq> 0
      | JStr s \<Rightarrow> s \<noteq> []
      | _ \<Rightarrow> True)"

definition js_or :: "jsval \<Rightarrow> jsval \<Rightarrow> jsval" where
  "js_or a b = (if js_truthy a then a else b)"

text \<open>The decimal numeral of a natural number, as \<open>String(n)\<close> writes it.\<close>

definition digit_char :: "nat \<Rightarrow> char" where
  "digit_char d = ''0123456789'' ! d"

function show_nat :: "nat \<Rightarrow> string" where
  "show_nat n = (if n < 10 then [digit_char n] else show_nat (n div 10) @ [digit_char (n mod 10)])"
  by pat_completeness auto
termination
  by (relation "measure (\<lambda>n. n)") auto

declare show_nat.simps [simp del]

text \<open>An HTTP response: \<open>res.status(s).json(b)\<close>.\<close>

datatype response = Response (status: int) (body: jsval)

text \<open>The result of \<open>schema.safeParse(req.body)\<close>: the list of (field, message)
  errors, or the parsed data.\<close>

type_synonym 'a parsed = "(string \<times> string) list + 'a"

definition error_list :: "(string \<times> string) list \<Rightarrow> jsval" where
  "error_list errs =
     JArr (map (\<lambda>e. JObj [(''field'', JStr (fst e)), (''message'', JStr (snd e))]) errs)"

section \<open>The users service\<close>

record user =
  user_id :: int
  email :: string
  passwordHash :: "string option"
  name :: string
  roles :: "string list"
  createdAt :: string
  updatedAt :: string

text \<open>The user as the JavaScript object the handlers hold, properties in the order
  \<open>createUserModel\<close> writes them.\<close>

definition opt_str :: "string option \<Rightarrow> jsval" where
  "opt_str s = (case s of None \<Rightarrow> JUndefined | Some x \<Rightarrow> JStr x)"

definition user_obj :: "user \<Rightarrow> (string \<times> jsval) list" where
  "user_obj u =
     [(''id'', JNum (user_id u)),
      (''email'', JStr (email u)),
      (''passwordHash'', opt_str (passwordHash u)),
      (''name'', JStr (name u)),
      (''roles'', JArr (map JStr (roles u))),
      (''createdAt'', JStr (createdAt u)),
      (''updatedAt'', JStr (updatedAt u))]"

text \<open>\<open>const { passwordHash, ...safeUser } = user; return safeUser;\<close>\<close>

definition rest_without :: "string \<Rightarrow> (string \<times> jsval) list \<Rightarrow> (string \<times> jsval) list" where
  "rest_without k kvs = filter (\<lambda>p. fst p \<noteq> k) kvs"

definition sanitizeUser :: "user \<Rightarrow> jsval" where
  "sanitizeUser u = JObj (rest_without ''passwordHash'' (user_obj u))"

record users_state =
  fakeUsersDb :: "(int \<times> user) list"
  currentId :: int

definition users_init :: users_state where
  "users_init = \<lparr>fakeUsersDb = [], currentId = 1\<rparr>"

text \<open>\<open>Object.values(fakeUsersDb)\<close>: integer keys are enumerated in ascending order.\<close>

definition object_values :: "(int \<times> 'a) list \<Rightarrow> 'a list" where
  "object_values db = map snd (sort_key fst db)"

text \<open>\<open>fakeUsersDb[parseInt(req.params.userId)]\<close>; \<open>None\<close> is \<open>NaN\<close>, which is no key.\<close>

definition db_get :: "(int \<times> 'a) list \<Rightarrow> int option \<Rightarrow> 'a option" where
  "db_get db k = (case k of None \<Rightarrow> None | Some i \<Rightarrow> map_of db i)"

definition generateUserId :: "users_state \<Rightarrow> int \<times> users_state" where
  "generateUserId s = (currentId s, s\<lparr>currentId := currentId s + 1\<rparr>)"

record userData =
  ud_email :: string
  ud_password :: "string option"
  ud_passwordHash :: "string option"
  ud_name :: string
  ud_roles :: "string list option"

text \<open>\<open>a || b\<close> on optional strings: the empty string and \<open>undefined\<close> are falsy.\<close>

definition or_str :: "string option \<Rightarrow> string option \<Rightarrow> string option" where
  "or_str a b = (case a of None \<Rightarrow> b | Some x \<Rightarrow> if x = [] then b else Some x)"

definition ROLE_CUSTOMER :: string where
  "ROLE_CUSTOMER = ''Customer''"

definition createUserModel :: "string \<Rightarrow> userData \<Rightarrow> users_state \<Rightarrow> user \<times> users_state" where
  "createUserModel now d s =
     (let (userId, s') = generateUserId s in
      (\<lparr>user_id = userId,
        email = ud_email d,
        passwordHash = or_str (ud_passwordHash d) (ud_password d),
        name = ud_name d,
        roles = (case ud_roles d of None \<Rightarrow> [ROLE_CUSTOMER] | Some rs \<Rightarrow> rs),
        createdAt = now,
        updatedAt = now\<rparr>, s'))"

record userUpdates =
  up_email :: "string option"
  up_password :: "string option"
  up_passwordHash :: "string option"
  up_name :: "string option"
  up_roles :: "string list option"

definition updateUserModel :: "string \<Rightarrow> user \<Rightarrow> userUpdates \<Rightarrow> user" where
  "updateUserModel now existingUser updates =
     existingUser\<lparr>
       email := (case up_email updates of Some e \<Rightarrow> e | None \<Rightarrow> email existingUser),
       passwordHash := (case up_passwordHash updates of Some h \<Rightarrow> Some h
                        | None \<Rightarrow> passwordHash existingUser),
       name := (case up_name updates of Some n \<Rightarrow> n | None \<Rightarrow> name existingUser),
       roles := (case up_roles updates of Some rs \<Rightarrow> rs | None \<Rightarrow> roles existingUser),
       updatedAt := now\<rparr>"

text \<open>What the handlers take from their environment: \<open>jwt.sign\<close> with the service's
  secret, \<open>parseInt(_, 10)\<close> (\<open>None\<close> is \<open>NaN\<close>), \<open>String.prototype.toLowerCase\<close>,
  and \<open>Array.prototype.sort\<close> with the list handler's comparator for the given
  \<open>sortBy\<close> and \<open>sortOrder\<close>.\<close>

record users_env =
  jwt_sign :: "jsval \<Rightarrow> string"
  parseInt :: "string \<Rightarrow> int option"
  toLowerCase :: "string \<Rightarrow> string"
  sort_users :: "string \<Rightarrow> string \<Rightarrow> user list \<Rightarrow> user list"

definition generateJwtForUser :: "users_env \<Rightarrow> user \<Rightarrow> string" where
  "generateJwtForUser env u =
     jwt_sign env (JObj [(''id'', JNum (user_id u)), (''roles'', JArr (map JStr (roles u)))])"

definition validation_failed_envelope :: "(string \<times> string) list \<Rightarrow> jsval" where
  "validation_failed_envelope errs =
     JObj [(''success'', JBool False),
           (''error'', JObj [(''message'', JStr ''Validation failed''),
                             (''details'', error_list errs)])]"

definition validation_failed_plain :: "(string \<times> string) list \<Rightarrow> jsval" where
  "validation_failed_plain errs =
     JObj [(''error'', JStr ''Validation failed''), (''errors'', error_list errs)]"

definition error_envelope :: "string \<Rightarrow> jsval" where
  "error_envelope msg =
     JObj [(''success'', JBool False), (''error'', JObj [(''message'', JStr msg)])]"

definition token_user_envelope :: "string \<Rightarrow> user \<Rightarrow> jsval" where
  "token_user_envelope token u =
     JObj [(''success'', JBool True),
           (''data'', JObj [(''token'', JStr token), (''user'', sanitizeUser u)])]"

definition user_envelope :: "user \<Rightarrow> jsval" where
  "user_envelope u =
     JObj [(''success'', JBool True), (''data'', JObj [(''user'', sanitizeUser u)])]"

text \<open>\<open>POST /users/register\<close>\<close>

definition register :: "users_env \<Rightarrow> string \<Rightarrow> (string \<times> string \<times> string) parsed
    \<Rightarrow> users_state \<Rightarrow> response \<times> users_state" where
  "register env now parsed s =
     (case parsed of
        Inl errs \<Rightarrow> (Response 400 (validation_failed_envelope errs), s)
      | Inr (em, password, nm) \<Rightarrow>
          (case find (\<lambda>u. email u = em) (object_values (fakeUsersDb s)) of
             Some _ \<Rightarrow> (Response 409 (error_envelope ''User with this email already exists''), s)
           | None \<Rightarrow>
               (let (newUser, s1) =
                      createUserModel now
                        \<lparr>ud_email = em, ud_password = Some password, ud_passwordHash = None,
                         ud_name = nm, ud_roles = Some [ROLE_CUSTOMER]\<rparr> s;
                    s2 = s1\<lparr>fakeUsersDb :=
                             AList.update (user_id newUser) newUser (fakeUsersDb s1)\<rparr>;
                    token = generateJwtForUser env newUser
                in (Response 201 (token_user_envelope token newUser), s2))))"

text \<open>\<open>POST /users/login\<close>\<close>

definition login :: "users_env \<Rightarrow> (string \<times> string) parsed \<Rightarrow> users_state
    \<Rightarrow> response \<times> users_state" where
  "login env parsed s =
     (case parsed of
        Inl errs \<Rightarrow> (Response 400 (validation_failed_envelope errs), s)
      | Inr (em, password) \<Rightarrow>
          (case find (\<lambda>u. email u = em) (object_values (fakeUsersDb s)) of
             None \<Rightarrow> (Response 401 (error_envelope ''Invalid email or password''), s)
           | Some u \<Rightarrow>
               if passwordHash u \<noteq> Some password
               then (Response 401 (error_envelope ''Invalid email or password''), s)
               else (Response 200 (token_user_envelope (generateJwtForUser env u) u), s)))"

text \<open>\<open>GET /users/profile/:userId\<close>\<close>

definition getProfile :: "int option \<Rightarrow> users_state \<Rightarrow> response \<times> users_state" where
  "getProfile userId s =
     (case db_get (fakeUsersDb s) userId of
        None \<Rightarrow> (Response 404 (error_envelope ''User not found''), s)
      | Some u \<Rightarrow> (Response 200 (user_envelope u), s))"

text \<open>\<open>PUT /users/profile/:userId\<close>; the update data is (email, name).\<close>

definition email_taken :: "users_state \<Rightarrow> string option \<Rightarrow> int option \<Rightarrow> bool" where
  "email_taken s em userId =
     (case em of
        None \<Rightarrow> False
      | Some e \<Rightarrow>
          e \<noteq> [] \<and>
          find (\<lambda>u. email u = e \<and> Some (user_id u) \<noteq> userId)
            (object_values (fakeUsersDb s)) \<noteq> None)"

definition db_put :: "int option \<Rightarrow> 'a \<Rightarrow> (int \<times> 'a) list \<Rightarrow> (int \<times> 'a) list" where
  "db_put k v db = (case k of None \<Rightarrow> db | Some i \<Rightarrow> AList.update i v db)"

definition putProfile :: "string \<Rightarrow> int option \<Rightarrow> (string option \<times> string option) parsed
    \<Rightarrow> users_state \<Rightarrow> response \<times> users_state" where
  "putProfile now userId validation s =
     (case db_get (fakeUsersDb s) userId of
        None \<Rightarrow> (Response 404 (error_envelope ''User not found''), s)
      | Some u \<Rightarrow>
          (case validation of
             Inl errs \<Rightarrow> (Response 400 (validation_failed_envelope errs), s)
           | Inr (em, nm) \<Rightarrow>
               if email_taken s em userId
               then (Response 409 (error_envelope ''User with this email already exists''), s)
               else
                 (let updatedUser =
                        u\<lparr>email := (case em of Some e \<Rightarrow> e | None \<Rightarrow> email u),
                          name := (case nm of Some n \<Rightarrow> n | None \<Rightarrow> name u),
                          updatedAt := now\<rparr>
                  in (Response 200 (user_envelope updatedUser),
                      s\<lparr>fakeUsersDb := db_put userId updatedUser (fakeUsersDb s)\<rparr>))))"

text \<open>\<open>GET /users\<close> with filters, sorting and pagination.\<close>

record list_query =
  q_page :: "string option"
  q_limit :: "string option"
  q_role :: "string option"
  q_email :: "string option"
  q_name :: "string option"
  q_sortBy :: "string option"
  q_sortOrder :: "string option"

text \<open>\<open>s.includes(t)\<close>: \<open>t\<close> occurs in \<open>s\<close> as a contiguous substring.\<close>

fun includes_str :: "string \<Rightarrow> string \<Rightarrow> bool" where
  "includes_str [] t = (t = [])"
| "includes_str (c # s) t = (take (length t) (c # s) = t \<or> includes_str s t)"

definition truthy_str :: "string option \<Rightarrow> bool" where
  "truthy_str a = (case a of None \<Rightarrow> False | Some x \<Rightarrow> x \<noteq> [])"

definition str_or_null :: "string option \<Rightarrow> jsval" where
  "str_or_null a = (if truthy_str a then JStr (the a) else JNull)"

text \<open>A number that may be \<open>NaN\<close> (\<open>None\<close>).\<close>

definition num_or_nan :: "int option \<Rightarrow> jsval" where
  "num_or_nan n = (case n of None \<Rightarrow> JNull | Some i \<Rightarrow> JNum i)"

definition pageNum_of :: "users_env \<Rightarrow> string option \<Rightarrow> int option" where
  "pageNum_of env page =
     map_option (max 1) (case page of None \<Rightarrow> Some 1 | Some p \<Rightarrow> parseInt env p)"

definition limitNum_of :: "users_env \<Rightarrow> string option \<Rightarrow> int option" where
  "limitNum_of env limit =
     map_option (\<lambda>l. min 100 (max 1 l))
       (case limit of None \<Rightarrow> Some 10 | Some l \<Rightarrow> parseInt env l)"

text \<open>\<open>xs.slice((pageNum - 1) * limitNum, (pageNum - 1) * limitNum + limitNum)\<close>; a \<open>NaN\<close>
  bound is read as 0, so the slice is empty then.\<close>

definition page_slice :: "int option \<Rightarrow> int option \<Rightarrow> 'a list \<Rightarrow> 'a list" where
  "page_slice pageNum limitNum xs =
     (case (pageNum, limitNum) of
        (Some p, Some l) \<Rightarrow> take (nat l) (drop (nat ((p - 1) * l)) xs)
      | _ \<Rightarrow> [])"

text \<open>\<open>Math.ceil(total / limitNum)\<close>, for \<open>limitNum \<ge> 1\<close>.\<close>

definition total_pages :: "nat \<Rightarrow> int option \<Rightarrow> int option" where
  "total_pages n limitNum = map_option (\<lambda>l. (int n + l - 1) div l) limitNum"

definition filter_users :: "users_env \<Rightarrow> list_query \<Rightarrow> user list \<Rightarrow> user list" where
  "filter_users env q users =
     (let users1 = (if truthy_str (q_role q)
                    then filter (\<lambda>u. the (q_role q) \<in> set (roles u)) users else users);
          users2 = (if truthy_str (q_email q)
                    then filter (\<lambda>u. includes_str (toLowerCase env (email u))
                                        (toLowerCase env (the (q_email q)))) users1
                    else users1);
          users3 = (if truthy_str (q_name q)
                    then filter (\<lambda>u. includes_str (toLowerCase env (name u))
                                        (toLowerCase env (the (q_name q)))) users2
                    else users2)
      in users3)"

definition listUsers :: "users_env \<Rightarrow> list_query \<Rightarrow> users_state \<Rightarrow> response \<times> users_state" where
  "listUsers env q s =
     (let sortBy = (case q_sortBy q of None \<Rightarrow> ''createdAt'' | Some x \<Rightarrow> x);
          sortOrder = (case q_sortOrder q of None \<Rightarrow> ''desc'' | Some x \<Rightarrow> x);
          users = sort_users env sortBy sortOrder
                    (filter_users env q (object_values (fakeUsersDb s)));
          pageNum = pageNum_of env (q_page q);
          limitNum = limitNum_of env (q_limit q);
          totalUsers = length users;
          paginatedUsers = page_slice pageNum limitNum users;
          sanitizedUsers = map sanitizeUser paginatedUsers
      in (Response 200
            (JObj [(''success'', JBool True),
                   (''users'', JArr sanitizedUsers),
                   (''pagination'',
                      JObj [(''page'', num_or_nan pageNum),
                            (''limit'', num_or_nan limitNum),
                            (''total'', JNum (int totalUsers)),
                            (''totalPages'', num_or_nan (total_pages totalUsers limitNum))]),
                   (''filters'',
                      JObj [(''role'', str_or_null (q_role q)),
                            (''email'', str_or_null (q_email q)),
                            (''name'', str_or_null (q_name q))]),
                   (''sorting'',
                      JObj [(''sortBy'', JStr sortBy), (''sortOrder'', JStr sortOrder)])]),
          s))"

text \<open>\<open>GET /users\<close> of the service's first version: every stored user, sanitized.\<close>

definition listUsers_plain :: "users_state \<Rightarrow> response \<times> users_state" where
  "listUsers_plain s =
     (Response 200 (JArr (map sanitizeUser (object_values (fakeUsersDb s)))), s)"

definition plain_error :: "string \<Rightarrow> jsval" where
  "plain_error msg = JObj [(''error'', JStr msg)]"

text \<open>\<open>POST /users\<close>\<close>

definition createUser :: "string \<Rightarrow> userData parsed \<Rightarrow> users_state \<Rightarrow> response \<times> users_state" where
  "createUser now validation s =
     (case validation of
        Inl errs \<Rightarrow> (Response 400 (validation_failed_plain errs), s)
      | Inr d \<Rightarrow>
          (case find (\<lambda>u. email u = ud_email d) (object_values (fakeUsersDb s)) of
             Some _ \<Rightarrow> (Response 409 (plain_error ''User with this email already exists''), s)
           | None \<Rightarrow>
               (let (newUser, s1) = createUserModel now d s;
                    s2 = s1\<lparr>fakeUsersDb :=
                             AList.update (user_id newUser) newUser (fakeUsersDb s1)\<rparr>
                in (Response 201 (sanitizeUser newUser), s2))))"

text \<open>\<open>GET /users/:userId\<close>\<close>

definition getUser :: "int option \<Rightarrow> users_state \<Rightarrow> response \<times> users_state" where
  "getUser userId s =
     (case db_get (fakeUsersDb s) userId of
        None \<Rightarrow> (Response 404 (plain_error ''User not found''), s)
      | Some u \<Rightarrow> (Response 200 (sanitizeUser u), s))"

text \<open>\<open>PUT /users/:userId\<close>\<close>

definition putUser :: "string \<Rightarrow> int option \<Rightarrow> userUpdates parsed \<Rightarrow> users_state
    \<Rightarrow> response \<times> users_state" where
  "putUser now userId validation s =
     (case db_get (fakeUsersDb s) userId of
        None \<Rightarrow> (Response 404 (plain_error ''User not found''), s)
      | Some u \<Rightarrow>
          (case validation of
             Inl errs \<Rightarrow> (Response 400 (validation_failed_plain errs), s)
           | Inr updates \<Rightarrow>
               if email_taken s (up_email updates) userId
               then (Response 409 (plain_error ''User with this email already exists''), s)
               else
                 (let updatedUser = updateUserModel now u updates
                  in (Response 200 (sanitizeUser updatedUser),
                      s\<lparr>fakeUsersDb := db_put userId updatedUser (fakeUsersDb s)\<rparr>))))"

text \<open>\<open>DELETE /users/:userId\<close>\<close>

definition db_delete :: "int option \<Rightarrow> (int \<times> 'a) list \<Rightarrow> (int \<times> 'a) list" where
  "db_delete k db = (case k of None \<Rightarrow> db | Some i \<Rightarrow> AList.delete i db)"

definition deleteUser :: "int option \<Rightarrow> users_state \<Rightarrow> response \<times> users_state" where
  "deleteUser userId s =
     (case db_get (fakeUsersDb s) userId of
        None \<Rightarrow> (Response 404 (plain_error ''User not found''), s)
      | Some deletedUser \<Rightarrow>
          (Response 200
             (JObj [(''message'', JStr ''User deleted''), (''user'', sanitizeUser deletedUser)]),
           s\<lparr>fakeUsersDb := db_delete userId (fakeUsersDb s)\<rparr>))"

text \<open>\<open>GET /users/health\<close> and \<open>GET /users/status\<close>\<close>

definition users_health :: "string \<Rightarrow> users_state \<Rightarrow> response \<times> users_state" where
  "users_health now s =
     (Response 200
        (JObj [(''status'', JStr ''OK''), (''service'', JStr ''Users Service''),
               (''timestamp'', JStr now)]), s)"

definition users_status :: "users_state \<Rightarrow> response \<times> users_state" where
  "users_status s = (Response 200 (JObj [(''status'', JStr ''Users service is running'')]), s)"

text \<open>The service as one step function over its requests. Each request carries what
  the handler reads from it: the clock (\<open>new Date().toISOString()\<close>), the parsed
  \<open>:userId\<close>, and the result of validating the body.\<close>

datatype users_req =
    Register string "(string \<times> string \<times> string) parsed"
  | Login "(string \<times> string) parsed"
  | GetProfile "int option"
  | PutProfile string "int option" "(string option \<times> string option) parsed"
  | ListUsers list_query
  | ListUsersPlain
  | CreateUser string "userData parsed"
  | GetUser "int option"
  | PutUser string "int option" "userUpdates parsed"
  | DeleteUser "int option"
  | UsersHealth string
  | UsersStatus

fun users_service :: "users_env \<Rightarrow> users_state \<Rightarrow> users_req \<Rightarrow> response \<times> users_state" where
  "users_service env s (Register now parsed) = register env now parsed s"
| "users_service env s (Login parsed) = login env parsed s"
| "users_service env s (GetProfile userId) = getProfile userId s"
| "users_service env s (PutProfile now userId validation) = putProfile now userId validation s"
| "users_service env s (ListUsers q) = listUsers env q s"
| "users_service env s ListUsersPlain = listUsers_plain s"
| "users_service env s (CreateUser now validation) = createUser now validation s"
| "users_service env s (GetUser userId) = getUser userId s"
| "users_service env s (PutUser now userId validation) = putUser now userId validation s"
| "users_service env s (DeleteUser userId) = deleteUser userId s"
| "users_service env s (UsersHealth now) = users_health now s"
| "users_service env s UsersStatus = users_status s"

text \<open>The ids of the records a step creates: the \<open>id\<close> of every record that the store
  holds after the step under a key that was no key before it.\<close>

definition created_ids :: "('a \<Rightarrow> int) \<Rightarrow> (int \<times> 'a) list \<Rightarrow> (int \<times> 'a) list \<Rightarrow> int list" where
  "created_ids id_of db db' =
     map (\<lambda>p. id_of (snd p)) (filter (\<lambda>p. fst p \<notin> set (map fst db)) db')"

fun users_issued :: "users_env \<Rightarrow> users_state \<Rightarrow> users_req list \<Rightarrow> int list" where
  "users_issued env s [] = []"
| "users_issued env s (r # rs) =
     (let s' = snd (users_service env s r)
      in created_ids user_id (fakeUsersDb s) (fakeUsersDb s') @ users_issued env s' rs)"

section \<open>The orders service\<close>

record order_item =
  productId :: string
  productName :: string
  quantity :: int
  price :: int

record processed_item = order_item +
  subtotal :: int

record order =
  order_id :: int
  order_userId :: int
  order_items :: "processed_item list"
  order_status :: string
  order_totalAmount :: int
  order_createdAt :: string
  order_updatedAt :: string

record orderData =
  od_userId :: int
  od_items :: "order_item list"
  od_totalAmount :: "int option"
  od_status :: string

subsection \<open>The store: a plain object\<close>

text \<open>
  The store is \<open>let fakeOrdersDb = {}\<close>, a plain object. \<open>POST /orders\<close> writes it under
  the number \<open>newOrder.id\<close>, which JavaScript turns into the property name that is its
  decimal numeral; the handlers of \<open>/orders/:orderId\<close> index it with the path parameter
  as it comes, a string. A property read finds the object's own properties and those it
  inherits from its prototype: \<open>Object.prototype\<close>, until an assignment to the property
  \<open>__proto__\<close> makes another object the prototype.
\<close>

text \<open>The property name of a number (the counter's values are integers, far below
  \<open>10^21\<close>, where the name would take the exponent form).\<close>

definition number_key :: "int \<Rightarrow> string" where
  "number_key n = (if n < 0 then CHR ''-'' # show_nat (nat (- n)) else show_nat (nat n))"

text \<open>The names of the functions every object inherits from \<open>Object.prototype\<close>; its
  one other property is the accessor \<open>__proto__\<close>.\<close>

definition Object_prototype_functions :: "string list" where
  "Object_prototype_functions =
     [''constructor'', ''__defineGetter__'', ''__defineSetter__'', ''hasOwnProperty'',
      ''__lookupGetter__'', ''__lookupSetter__'', ''isPrototypeOf'', ''propertyIsEnumerable'',
      ''toString'', ''valueOf'', ''toLocaleString'']"

text \<open>What a property read of the store returns: a value of the data model, one of the
  built-in functions (named by the property), or the object \<open>Object.prototype\<close> itself.\<close>

datatype property_value = Data jsval | BuiltinFunction string | BuiltinPrototype

record orders_state =
  fakeOrdersDb :: "(string \<times> jsval) list"
  fakeOrdersDb_prototype :: "(string \<times> jsval) list option"
  orders_currentId :: int

text \<open>\<open>fakeOrdersDb\<close> holds the own properties in creation order;
  \<open>fakeOrdersDb_prototype\<close> is \<open>None\<close> while the prototype is \<open>Object.prototype\<close>, and
  the properties of the object that was assigned to \<open>__proto__\<close> afterwards (an object
  literal, whose own prototype is \<open>Object.prototype\<close>).\<close>

definition orders_init :: orders_state where
  "orders_init = \<lparr>fakeOrdersDb = [], fakeOrdersDb_prototype = None, orders_currentId = 1\<rparr>"

text \<open>A read that reaches \<open>Object.prototype\<close>: \<open>__proto__\<close> returns the prototype of the
  object that is read.\<close>

definition Object_prototype_get :: "(string \<times> jsval) list option \<Rightarrow> string \<Rightarrow> property_value" where
  "Object_prototype_get proto k =
     (if k = ''__proto__''
      then (case proto of None \<Rightarrow> BuiltinPrototype | Some kvs \<Rightarrow> Data (JObj kvs))
      else if k \<in> set Object_prototype_functions then BuiltinFunction k
      else Data JUndefined)"

text \<open>\<open>fakeOrdersDb[k]\<close>: an own property, else a property of the prototype, else one of
  \<open>Object.prototype\<close>, else \<open>undefined\<close>.\<close>

definition fakeOrdersDb_get :: "orders_state \<Rightarrow> string \<Rightarrow> property_value" where
  "fakeOrdersDb_get s k =
     (case map_of (fakeOrdersDb s) k of
        Some v \<Rightarrow> Data v
      | None \<Rightarrow>
          (case fakeOrdersDb_prototype s of
             None \<Rightarrow> Object_prototype_get None k
           | Some kvs \<Rightarrow>
               (case map_of kvs k of
                  Some v \<Rightarrow> Data v
                | None \<Rightarrow> Object_prototype_get (Some kvs) k)))"

text \<open>\<open>fakeOrdersDb[k] = v\<close>: the setter of \<open>__proto__\<close> makes the assigned object the
  prototype (the handlers assign object literals only; a primitive value would be
  ignored); any other name becomes or stays an own property.\<close>

definition fakeOrdersDb_set :: "orders_state \<Rightarrow> string \<Rightarrow> jsval \<Rightarrow> orders_state" where
  "fakeOrdersDb_set s k v =
     (if k = ''__proto__''
      then (case v of JObj kvs \<Rightarrow> s\<lparr>fakeOrdersDb_prototype := Some kvs\<rparr> | _ \<Rightarrow> s)
      else s\<lparr>fakeOrdersDb := AList.update k v (fakeOrdersDb s)\<rparr>)"

text \<open>\<open>delete fakeOrdersDb[k]\<close> removes an own property and nothing else.\<close>

definition fakeOrdersDb_delete :: "orders_state \<Rightarrow> string \<Rightarrow> orders_state" where
  "fakeOrdersDb_delete s k = s\<lparr>fakeOrdersDb := AList.delete k (fakeOrdersDb s)\<rparr>"

text \<open>\<open>!v\<close> is false for functions and objects.\<close>

definition truthy_value :: "property_value \<Rightarrow> bool" where
  "truthy_value r = (case r of Data v \<Rightarrow> js_truthy v | _ \<Rightarrow> True)"

text \<open>The elements of an array, and the characters of a string, under their indices.\<close>

definition indexed :: "jsval list \<Rightarrow> (string \<times> jsval) list" where
  "indexed vs = zip (map show_nat [0..<length vs]) vs"

text \<open>\<open>{...v}\<close>: the own enumerable properties of \<open>v\<close>. Functions and \<open>Object.prototype\<close>
  have none, nor have numbers, booleans, \<open>null\<close> and \<open>undefined\<close>.\<close>

definition spread :: "jsval \<Rightarrow> (string \<times> jsval) list" where
  "spread v =
     (case v of
        JObj kvs \<Rightarrow> kvs
      | JArr vs \<Rightarrow> indexed vs
      | JStr cs \<Rightarrow> indexed (map (\<lambda>c. JStr [c]) cs)
      | _ \<Rightarrow> [])"

definition spread_value :: "property_value \<Rightarrow> (string \<times> jsval) list" where
  "spread_value r = (case r of Data v \<Rightarrow> spread v | _ \<Rightarrow> [])"

text \<open>\<open>{...obj, ...props}\<close>: each property replaces the one of its name or is added
  after the others.\<close>

definition assign_props :: "(string \<times> jsval) list \<Rightarrow> (string \<times> jsval) list
    \<Rightarrow> (string \<times> jsval) list" where
  "assign_props props obj = fold (\<lambda>p. AList.update (fst p) (snd p)) props obj"

text \<open>\<open>res.json({..., data: v})\<close> as the client receives it: the serialisation leaves
  out a property whose value is a function or \<open>undefined\<close>, and writes \<open>Object.prototype\<close>
  as \<open>{}\<close>.\<close>

definition with_data :: "(string \<times> jsval) list \<Rightarrow> property_value \<Rightarrow> jsval" where
  "with_data props r =
     (case r of
        Data v \<Rightarrow> if v = JUndefined then JObj props else JObj (props @ [(''data'', v)])
      | BuiltinFunction f \<Rightarrow> JObj props
      | BuiltinPrototype \<Rightarrow> JObj (props @ [(''data'', JObj [])]))"

text \<open>\<open>Object.values(fakeOrdersDb)\<close>: the own properties whose names are array indices
  (the decimal numerals below \<open>2^32 - 1\<close>) in ascending order, then the others in
  creation order.\<close>

definition digit_value :: "char \<Rightarrow> nat" where
  "digit_value c = of_char c - 48"

definition read_nat :: "string \<Rightarrow> nat" where
  "read_nat cs = foldl (\<lambda>a c. 10 * a + digit_value c) 0 cs"

definition array_index :: "string \<Rightarrow> nat option" where
  "array_index k =
     (let n = read_nat k in if show_nat n = k \<and> n < 4294967295 then Some n else None)"

definition Object_values :: "(string \<times> 'a) list \<Rightarrow> 'a list" where
  "Object_values obj =
     map snd (sort_key (\<lambda>p. the (array_index (fst p)))
                (filter (\<lambda>p. array_index (fst p) \<noteq> None) obj)) @
     map snd (filter (\<lambda>p. array_index (fst p) = None) obj)"

subsection \<open>The order model\<close>

definition ORDER_STATUS_CREATED :: string where
  "ORDER_STATUS_CREATED = ''created''"

definition StatusEnum :: "string list" where
  "StatusEnum = [''created'', ''in_progress'', ''completed'', ''cancelled'']"

definition generateOrderId :: "orders_state \<Rightarrow> int \<times> orders_state" where
  "generateOrderId s = (orders_currentId s, s\<lparr>orders_currentId := orders_currentId s + 1\<rparr>)"

text \<open>\<open>items.map(item => ({...item, subtotal: item.quantity * item.price}))\<close>\<close>

definition processOrderItems :: "order_item list \<Rightarrow> processed_item list" where
  "processOrderItems its =
     map (\<lambda>it. \<lparr>productId = productId it, productName = productName it,
                 quantity = quantity it, price = price it,
                 subtotal = quantity it * price it\<rparr>) its"

text \<open>\<open>items.reduce((sum, item) => sum + item.subtotal, 0)\<close>\<close>

definition sum_subtotals :: "processed_item list \<Rightarrow> int" where
  "sum_subtotals its = foldl (\<lambda>sum it. sum + subtotal it) 0 its"

text \<open>\<open>if (!totalAmount)\<close>: an absent total and the total 0 are both recomputed.\<close>

definition falsy_num :: "int option \<Rightarrow> bool" where
  "falsy_num n = (case n of None \<Rightarrow> True | Some i \<Rightarrow> i = 0)"

definition createOrderModel :: "string \<Rightarrow> orderData \<Rightarrow> orders_state \<Rightarrow> order \<times> orders_state" where
  "createOrderModel now d s =
     (let processedItems = processOrderItems (od_items d);
          totalAmount = (if falsy_num (od_totalAmount d) then sum_subtotals processedItems
                         else the (od_totalAmount d));
          (newId, s') = generateOrderId s
      in (\<lparr>order_id = newId,
           order_userId = od_userId d,
           order_items = processedItems,
           order_status = (if od_status d = [] then ORDER_STATUS_CREATED else od_status d),
           order_totalAmount = totalAmount,
           order_createdAt = now,
           order_updatedAt = now\<rparr>, s'))"

text \<open>The objects of an item as the schema returns it, of a processed item, and of an
  order, properties in the order in which the code writes them.\<close>

definition order_item_obj :: "order_item \<Rightarrow> jsval" where
  "order_item_obj it =
     JObj [(''productId'', JStr (productId it)),
           (''productName'', JStr (productName it)),
           (''quantity'', JNum (quantity it)),
           (''price'', JNum (price it))]"

definition item_obj :: "processed_item \<Rightarrow> jsval" where
  "item_obj it =
     JObj [(''productId'', JStr (productId it)),
           (''productName'', JStr (productName it)),
           (''quantity'', JNum (quantity it)),
           (''price'', JNum (price it)),
           (''subtotal'', JNum (subtotal it))]"

definition order_obj :: "order \<Rightarrow> jsval" where
  "order_obj ord =
     JObj [(''id'', JNum (order_id ord)),
           (''userId'', JNum (order_userId ord)),
           (''items'', JArr (map item_obj (order_items ord))),
           (''status'', JStr (order_status ord)),
           (''totalAmount'', JNum (order_totalAmount ord)),
           (''createdAt'', JStr (order_createdAt ord)),
           (''updatedAt'', JStr (order_updatedAt ord))]"

text \<open>What \<open>updateOrderSchema\<close> returns for a body it accepts: the object with those of
  the properties \<open>items\<close>, \<open>totalAmount\<close>, \<open>status\<close> that the body has, in this order (the
  schema drops every other property).\<close>

record orderUpdate =
  ou_items :: "order_item list option"
  ou_totalAmount :: "int option"
  ou_status :: "string option"

definition updateData_props :: "orderUpdate \<Rightarrow> (string \<times> jsval) list" where
  "updateData_props updateData =
     (case ou_items updateData of
        None \<Rightarrow> [] | Some its \<Rightarrow> [(''items'', JArr (map order_item_obj its))]) @
     (case ou_totalAmount updateData of
        None \<Rightarrow> [] | Some t \<Rightarrow> [(''totalAmount'', JNum t)]) @
     (case ou_status updateData of
        None \<Rightarrow> [] | Some st \<Rightarrow> [(''status'', JStr st)])"

text \<open>\<open>updateOrderModel\<close>: \<open>{...existingOrder, ...updateData, updatedAt: now}\<close>, then the
  items processed and the total recomputed when the update has items. The result is an
  object literal, given by its properties.\<close>

definition updateOrderModel :: "string \<Rightarrow> property_value \<Rightarrow> orderUpdate
    \<Rightarrow> (string \<times> jsval) list" where
  "updateOrderModel now existingOrder updateData =
     (let updatedOrder =
            AList.update ''updatedAt'' (JStr now)
              (assign_props (updateData_props updateData) (spread_value existingOrder))
      in case ou_items updateData of
           None \<Rightarrow> updatedOrder
         | Some its \<Rightarrow>
             (let processed = processOrderItems its;
                  withItems = AList.update ''items'' (JArr (map item_obj processed)) updatedOrder
              in if falsy_num (ou_totalAmount updateData)
                 then AList.update ''totalAmount'' (JNum (sum_subtotals processed)) withItems
                 else withItems))"

subsection \<open>The request schemas of order creation\<close>

text \<open>The name the validator gives the type of a value it rejects, and its message for a
  value of the wrong type (\<open>Required\<close> when the value is missing).\<close>

definition zod_type :: "jsval \<Rightarrow> string" where
  "zod_type v =
     (case v of
        JUndefined \<Rightarrow> ''undefined'' | JNull \<Rightarrow> ''null'' | JBool _ \<Rightarrow> ''boolean''
      | JNum _ \<Rightarrow> ''number'' | JStr _ \<Rightarrow> ''string'' | JArr _ \<Rightarrow> ''array''
      | JObj _ \<Rightarrow> ''object'')"

definition invalid_type :: "string \<Rightarrow> jsval \<Rightarrow> string" where
  "invalid_type expected v =
     (if v = JUndefined then ''Required''
      else ''Expected '' @ expected @ '', received '' @ zod_type v)"

text \<open>\<open>z.string().min(1, msg)\<close>\<close>

definition z_string_min1 :: "string \<Rightarrow> string \<Rightarrow> jsval \<Rightarrow> string parsed" where
  "z_string_min1 path msg v =
     (case v of
        JStr s \<Rightarrow> if s = [] then Inl [(path, msg)] else Inr s
      | _ \<Rightarrow> Inl [(path, invalid_type ''string'' v)])"

text \<open>\<open>z.number().min(lo, msg)\<close>, also for \<open>.int()\<close> and \<open>.positive(msg)\<close> (\<open>lo = 1\<close>):
  every modelled number is an integer.\<close>

definition z_number_min :: "string \<Rightarrow> int \<Rightarrow> string \<Rightarrow> jsval \<Rightarrow> int parsed" where
  "z_number_min path lo msg v =
     (case v of
        JNum n \<Rightarrow> if n < lo then Inl [(path, msg)] else Inr n
      | _ \<Rightarrow> Inl [(path, invalid_type ''number'' v)])"

definition errors_of :: "'a parsed \<Rightarrow> (string \<times> string) list" where
  "errors_of p = (case p of Inl errs \<Rightarrow> errs | Inr _ \<Rightarrow> [])"

definition dot :: "string \<Rightarrow> string \<Rightarrow> string" where
  "dot path k = (if path = [] then k else path @ ''.'' @ k)"

definition OrderItemSchema :: "string \<Rightarrow> jsval \<Rightarrow> order_item parsed" where
  "OrderItemSchema path v =
     (case v of
        JObj kvs \<Rightarrow>
          (let pid = z_string_min1 (dot path ''productId'') ''Product ID is required''
                       (get_prop kvs ''productId'');
               pname = z_string_min1 (dot path ''productName'') ''Product name is required''
                         (get_prop kvs ''productName'');
               qty = z_number_min (dot path ''quantity'') 1 ''Quantity must be at least 1''
                       (get_prop kvs ''quantity'');
               prc = z_number_min (dot path ''price'') 0 ''Price must be non-negative''
                       (get_prop kvs ''price'')
           in case (pid, pname, qty, prc) of
                (Inr a, Inr b, Inr c, Inr d) \<Rightarrow>
                  Inr \<lparr>productId = a, productName = b, quantity = c, price = d\<rparr>
              | _ \<Rightarrow> Inl (errors_of pid @ errors_of pname @ errors_of qty @ errors_of prc))
      | _ \<Rightarrow> Inl [(path, invalid_type ''object'' v)])"

text \<open>The elements of an array against the item schema, each under its index.\<close>

fun parse_items :: "string \<Rightarrow> nat \<Rightarrow> jsval list \<Rightarrow> (order_item list) parsed" where
  "parse_items path i [] = Inr []"
| "parse_items path i (v # vs) =
     (case (OrderItemSchema (dot path (show_nat i)) v, parse_items path (Suc i) vs) of
        (Inr it, Inr its) \<Rightarrow> Inr (it # its)
      | (p, ps) \<Rightarrow> Inl (errors_of p @ errors_of ps))"

text \<open>\<open>z.array(OrderItemSchema).min(1, msg)\<close>\<close>

definition z_items_min1 :: "string \<Rightarrow> jsval \<Rightarrow> (order_item list) parsed" where
  "z_items_min1 path v =
     (case v of
        JArr vs \<Rightarrow>
          (if vs = [] then Inl [(path, ''Order must contain at least one item'')]
           else parse_items path 0 vs)
      | _ \<Rightarrow> Inl [(path, invalid_type ''array'' v)])"

text \<open>\<open>z.number().min(0, msg).optional()\<close>\<close>

definition z_totalAmount :: "jsval \<Rightarrow> (int option) parsed" where
  "z_totalAmount v =
     (if v = JUndefined then Inr None
      else case z_number_min ''totalAmount'' 0 ''Total amount must be non-negative'' v of
             Inl errs \<Rightarrow> Inl errs
           | Inr n \<Rightarrow> Inr (Some n))"

definition quoted :: "string \<Rightarrow> string" where
  "quoted s = [CHR 0x27] @ s @ [CHR 0x27]"

definition enum_options :: string where
  "enum_options = quoted ''created'' @ '' | '' @ quoted ''in_progress'' @ '' | '' @
                  quoted ''completed'' @ '' | '' @ quoted ''cancelled''"

text \<open>\<open>StatusEnum.default('created')\<close>\<close>

definition z_status_default :: "jsval \<Rightarrow> string parsed" where
  "z_status_default v =
     (case v of
        JUndefined \<Rightarrow> Inr ORDER_STATUS_CREATED
      | JStr s \<Rightarrow>
          if s \<in> set StatusEnum then Inr s
          else Inl [(''status'', ''Invalid enum value. Expected '' @ enum_options @
                       '', received '' @ quoted s)]
      | _ \<Rightarrow> Inl [(''status'', ''Expected '' @ enum_options @ '', received '' @ zod_type v)])"

definition createOrderSchema :: "jsval \<Rightarrow> orderData parsed" where
  "createOrderSchema v =
     (case v of
        JObj kvs \<Rightarrow>
          (let uid = z_number_min ''userId'' 1 ''User ID must be a positive integer''
                       (get_prop kvs ''userId'');
               its = z_items_min1 ''items'' (get_prop kvs ''items'');
               tot = z_totalAmount (get_prop kvs ''totalAmount'');
               st = z_status_default (get_prop kvs ''status'')
           in case (uid, its, tot, st) of
                (Inr a, Inr b, Inr c, Inr d) \<Rightarrow>
                  Inr \<lparr>od_userId = a, od_items = b, od_totalAmount = c, od_status = d\<rparr>
              | _ \<Rightarrow> Inl (errors_of uid @ errors_of its @ errors_of tot @ errors_of st))
      | _ \<Rightarrow> Inl [([], invalid_type ''object'' v)])"

subsection \<open>The handlers\<close>

text \<open>\<open>checkUserExists\<close>: the answer of the users service to \<open>GET /users/:userId\<close>
  (\<open>None\<close> when the fetch fails, which counts as existing).\<close>

definition checkUserExists :: "response option \<Rightarrow> bool" where
  "checkUserExists r =
     (case r of None \<Rightarrow> True | Some resp \<Rightarrow> 200 \<le> status resp \<and> status resp \<le> 299)"

definition orders_failed :: "string \<Rightarrow> jsval" where
  "orders_failed msg = JObj [(''success'', JBool False), (''error'', JStr msg)]"

definition orders_ok :: "jsval \<Rightarrow> jsval" where
  "orders_ok d = JObj [(''success'', JBool True), (''data'', d)]"

definition orders_invalid :: "(string \<times> string) list \<Rightarrow> jsval" where
  "orders_invalid errs =
     JObj [(''success'', JBool False), (''error'', JStr ''Validation failed''),
           (''errors'', error_list errs)]"

text \<open>\<open>POST /orders\<close>\<close>

definition createOrder :: "string \<Rightarrow> response option \<Rightarrow> jsval \<Rightarrow> orders_state
    \<Rightarrow> response \<times> orders_state" where
  "createOrder now userFetch reqBody s =
     (case createOrderSchema reqBody of
        Inl errs \<Rightarrow> (Response 400 (orders_invalid errs), s)
      | Inr d \<Rightarrow>
          if \<not> checkUserExists userFetch
          then (Response 404 (orders_failed ''User not found''), s)
          else
            (let (newOrder, s1) = createOrderModel now d s;
                 s2 = fakeOrdersDb_set s1 (number_key (order_id newOrder)) (order_obj newOrder)
             in (Response 201 (orders_ok (order_obj newOrder)), s2)))"

text \<open>\<open>GET /orders/:orderId\<close>, given the path parameter (Express gives the requests
  \<open>GET /orders/status\<close> and \<open>GET /orders/health\<close> to the routes registered before this
  one).\<close>

definition getOrder :: "string \<Rightarrow> orders_state \<Rightarrow> response \<times> orders_state" where
  "getOrder orderId s =
     (let ord = fakeOrdersDb_get s orderId
      in if \<not> truthy_value ord
         then (Response 404 (orders_failed ''Order not found''), s)
         else (Response 200 (with_data [(''success'', JBool True)] ord), s))"

text \<open>What the list handlers take from the JavaScript library: \<open>Array.prototype.sort\<close>
  with the comparator of \<open>GET /orders\<close> (descending \<open>createdAt\<close>), and with the
  comparator of \<open>GET /orders/user/:userId\<close> for a property and an order.\<close>

record orders_env =
  sort_newest_first :: "jsval list \<Rightarrow> jsval list"
  sort_orders :: "string \<Rightarrow> string \<Rightarrow> jsval list \<Rightarrow> jsval list"

text \<open>\<open>orders.filter(order => order.k === expected)\<close>: reading a property of
  \<open>undefined\<close> or \<open>null\<close> throws (\<open>None\<close>); \<open>expected\<close> is \<open>None\<close> for \<open>NaN\<close>, which
  equals no value.\<close>

definition prop_is :: "string \<Rightarrow> jsval option \<Rightarrow> jsval \<Rightarrow> bool option" where
  "prop_is k expected v =
     (case js_get v k of None \<Rightarrow> None | Some x \<Rightarrow> Some (expected = Some x))"

definition filter_by :: "string \<Rightarrow> jsval option \<Rightarrow> jsval list \<Rightarrow> jsval list option" where
  "filter_by k expected vs =
     (if list_ex (\<lambda>v. prop_is k expected v = None) vs then None
      else Some (filter (\<lambda>v. prop_is k expected v = Some True) vs))"

definition filter_status :: "string option \<Rightarrow> jsval list option \<Rightarrow> jsval list option" where
  "filter_status statusQ orders =
     (if truthy_str statusQ
      then (case orders of
              None \<Rightarrow> None
            | Some os \<Rightarrow> filter_by ''status'' (Some (JStr (the statusQ))) os)
      else orders)"

text \<open>\<open>GET /orders\<close>; the \<open>userId\<close> filter is given as \<open>parseInt\<close> returned it, when the
  query has a \<open>userId\<close>. A handler that throws answers 500.\<close>

definition listOrders :: "orders_env \<Rightarrow> int option option \<Rightarrow> string option
    \<Rightarrow> orders_state \<Rightarrow> response \<times> orders_state" where
  "listOrders env userIdQ statusQ s =
     (let orders0 = Object_values (fakeOrdersDb s);
          orders1 = (case userIdQ of
                       None \<Rightarrow> Some orders0
                     | Some uid \<Rightarrow> filter_by ''userId'' (map_option JNum uid) orders0);
          orders2 = filter_status statusQ orders1
      in case orders2 of
           None \<Rightarrow> (Response 500 (orders_failed ''Internal server error''), s)
         | Some os \<Rightarrow> (Response 200 (orders_ok (JArr (sort_newest_first env os))), s))"

text \<open>\<open>GET /orders/user/:userId\<close>; \<open>userId\<close>, \<open>page\<close> and \<open>limit\<close> are given as \<open>parseInt\<close>
  returned them (\<open>None\<close> for \<open>NaN\<close>).\<close>

record user_orders_query =
  uq_status :: "string option"
  uq_sortBy :: "string option"
  uq_sortOrder :: "string option"
  uq_page :: "int option"
  uq_limit :: "int option"

text \<open>\<open>parseInt(x) || d\<close>\<close>

definition num_or :: "int option \<Rightarrow> int \<Rightarrow> int" where
  "num_or n d = (case n of None \<Rightarrow> d | Some i \<Rightarrow> if i = 0 then d else i)"

definition listUserOrders :: "orders_env \<Rightarrow> int option \<Rightarrow> user_orders_query
    \<Rightarrow> orders_state \<Rightarrow> response \<times> orders_state" where
  "listUserOrders env userId q s =
     (let orders1 = filter_by ''userId'' (map_option JNum userId) (Object_values (fakeOrdersDb s));
          orders2 = filter_status (uq_status q) orders1;
          sortBy = (if truthy_str (uq_sortBy q) then the (uq_sortBy q) else ''createdAt'');
          sortOrder = (if truthy_str (uq_sortOrder q) then the (uq_sortOrder q) else ''desc'');
          pageNum = max 1 (num_or (uq_page q) 1);
          limitNum = min 100 (max 1 (num_or (uq_limit q) 10))
      in case orders2 of
           None \<Rightarrow> (Response 500 (orders_failed ''Internal server error''), s)
         | Some os \<Rightarrow>
             (let orders = sort_orders env sortBy sortOrder os;
                  totalOrders = length orders
              in (Response 200
                    (JObj [(''success'', JBool True),
                           (''orders'', JArr (page_slice (Some pageNum) (Some limitNum) orders)),
                           (''pagination'',
                              JObj [(''page'', JNum pageNum),
                                    (''limit'', JNum limitNum),
                                    (''total'', JNum (int totalOrders)),
                                    (''totalPages'',
                                       num_or_nan (total_pages totalOrders (Some limitNum)))]),
                           (''filters'', JObj [(''status'', str_or_null (uq_status q))]),
                           (''sorting'',
                              JObj [(''sortBy'', JStr sortBy), (''sortOrder'', JStr sortOrder)])]),
                  s)))"

text \<open>\<open>PUT /orders/:orderId\<close>; \<open>validation\<close> is what \<open>updateOrderSchema\<close> makes of the
  body.\<close>

definition putOrder :: "string \<Rightarrow> string \<Rightarrow> orderUpdate parsed \<Rightarrow> orders_state
    \<Rightarrow> response \<times> orders_state" where
  "putOrder now orderId validation s =
     (let existingOrder = fakeOrdersDb_get s orderId
      in if \<not> truthy_value existingOrder
         then (Response 404 (orders_failed ''Order not found''), s)
         else
           (case validation of
              Inl errs \<Rightarrow> (Response 400 (orders_invalid errs), s)
            | Inr updateData \<Rightarrow>
                (let updatedOrder = JObj (updateOrderModel now existingOrder updateData)
                 in (Response 200 (orders_ok updatedOrder),
                     fakeOrdersDb_set s orderId updatedOrder))))"

text \<open>\<open>DELETE /orders/:orderId\<close>\<close>

definition deleteOrder :: "string \<Rightarrow> orders_state \<Rightarrow> response \<times> orders_state" where
  "deleteOrder orderId s =
     (let deletedOrder = fakeOrdersDb_get s orderId
      in if \<not> truthy_value deletedOrder
         then (Response 404 (orders_failed ''Order not found''), s)
         else (Response 200
                 (with_data [(''success'', JBool True),
                             (''message'', JStr ''Order deleted successfully'')]
                    deletedOrder),
               fakeOrdersDb_delete s orderId))"

text \<open>\<open>GET /orders/health\<close> and \<open>GET /orders/status\<close>\<close>

definition orders_health :: "string \<Rightarrow> orders_state \<Rightarrow> response \<times> orders_state" where
  "orders_health now s =
     (Response 200
        (JObj [(''status'', JStr ''OK''), (''service'', JStr ''Orders Service''),
               (''timestamp'', JStr now)]), s)"

definition orders_status :: "orders_state \<Rightarrow> response \<times> orders_state" where
  "orders_status s = (Response 200 (JObj [(''status'', JStr ''Orders service is running'')]), s)"

datatype orders_req =
    CreateOrder string "response option" jsval
  | GetOrder string
  | ListOrders "int option option" "string option"
  | ListUserOrders "int option" user_orders_query
  | PutOrder string string "orderUpdate parsed"
  | DeleteOrder string
  | OrdersHealth string
  | OrdersStatus

fun orders_service :: "orders_env \<Rightarrow> orders_state \<Rightarrow> orders_req
    \<Rightarrow> response \<times> orders_state" where
  "orders_service env s (CreateOrder now userFetch reqBody) = createOrder now userFetch reqBody s"
| "orders_service env s (GetOrder orderId) = getOrder orderId s"
| "orders_service env s (ListOrders userIdQ statusQ) = listOrders env userIdQ statusQ s"
| "orders_service env s (ListUserOrders userId q) = listUserOrders env userId q s"
| "orders_service env s (PutOrder now orderId validation) = putOrder now orderId validation s"
| "orders_service env s (DeleteOrder orderId) = deleteOrder orderId s"
| "orders_service env s (OrdersHealth now) = orders_health now s"
| "orders_service env s OrdersStatus = orders_status s"

text \<open>The ids of the records a step creates: the \<open>id\<close> of every record that the store
  holds after the step under a property name that it did not have before it (a record
  without a number as \<open>id\<close> has none).\<close>

definition record_ids :: "jsval \<Rightarrow> int list" where
  "record_ids v = (case js_get v ''id'' of Some (JNum n) \<Rightarrow> [n] | _ \<Rightarrow> [])"

definition created_order_ids :: "(string \<times> jsval) list \<Rightarrow> (string \<times> jsval) list \<Rightarrow> int list" where
  "created_order_ids db db' =
     concat (map (\<lambda>p. record_ids (snd p)) (filter (\<lambda>p. fst p \<notin> set (map fst db)) db'))"

fun orders_issued :: "orders_env \<Rightarrow> orders_state \<Rightarrow> orders_req list \<Rightarrow> int list" where
  "orders_issued env s [] = []"
| "orders_issued env s (r # rs) =
     (let s' = snd (orders_service env s r)
      in created_order_ids (fakeOrdersDb s) (fakeOrdersDb s') @ orders_issued env s' rs)"

section \<open>The API gateway\<close>

subsection \<open>Writing a response\<close>

text \<open>\<open>res.status(code).json(b)\<close>: the HTTP server throws (\<open>None\<close>) when the head is
  written unless the code is a number from 100 to 999; so it does for the code
  \<open>undefined\<close>.\<close>

definition res_status_json :: "jsval \<Rightarrow> jsval \<Rightarrow> response option" where
  "res_status_json code b =
     (case code of
        JNum n \<Rightarrow> if 100 \<le> n \<and> n \<le> 999 then Some (Response n b) else None
      | _ \<Rightarrow> None)"

subsection \<open>Upstream calls through the circuit breakers\<close>

definition API_VERSION :: string where
  "API_VERSION = ''/api/v1''"

definition USERS_SERVICE_URL :: string where
  "USERS_SERVICE_URL = ''http://service_users:8000''"

definition ORDERS_SERVICE_URL :: string where
  "ORDERS_SERVICE_URL = ''http://service_orders:8000''"

record circuit_options =
  timeout :: nat
  errorThresholdPercentage :: nat
  resetTimeout :: nat

definition circuitOptions :: circuit_options where
  "circuitOptions = \<lparr>timeout = 3000, errorThresholdPercentage = 50, resetTimeout = 3000\<rparr>"

text \<open>What the network does with one request: the upstream answers, nothing arrives
  before the breaker's timeout, or no connection is made.\<close>

datatype transport = Responded response | TimedOut | ConnectionFailed

text \<open>How a promise stands when the breaker's timeout elapses.\<close>

datatype 'a settled = Resolved 'a | Rejected | Unsettled

text \<open>\<open>axios({url, ...options, validateStatus})\<close>, by the contract of the HTTP client:
  the promise resolves with the response when \<open>validateStatus\<close> accepts its status
  code, and rejects when it does not or when no connection is made.\<close>

definition axios :: "(int \<Rightarrow> bool) \<Rightarrow> transport \<Rightarrow> response settled" where
  "axios validateStatus t =
     (case t of
        Responded r \<Rightarrow> if validateStatus (status r) then Resolved r else Rejected
      | TimedOut \<Rightarrow> Unsettled
      | ConnectionFailed \<Rightarrow> Rejected)"

text \<open>The action of each breaker:
  \<open>async (url, options) => { const response = await axios({url, ...options,
  validateStatus: () => true}); return {data: response.data, status: response.status}; }\<close>\<close>

definition circuit_action :: "transport \<Rightarrow> jsval settled" where
  "circuit_action t =
     (case axios (\<lambda>_. True) t of
        Resolved r \<Rightarrow> Resolved (JObj [(''data'', body r), (''status'', JNum (status r))])
      | Rejected \<Rightarrow> Rejected
      | Unsettled \<Rightarrow> Unsettled)"

definition usersCircuit_action :: "transport \<Rightarrow> jsval settled" where
  "usersCircuit_action = circuit_action"

definition ordersCircuit_action :: "transport \<Rightarrow> jsval settled" where
  "ordersCircuit_action = circuit_action"

text \<open>Modelled from the spec: what a breaker counts as a failed call (the breaker is the
  \<open>opossum\<close> package, which is not part of the sources). A call fails when its
  action's promise rejects or has not settled when the timeout elapses; an action that
  resolves is a success.\<close>

definition breaker_failure :: "'a settled \<Rightarrow> bool" where
  "breaker_failure r = (case r of Resolved _ \<Rightarrow> False | Rejected \<Rightarrow> True | Unsettled \<Rightarrow> True)"

datatype circuit_status = Closed | Open | HalfOpen

datatype upstream = UsersUpstream | OrdersUpstream

definition usersCircuit_fallback :: jsval where
  "usersCircuit_fallback = JObj [(''error'', JStr ''Users service temporarily unavailable'')]"

definition ordersCircuit_fallback :: jsval where
  "ordersCircuit_fallback = JObj [(''error'', JStr ''Orders service temporarily unavailable'')]"

definition fallback_of :: "upstream \<Rightarrow> jsval" where
  "fallback_of u = (case u of UsersUpstream \<Rightarrow> usersCircuit_fallback
                            | OrdersUpstream \<Rightarrow> ordersCircuit_fallback)"

definition action_of :: "upstream \<Rightarrow> transport \<Rightarrow> jsval settled" where
  "action_of u = (case u of UsersUpstream \<Rightarrow> usersCircuit_action
                          | OrdersUpstream \<Rightarrow> ordersCircuit_action)"

text \<open>Modelled from the spec: \<open>await circuit.fire(url, options)\<close> with a fallback
  registered. An open breaker answers with the fallback's value without running the
  action; otherwise the action runs, and the fallback's value stands in when it
  fails.\<close>

definition fire :: "upstream \<Rightarrow> circuit_status \<Rightarrow> transport \<Rightarrow> jsval" where
  "fire u st t =
     (if st = Open then fallback_of u
      else case action_of u t of Resolved v \<Rightarrow> v | _ \<Rightarrow> fallback_of u)"

record upstream_call =
  target :: upstream
  url :: string
  http_method :: string
  payload :: jsval

text \<open>The world a handler fires into: the state of each breaker and what the network
  does with each request.\<close>

record backend =
  usersCircuit :: circuit_status
  ordersCircuit :: circuit_status
  net :: "upstream_call \<Rightarrow> transport"

definition circuit_of :: "backend \<Rightarrow> upstream \<Rightarrow> circuit_status" where
  "circuit_of be u = (case u of UsersUpstream \<Rightarrow> usersCircuit be
                              | OrdersUpstream \<Rightarrow> ordersCircuit be)"

definition fire_call :: "backend \<Rightarrow> upstream_call \<Rightarrow> jsval" where
  "fire_call be c = fire (target c) (circuit_of be (target c)) (net be c)"

subsection \<open>Domain events\<close>

record domain_event =
  event_id :: string
  event_type :: string
  event_data :: jsval
  aggregateId :: jsval
  event_timestamp :: string
  event_version :: string

definition ORDER_CREATED :: string where
  "ORDER_CREATED = ''order.created''"

definition ORDER_STATUS_UPDATED :: string where
  "ORDER_STATUS_UPDATED = ''order.status.updated''"

definition ORDER_CANCELLED :: string where
  "ORDER_CANCELLED = ''order.cancelled''"

text \<open>\<open>new DomainEvent(type, data, aggregateId)\<close>; the generated id and the clock are
  given.\<close>

definition DomainEvent :: "string \<Rightarrow> string \<Rightarrow> string \<Rightarrow> jsval \<Rightarrow> jsval \<Rightarrow> domain_event" where
  "DomainEvent eid now type d aggId =
     \<lparr>event_id = eid, event_type = type, event_data = d, aggregateId = aggId,
      event_timestamp = now, event_version = ''1.0''\<rparr>"

text \<open>\<open>new OrderCreatedEvent(order)\<close>, for an object \<open>order\<close>.\<close>

definition OrderCreatedEvent :: "string \<Rightarrow> string \<Rightarrow> (string \<times> jsval) list \<Rightarrow> domain_event" where
  "OrderCreatedEvent eid now ord =
     DomainEvent eid now ORDER_CREATED
       (JObj [(''orderId'', get_prop ord ''id''),
              (''userId'', get_prop ord ''userId''),
              (''items'', get_prop ord ''items''),
              (''totalAmount'', get_prop ord ''totalAmount''),
              (''status'', get_prop ord ''status''),
              (''createdAt'', get_prop ord ''createdAt'')])
       (get_prop ord ''id'')"

datatype event_handler = HandleOrderCreated | HandleOrderStatusUpdated | HandleOrderCancelled

text \<open>The publisher: its subscribers by event type, the events it has published and the
  deliveries its local handlers have received. The message broker is not enabled.\<close>

record publisher =
  subscribers :: "(string \<times> event_handler list) list"
  isMessageBrokerEnabled :: bool
  published :: "domain_event list"
  delivered :: "(event_handler \<times> domain_event) list"

definition subscribe :: "string \<Rightarrow> event_handler \<Rightarrow> publisher \<Rightarrow> publisher" where
  "subscribe eventType handler pub =
     pub\<lparr>subscribers :=
           AList.update eventType
             ((case map_of (subscribers pub) eventType of None \<Rightarrow> [] | Some hs \<Rightarrow> hs) @ [handler])
             (subscribers pub)\<rparr>"

definition eventPublisher :: publisher where
  "eventPublisher =
     subscribe ORDER_CANCELLED HandleOrderCancelled
       (subscribe ORDER_STATUS_UPDATED HandleOrderStatusUpdated
          (subscribe ORDER_CREATED HandleOrderCreated
             \<lparr>subscribers = [], isMessageBrokerEnabled = False, published = [],
              delivered = []\<rparr>))"

text \<open>\<open>notifyLocalSubscribers\<close>: the handlers of the event's type, in subscription
  order; the order handlers only log, so none of them throws.\<close>

definition notifyLocalSubscribers :: "domain_event \<Rightarrow> publisher \<Rightarrow> publisher" where
  "notifyLocalSubscribers ev pub =
     (let handlers = (case map_of (subscribers pub) (event_type ev) of
                        None \<Rightarrow> [] | Some hs \<Rightarrow> hs)
      in pub\<lparr>delivered := delivered pub @ map (\<lambda>h. (h, ev)) handlers\<rparr>)"

definition publish :: "domain_event \<Rightarrow> publisher \<Rightarrow> publisher" where
  "publish ev pub = notifyLocalSubscribers ev (pub\<lparr>published := published pub @ [ev]\<rparr>)"

subsection \<open>Guards\<close>

record gw_request =
  authorization :: "string option"
  req_user :: jsval
  req_body :: jsval
  param_userId :: string

text \<open>What the gateway takes from its environment: \<open>jwt.verify(token, JWT_SECRET)\<close>
  (\<open>None\<close> when it throws), the loose equality \<open>v == s\<close> of a value and a string, and
  the id and the clock of the event a handler creates.\<close>

record gw_env =
  jwt_verify :: "string \<Rightarrow> jsval option"
  loose_eq :: "jsval \<Rightarrow> string \<Rightarrow> bool"
  new_event_id :: string
  clock :: string

datatype 'a step = Respond response | Next 'a

definition gw_error :: "string \<Rightarrow> jsval" where
  "gw_error msg = JObj [(''success'', JBool False), (''error'', JObj [(''message'', JStr msg)])]"

text \<open>\<open>authHeader && authHeader.startsWith('Bearer ') ? authHeader.substring(7) : null\<close>\<close>

definition bearer_token :: "string option \<Rightarrow> string option" where
  "bearer_token authHeader =
     (case authHeader of
        None \<Rightarrow> None
      | Some h \<Rightarrow> if take 7 h = ''Bearer '' then Some (drop 7 h) else None)"

definition authenticateJWT :: "gw_env \<Rightarrow> gw_request \<Rightarrow> gw_request step" where
  "authenticateJWT env req =
     (case bearer_token (authorization req) of
        None \<Rightarrow> Respond (Response 401 (gw_error ''Access token is missing or invalid''))
      | Some token \<Rightarrow>
          if token = []
          then Respond (Response 401 (gw_error ''Access token is missing or invalid''))
          else (case jwt_verify env token of
                  None \<Rightarrow> Respond (Response 401 (gw_error ''Invalid or expired token''))
                | Some decoded \<Rightarrow> Next (req\<lparr>req_user := decoded\<rparr>)))"

text \<open>\<open>xs.join(', ')\<close>\<close>

fun join_comma :: "string list \<Rightarrow> string" where
  "join_comma [] = []"
| "join_comma [x] = x"
| "join_comma (x # y # ys) = x @ '', '' @ join_comma (y # ys)"

text \<open>\<open>req.user.roles\<close> when it is an array (\<open>req.user\<close> being truthy).\<close>

definition roles_array :: "jsval \<Rightarrow> jsval list option" where
  "roles_array user =
     (case js_get user ''roles'' of Some (JArr rs) \<Rightarrow> Some rs | _ \<Rightarrow> None)"

definition requireRoles :: "string list \<Rightarrow> gw_request \<Rightarrow> gw_request step" where
  "requireRoles allowedRoles req =
     (if \<not> js_truthy (req_user req)
      then Respond (Response 401 (gw_error ''Authentication required''))
      else case roles_array (req_user req) of
             None \<Rightarrow> Respond (Response 403 (gw_error ''User roles not found''))
           | Some rs \<Rightarrow>
               if list_ex (\<lambda>role. JStr role \<in> set rs) allowedRoles then Next req
               else Respond (Response 403
                      (gw_error (''Access denied. Required roles: '' @ join_comma allowedRoles))))"

subsection \<open>Routes\<close>

text \<open>A handler returns its response, the calls it fired and the publisher as it leaves
  it.\<close>

type_synonym handler = "gw_request \<Rightarrow> publisher \<Rightarrow> response \<times> upstream_call list \<times> publisher"

text \<open>The middlewares of a route run in order; the first that responds ends the request.\<close>

fun run_chain :: "(gw_request \<Rightarrow> gw_request step) list \<Rightarrow> handler \<Rightarrow> handler" where
  "run_chain [] h req pub = h req pub"
| "run_chain (m # ms) h req pub =
     (case m req of Respond r \<Rightarrow> (r, [], pub) | Next req' \<Rightarrow> run_chain ms h req' pub)"

datatype route =
    GET_users_status | GET_users_health | GET_users_profile | PUT_users_profile
  | GET_users_userId | POST_users | GET_users | DELETE_users_userId | PUT_users_userId
  | POST_users_register | POST_users_login
  | GET_orders_health | GET_orders_status | GET_orders_my | GET_orders_orderId
  | POST_orders | GET_orders | DELETE_orders_orderId | PATCH_orders_status
  | PATCH_orders_cancel | PUT_orders_orderId | GET_users_details
  | GET_health | GET_status

text \<open>The routes registered with \<open>authenticateJWT\<close>, and the role list of those
  registered with \<open>requireRoles\<close>.\<close>

definition route_auth :: "route \<Rightarrow> bool" where
  "route_auth r \<longleftrightarrow>
     r \<in> set [GET_users_profile, PUT_users_profile, GET_users_userId, POST_users, GET_users,
              DELETE_users_userId, PUT_users_userId, GET_orders_my, GET_orders_orderId,
              POST_orders, GET_orders, DELETE_orders_orderId, PATCH_orders_status,
              PATCH_orders_cancel, PUT_orders_orderId, GET_users_details]"

fun route_roles :: "route \<Rightarrow> string list option" where
  "route_roles GET_users_userId = Some [''Manager'', ''Admin'']"
| "route_roles POST_users = Some [''Admin'']"
| "route_roles GET_users = Some [''Manager'', ''Admin'']"
| "route_roles DELETE_users_userId = Some [''Admin'']"
| "route_roles PUT_users_userId = Some [''Admin'']"
| "route_roles GET_orders_orderId = Some [''Engineer'', ''Manager'', ''Admin'']"
| "route_roles POST_orders = Some [''Customer'', ''Manager'', ''Admin'']"
| "route_roles GET_orders = Some [''Engineer'', ''Manager'', ''Admin'']"
| "route_roles DELETE_orders_orderId = Some [''Manager'', ''Admin'']"
| "route_roles PATCH_orders_status = Some [''Engineer'', ''Manager'', ''Admin'']"
| "route_roles PATCH_orders_cancel = Some [''Manager'', ''Admin'']"
| "route_roles PUT_orders_orderId = Some [''Manager'', ''Admin'']"
| "route_roles GET_users_details = Some [''Manager'', ''Admin'']"
| "route_roles _ = None"

definition route_guards :: "gw_env \<Rightarrow> route \<Rightarrow> (gw_request \<Rightarrow> gw_request step) list" where
  "route_guards env r =
     (if route_auth r then [authenticateJWT env] else []) @
     (case route_roles r of None \<Rightarrow> [] | Some allowedRoles \<Rightarrow> [requireRoles allowedRoles])"

definition run_route :: "gw_env \<Rightarrow> route \<Rightarrow> handler \<Rightarrow> handler" where
  "run_route env r h = run_chain (route_guards env r) h"

subsection \<open>Handlers\<close>

definition internal_error :: response where
  "internal_error = Response 500 (plain_error ''Internal server error'')"

definition internal_error_envelope :: response where
  "internal_error_envelope = Response 500 (orders_failed ''Internal server error'')"

text \<open>\<open>try { res.status(result.status).json(result.data); } catch (error) {
  res.status(500).json({error: 'Internal server error'}); }\<close>\<close>

definition forward :: "jsval \<Rightarrow> response" where
  "forward result =
     (case Option.bind (js_get result ''status'')
             (\<lambda>code. Option.bind (js_get result ''data'') (res_status_json code)) of
        Some r \<Rightarrow> r
      | None \<Rightarrow> internal_error)"

text \<open>The handler most routes share: fire one call and forward its result.\<close>

definition proxy :: "backend \<Rightarrow> upstream_call \<Rightarrow> publisher
    \<Rightarrow> response \<times> upstream_call list \<times> publisher" where
  "proxy be c pub = (forward (fire_call be c), [c], pub)"

definition users_status_handler :: "backend \<Rightarrow> handler" where
  "users_status_handler be req pub =
     proxy be \<lparr>target = UsersUpstream, url = USERS_SERVICE_URL @ ''/users/status'',
               http_method = ''GET'', payload = JUndefined\<rparr> pub"

definition login_call :: "gw_request \<Rightarrow> upstream_call" where
  "login_call req =
     \<lparr>target = UsersUpstream, url = USERS_SERVICE_URL @ ''/users/login'',
      http_method = ''POST'', payload = req_body req\<rparr>"

definition login_handler :: "backend \<Rightarrow> handler" where
  "login_handler be req pub = proxy be (login_call req) pub"

text \<open>\<open>POST /api/v1/orders\<close>: the order the event is built from, \<open>None\<close> when building
  it throws (the handler logs the error and publishes nothing).\<close>

definition created_order_of :: "gw_env \<Rightarrow> gw_request \<Rightarrow> jsval \<Rightarrow> (string \<times> jsval) list option" where
  "created_order_of env req d =
     Option.bind (js_get d ''data'') (\<lambda>dd.
       let orderData = js_or dd d in
       Option.bind (js_get orderData ''id'') (\<lambda>oid.
       Option.bind (js_get (req_user req) ''id'') (\<lambda>uid.
       Option.bind (js_get orderData ''items'') (\<lambda>its.
       Option.bind (if js_truthy its then Some its else js_get (req_body req) ''items'') (\<lambda>items.
       Option.bind (js_get orderData ''totalAmount'') (\<lambda>tot.
       Option.bind (js_get orderData ''status'') (\<lambda>st.
       Option.bind (js_get orderData ''createdAt'') (\<lambda>ca.
         Some [(''id'', oid), (''userId'', uid), (''items'', items), (''totalAmount'', tot),
               (''status'', js_or st (JStr ''pending'')),
               (''createdAt'', js_or ca (JStr (clock env)))]))))))))"

definition post_orders_call :: "gw_request \<Rightarrow> upstream_call" where
  "post_orders_call req =
     \<lparr>target = OrdersUpstream, url = ORDERS_SERVICE_URL @ ''/orders'',
      http_method = ''POST'', payload = req_body req\<rparr>"

definition post_orders_handler :: "gw_env \<Rightarrow> backend \<Rightarrow> handler" where
  "post_orders_handler env be req pub =
     (let c = post_orders_call req;
          result = fire_call be c;
          status_v = (case js_get result ''status'' of Some v \<Rightarrow> v | None \<Rightarrow> JUndefined);
          data_v = (case js_get result ''data'' of Some v \<Rightarrow> v | None \<Rightarrow> JUndefined);
          pub' =
            (if status_v = JNum 201 \<and> js_truthy data_v \<and>
                js_truthy (case js_get data_v ''success'' of Some v \<Rightarrow> v | None \<Rightarrow> JUndefined)
             then (case created_order_of env req data_v of
                     None \<Rightarrow> pub
                   | Some ord \<Rightarrow>
                       publish (OrderCreatedEvent (new_event_id env) (clock env) ord) pub)
             else pub)
      in (forward result, [c], pub'))"

text \<open>\<open>xs.filter(order => order.userId == userId)\<close>: a \<open>TypeError\<close> unless \<open>xs\<close> is an
  array whose elements can be read.\<close>

fun filter_orders :: "gw_env \<Rightarrow> string \<Rightarrow> jsval list \<Rightarrow> jsval list option" where
  "filter_orders env userId [] = Some []"
| "filter_orders env userId (ord # ords) =
     (case js_get ord ''userId'' of
        None \<Rightarrow> None
      | Some uid \<Rightarrow>
          (case filter_orders env userId ords of
             None \<Rightarrow> None
           | Some rest \<Rightarrow> Some (if loose_eq env uid userId then ord # rest else rest)))"

definition js_filter_orders :: "gw_env \<Rightarrow> string \<Rightarrow> jsval \<Rightarrow> jsval list option" where
  "js_filter_orders env userId v =
     (case v of JArr xs \<Rightarrow> filter_orders env userId xs | _ \<Rightarrow> None)"

definition details_calls :: "gw_request \<Rightarrow> upstream_call \<times> upstream_call" where
  "details_calls req =
     (\<lparr>target = UsersUpstream, url = USERS_SERVICE_URL @ ''/users/'' @ param_userId req,
       http_method = ''GET'', payload = JUndefined\<rparr>,
      \<lparr>target = OrdersUpstream, url = ORDERS_SERVICE_URL @ ''/orders'',
       http_method = ''GET'', payload = JUndefined\<rparr>)"

text \<open>\<open>GET /api/v1/users/:userId/details\<close>: the body of the \<open>try\<close> block, \<open>None\<close> when it
  throws.\<close>

definition details_try :: "gw_env \<Rightarrow> gw_request \<Rightarrow> jsval \<Rightarrow> jsval \<Rightarrow> response option" where
  "details_try env req userResult ordersResult =
     Option.bind (js_get userResult ''status'') (\<lambda>ust.
       if ust = JNum 404 then Some (Response 404 (orders_failed ''User not found''))
       else
         Option.bind (js_get ordersResult ''data'') (\<lambda>od.
         Option.bind (js_get od ''data'') (\<lambda>odd.
         Option.bind (if js_truthy odd then js_filter_orders env (param_userId req) odd
                      else Some []) (\<lambda>userOrders.
         Option.bind (js_get userResult ''data'') (\<lambda>ud.
           Some (Response 200
                   (JObj [(''success'', JBool True),
                          (''data'', JObj [(''user'', ud), (''orders'', JArr userOrders)])])))))))"

definition details_handler :: "gw_env \<Rightarrow> backend \<Rightarrow> handler" where
  "details_handler env be req pub =
     (let (cu, co) = details_calls req;
          userResult = fire_call be cu;
          ordersResult = fire_call be co
      in ((case details_try env req userResult ordersResult of
             Some r \<Rightarrow> r
           | None \<Rightarrow> internal_error_envelope),
          [cu, co], pub))"

subsection \<open>The gateway in front of the orders service\<close>

text \<open>\<open>POST /api/v1/orders\<close> with both breakers closed and the network delivering: the
  orders service answers the call the handler fires, and its store changes only when a
  call was fired.\<close>

definition place_order :: "gw_env \<Rightarrow> string \<Rightarrow> response option \<Rightarrow> orders_state \<Rightarrow> gw_request
    \<Rightarrow> publisher \<Rightarrow> (response \<times> upstream_call list \<times> publisher) \<times> orders_state" where
  "place_order env now userFetch s req pub =
     (let be = \<lparr>usersCircuit = Closed, ordersCircuit = Closed,
                net = (\<lambda>c. Responded (fst (createOrder now userFetch (payload c) s)))\<rparr>;
          out = run_route env POST_orders (post_orders_handler env be) req pub
      in (out, (case fst (snd out) of
                  [] \<Rightarrow> s
                | c # _ \<Rightarrow> snd (createOrder now userFetch (payload c) s))))"

section \<open>Rate limiting\<close>

record limiter_options =
  windowMs :: nat
  max_requests :: nat
  skipSuccessfulRequests :: bool
  limit_message :: string

definition generalLimiter :: limiter_options where
  "generalLimiter =
     \<lparr>windowMs = 15 * 60 * 1000, max_requests = 100, skipSuccessfulRequests = False,
      limit_message = ''Too many requests from this IP, please try again later.''\<rparr>"

definition authLimiter :: limiter_options where
  "authLimiter =
     \<lparr>windowMs = 15 * 60 * 1000, max_requests = 5, skipSuccessfulRequests = True,
      limit_message = ''Too many authentication attempts, please try again later.''\<rparr>"

text \<open>The limiter itself is the \<open>express-rate-limit\<close> package, which is not part of the
  sources; the gateway configures it with the options above. Its counting window is
  modelled from the spec: a bucket \<open>{clientKey, windowStart, count}\<close> per client address
  and route class.\<close>

record bucket =
  windowStart :: nat
  hits :: nat

type_synonym buckets = "(string \<times> bucket) list"

text \<open>Modelled from the spec: the bucket of a client is reset when its window has
  elapsed.\<close>

definition live_bucket :: "limiter_options \<Rightarrow> buckets \<Rightarrow> string \<Rightarrow> nat \<Rightarrow> bucket option" where
  "live_bucket opts bs clientKey now =
     (case map_of bs clientKey of
        None \<Rightarrow> None
      | Some b \<Rightarrow> if now < windowStart b + windowMs opts then Some b else None)"

text \<open>Modelled from the spec: \<open>admit(clientKey, routeClass)\<close>. The request is counted,
  in a new window when the client has none running, and is allowed while the count,
  this request included, is within the maximum.\<close>

definition admit :: "limiter_options \<Rightarrow> buckets \<Rightarrow> string \<Rightarrow> nat \<Rightarrow> bool \<times> buckets" where
  "admit opts bs clientKey now =
     (let b = (case live_bucket opts bs clientKey now of
                 None \<Rightarrow> \<lparr>windowStart = now, hits = 1\<rparr>
               | Some b0 \<Rightarrow> b0\<lparr>hits := hits b0 + 1\<rparr>)
      in (hits b \<le> max_requests opts, AList.update clientKey b bs))"

text \<open>Modelled from the spec: on the credential-issuing routes a request that
  ultimately succeeds (a status below 400) does not count against the limit; it is
  taken off the count when its response is sent.\<close>

definition settle :: "limiter_options \<Rightarrow> buckets \<Rightarrow> string \<Rightarrow> int \<Rightarrow> buckets" where
  "settle opts bs clientKey st =
     (if skipSuccessfulRequests opts \<and> st < 400
      then (case map_of bs clientKey of
              None \<Rightarrow> bs
            | Some b \<Rightarrow> AList.update clientKey (b\<lparr>hits := hits b - 1\<rparr>) bs)
      else bs)"

text \<open>The rejection of a throttled request, with the limiter's configured message.\<close>

definition throttled :: "limiter_options \<Rightarrow> response" where
  "throttled opts =
     Response 429 (JObj [(''success'', JBool False), (''error'', JStr (limit_message opts))])"

text \<open>The hits a client has against a limiter at a time.\<close>

definition hits_of :: "limiter_options \<Rightarrow> buckets \<Rightarrow> string \<Rightarrow> nat \<Rightarrow> nat" where
  "hits_of opts bs clientKey now =
     (case live_bucket opts bs clientKey now of None \<Rightarrow> 0 | Some b \<Rightarrow> hits b)"

subsection \<open>The middleware in front of every route\<close>

text \<open>
  Every request passes the middleware registered with \<open>app.use\<close> before it reaches its
  route: \<open>cors()\<close>, which answers only the \<open>OPTIONS\<close> request of a preflight itself,
  \<open>express.json()\<close>, the general limiter, and the access log, which lets every request
  pass. The routes of registration and login have the limiter of the credential-issuing
  routes in front of their handler.

  The body parser and the rate limiter are packages and are taken as parameters.
  \<open>bodyError\<close> is \<open>None\<close> when \<open>express.json\<close> accepts the body (\<open>req_body\<close> is then what
  it parsed), and else the response that Express sends for the error the parser raised;
  no later middleware runs then. A rate limiter is given by the function that counts a
  request of a client, at a time, against a limiter's options and tells whether the
  request is within the limit, and by the function that settles the count when the
  response is sent.
\<close>

record 's rate_limit =
  count_request :: "limiter_options \<Rightarrow> 's \<Rightarrow> string \<Rightarrow> nat \<Rightarrow> bool \<times> 's"
  settle_request :: "limiter_options \<Rightarrow> 's \<Rightarrow> string \<Rightarrow> int \<Rightarrow> 's"

record 's limiter_stores =
  general_store :: 's
  auth_store :: 's

definition route_limiter :: "route \<Rightarrow> limiter_options option" where
  "route_limiter r =
     (if r = POST_users_register \<or> r = POST_users_login then Some authLimiter else None)"

definition gateway :: "'s rate_limit \<Rightarrow> gw_env \<Rightarrow> response option \<Rightarrow> 's limiter_stores
    \<Rightarrow> string \<Rightarrow> nat \<Rightarrow> route \<Rightarrow> handler \<Rightarrow> gw_request \<Rightarrow> publisher
    \<Rightarrow> (response \<times> upstream_call list \<times> publisher) \<times> 's limiter_stores" where
  "gateway lim env bodyError ls clientKey now r h req pub =
     (case bodyError of
        Some e \<Rightarrow> ((e, [], pub), ls)
      | None \<Rightarrow>
          (let (ok1, g1) = count_request lim generalLimiter (general_store ls) clientKey now in
           if \<not> ok1 then ((throttled generalLimiter, [], pub), ls\<lparr>general_store := g1\<rparr>)
           else
             (case route_limiter r of
                None \<Rightarrow>
                  (let out = run_route env r h req pub
                   in (out, ls\<lparr>general_store :=
                                 settle_request lim generalLimiter g1 clientKey
                                   (status (fst out))\<rparr>))
              | Some opts \<Rightarrow>
                  (let (ok2, a1) = count_request lim opts (auth_store ls) clientKey now in
                   if \<not> ok2
                   then ((throttled opts, [], pub), \<lparr>general_store = g1, auth_store = a1\<rparr>)
                   else
                     (let out = run_route env r h req pub;
                          st = status (fst out)
                      in (out,
                          \<lparr>general_store = settle_request lim generalLimiter g1 clientKey st,
                           auth_store = settle_request lim opts a1 clientKey st\<rparr>))))))"

text \<open>Modelled from the spec: the limiter with the counting window of the spec.\<close>

definition express_rate_limit :: "buckets rate_limit" where
  "express_rate_limit = \<lparr>count_request = admit, settle_request = settle\<rparr>"

subsection \<open>The gateway in front of the users service: login\<close>

record gateway_state =
  general_buckets :: buckets
  auth_buckets :: buckets
  users :: users_state

text \<open>\<open>POST /api/v1/users/login\<close> from one client address, with the users breaker closed
  and the network delivering: the general limiter, then the limiter of the
  credential-issuing routes, then the handler, whose call the users service answers.
  \<open>parsed\<close> is what the service's \<open>loginSchema\<close> makes of the body.\<close>

definition login_request :: "gw_env \<Rightarrow> users_env \<Rightarrow> gateway_state \<Rightarrow> string \<Rightarrow> nat
    \<Rightarrow> gw_request \<Rightarrow> (string \<times> string) parsed
    \<Rightarrow> (response \<times> upstream_call list) \<times> gateway_state" where
  "login_request env uenv gs clientKey now req parsed =
     (let (ok1, g1) = admit generalLimiter (general_buckets gs) clientKey now in
      if \<not> ok1 then ((throttled generalLimiter, []), gs\<lparr>general_buckets := g1\<rparr>)
      else
        (let (ok2, a1) = admit authLimiter (auth_buckets gs) clientKey now in
         if \<not> ok2
         then ((throttled authLimiter, []), gs\<lparr>general_buckets := g1, auth_buckets := a1\<rparr>)
         else
           (let up = users_service uenv (users gs) (Login parsed);
                be = \<lparr>usersCircuit = Closed, ordersCircuit = Closed,
                      net = (\<lambda>c. Responded (fst up))\<rparr>;
                out = run_route env POST_users_login (login_handler be) req eventPublisher;
                resp = fst out
            in ((resp, fst (snd out)),
                \<lparr>general_buckets = settle generalLimiter g1 clientKey (status resp),
                 auth_buckets = settle authLimiter a1 clientKey (status resp),
                 users = snd up\<rparr>))))"

text \<open>A run of login attempts of one client: for each attempt its response, the calls it
  fired, and the client's hits against the credential-issuing limiter after it.\<close>

fun login_attempts :: "gw_env \<Rightarrow> users_env \<Rightarrow> gateway_state \<Rightarrow> string
    \<Rightarrow> (nat \<times> gw_request \<times> (string \<times> string) parsed) list
    \<Rightarrow> (response \<times> upstream_call list \<times> nat) list" where
  "login_attempts env uenv gs clientKey [] = []"
| "login_attempts env uenv gs clientKey ((now, req, parsed) # rest) =
     (let (out, gs') = login_request env uenv gs clientKey now req parsed
      in (fst out, snd out, hits_of authLimiter (auth_buckets gs') clientKey now)
         # login_attempts env uenv gs' clientKey rest)"

section \<open>The circuit breaker\<close>

text \<open>The breaker itself is the \<open>opossum\<close> package, which is not part of the sources;
  the gateway configures it with \<open>circuitOptions\<close>. Its state machine is modelled from
  the spec. The minimum sample size and the length of the rolling window are not among
  the options the gateway sets, so they are parameters here.\<close>

record breaker_config =
  options :: circuit_options
  minimumSamples :: nat
  windowLength :: nat

record breaker =
  state :: circuit_status
  samples :: "(nat \<times> bool) list"
  openedAt :: nat

definition breaker_init :: breaker where
  "breaker_init = \<lparr>state = Closed, samples = [], openedAt = 0\<rparr>"

text \<open>Modelled from the spec: the rolling window keeps the outcomes of the calls younger
  than its length.\<close>

definition window :: "breaker_config \<Rightarrow> nat \<Rightarrow> (nat \<times> bool) list \<Rightarrow> (nat \<times> bool) list" where
  "window cfg now xs = filter (\<lambda>x. now < fst x + windowLength cfg) xs"

definition requests_in :: "(nat \<times> bool) list \<Rightarrow> nat" where
  "requests_in xs = length xs"

definition failures_in :: "(nat \<times> bool) list \<Rightarrow> nat" where
  "failures_in xs = length (filter snd xs)"

text \<open>Modelled from the spec: the failure ratio over the window exceeds the threshold
  (a percentage), with at least the minimum number of samples.\<close>

definition ratio_exceeded :: "breaker_config \<Rightarrow> (nat \<times> bool) list \<Rightarrow> bool" where
  "ratio_exceeded cfg xs \<longleftrightarrow>
     0 < requests_in xs \<and> minimumSamples cfg \<le> requests_in xs \<and>
     errorThresholdPercentage (options cfg) * requests_in xs < 100 * failures_in xs"

text \<open>The window after a call at \<open>now\<close> with the given outcome has been recorded.\<close>

definition recorded :: "breaker_config \<Rightarrow> breaker \<Rightarrow> nat \<Rightarrow> bool \<Rightarrow> (nat \<times> bool) list" where
  "recorded cfg b now failed = window cfg now (samples b) @ [(now, failed)]"

text \<open>The value a call gives its caller, and whether it went to the network.\<close>

record call_outcome =
  returned :: jsval
  network :: bool

definition pass_value :: "upstream \<Rightarrow> jsval settled \<Rightarrow> jsval" where
  "pass_value u r = (case r of Resolved v \<Rightarrow> v | _ \<Rightarrow> fallback_of u)"

text \<open>Modelled from the spec: the probe call of a half-open breaker goes to the network;
  its success closes the breaker and resets the counters, its failure opens the
  breaker again and resets \<open>openedAt\<close>.\<close>

definition probe :: "upstream \<Rightarrow> breaker \<Rightarrow> nat \<Rightarrow> transport \<Rightarrow> call_outcome \<times> breaker" where
  "probe u b now t =
     (let r = action_of u t
      in (\<lparr>returned = pass_value u r, network = True\<rparr>,
          if breaker_failure r then b\<lparr>state := Open, openedAt := now\<rparr>
          else b\<lparr>state := Closed, samples := []\<rparr>))"

text \<open>Modelled from the spec: \<open>call(operation)\<close>. Closed: the call passes through and
  its outcome joins the window; when the failure ratio then exceeds the threshold the
  breaker opens and records \<open>openedAt\<close>. Open: the call short-circuits to the fallback
  and touches no network until the cool-down has elapsed since \<open>openedAt\<close>; the next
  call after that is the probe.\<close>

definition breaker_call :: "breaker_config \<Rightarrow> upstream \<Rightarrow> breaker \<Rightarrow> nat \<Rightarrow> transport
    \<Rightarrow> call_outcome \<times> breaker" where
  "breaker_call cfg u b now t =
     (case state b of
        Open \<Rightarrow>
          if now < openedAt b + resetTimeout (options cfg)
          then (\<lparr>returned = fallback_of u, network = False\<rparr>, b)
          else probe u b now t
      | HalfOpen \<Rightarrow> probe u b now t
      | Closed \<Rightarrow>
          (let r = action_of u t;
               xs = recorded cfg b now (breaker_failure r);
               b1 = b\<lparr>samples := xs\<rparr>
           in (\<lparr>returned = pass_value u r, network = True\<rparr>,
               if ratio_exceeded cfg xs then b1\<lparr>state := Open, openedAt := now\<rparr> else b1)))"

fun breaker_calls :: "breaker_config \<Rightarrow> upstream \<Rightarrow> breaker \<Rightarrow> (nat \<times> transport) list
    \<Rightarrow> call_outcome list" where
  "breaker_calls cfg u b [] = []"
| "breaker_calls cfg u b ((now, t) # rest) =
     (let (out, b') = breaker_call cfg u b now t in out # breaker_calls cfg u b' rest)"

text \<open>A call that short-circuited: the fallback's value, and no network request.\<close>

definition short_circuited :: "upstream \<Rightarrow> call_outcome \<Rightarrow> bool" where
  "short_circuited u out \<longleftrightarrow> returned out = fallback_of u \<and> \<not> network out"

section \<open>Invariants of the stores\<close>

text \<open>Every key of the store is below the counter.\<close>

definition keys_below :: "(int \<times> 'a) list \<Rightarrow> int \<Rightarrow> bool" where
  "keys_below db n = list_all (\<lambda>k. k < n) (map fst db)"

text \<open>A step of the users service either creates no record and leaves the counter, or
  creates one record under the counter's value and advances the counter by one.\<close>

definition users_fresh_step :: "users_state \<Rightarrow> users_state \<Rightarrow> bool" where
  "users_fresh_step s s' \<longleftrightarrow>
     keys_below (fakeUsersDb s') (currentId s') \<and>
     (created_ids user_id (fakeUsersDb s) (fakeUsersDb s') = [] \<and> currentId s' = currentId s \<or>
      created_ids user_id (fakeUsersDb s) (fakeUsersDb s') = [currentId s] \<and>
      currentId s' = currentId s + 1)"

text \<open>The invariant of the orders store: the counter is not negative; no own property
  is named \<open>__proto__\<close> or by the numeral of a number at or above the counter; and a
  prototype that has replaced \<open>Object.prototype\<close> has only properties that an update
  writes, none of them an object.\<close>

definition is_object :: "jsval \<Rightarrow> bool" where
  "is_object v = (case v of JObj kvs \<Rightarrow> True | _ \<Rightarrow> False)"

definition update_names :: "string list" where
  "update_names = [''items'', ''totalAmount'', ''status'', ''updatedAt'']"

definition numeral_below :: "int \<Rightarrow> string \<Rightarrow> bool" where
  "numeral_below n k \<longleftrightarrow> show_nat (read_nat k) \<noteq> k \<or> int (read_nat k) < n"

definition orders_inv :: "orders_state \<Rightarrow> bool" where
  "orders_inv s \<longleftrightarrow>
     0 \<le> orders_currentId s \<and>
     list_all (\<lambda>k. k \<noteq> ''__proto__'' \<and> numeral_below (orders_currentId s) k)
       (map fst (fakeOrdersDb s)) \<and>
     (case fakeOrdersDb_prototype s of
        None \<Rightarrow> True
      | Some kvs \<Rightarrow> list_all (\<lambda>p. fst p \<in> set update_names \<and> \<not> is_object (snd p)) kvs)"

text \<open>A step of the orders service keeps the invariant, and either creates no record
  with an id and leaves the counter, or creates one record with the counter's value as
  id and advances the counter by one.\<close>

definition orders_fresh_step :: "orders_state \<Rightarrow> orders_state \<Rightarrow> bool" where
  "orders_fresh_step s s' \<longleftrightarrow>
     orders_inv s' \<and>
     (created_order_ids (fakeOrdersDb s) (fakeOrdersDb s') = [] \<and>
      orders_currentId s' = orders_currentId s \<or>
      created_order_ids (fakeOrdersDb s) (fakeOrdersDb s') = [orders_currentId s] \<and>
      orders_currentId s' = orders_currentId s + 1)"

section \<open>Reading responses and the order scenario\<close>

text \<open>\<open>v.k1.k2...\<close>\<close>

fun js_path :: "jsval \<Rightarrow> string list \<Rightarrow> jsval option" where
  "js_path v [] = Some v"
| "js_path v (k # ks) = (case js_get v k of None \<Rightarrow> None | Some w \<Rightarrow> js_path w ks)"

text \<open>A customer with a valid token orders two pieces of product \<open>p1\<close> at 10 each; the
  item is given as the request carries it.\<close>

definition scenario_claims :: jsval where
  "scenario_claims = JObj [(''id'', JNum 1), (''roles'', JArr [JStr ''Customer''])]"

definition scenario_env :: gw_env where
  "scenario_env =
     \<lparr>jwt_verify = (\<lambda>t. if t = ''valid.token'' then Some scenario_claims else None),
      loose_eq = (\<lambda>v s. False),
      new_event_id = ''1704067200000-abc123xyz'',
      clock = ''2024-01-01T00:00:00.000Z''\<rparr>"

definition scenario_request :: "jsval \<Rightarrow> gw_request" where
  "scenario_request item =
     \<lparr>authorization = Some ''Bearer valid.token'',
      req_user = JUndefined,
      req_body = JObj [(''userId'', JNum 1), (''items'', JArr [item])],
      param_userId = []\<rparr>"

text \<open>The order the orders service makes of the scenario's request, under the id \<open>n\<close>.\<close>

definition scenario_order :: "string \<Rightarrow> int \<Rightarrow> string \<Rightarrow> int \<Rightarrow> order" where
  "scenario_order now uid pname n =
     \<lparr>order_id = n, order_userId = uid,
      order_items = [\<lparr>productId = ''p1'', productName = pname, quantity = 2, price = 10,
                      subtotal = 20\<rparr>],
      order_status = ''created'', order_totalAmount = 20,
      order_createdAt = now, order_updatedAt = now\<rparr>"

section \<open>Login attempts\<close>

text \<open>Credentials the users service rejects: no user has the email, or the user's stored
  password differs.\<close>

definition wrong_credentials :: "users_state \<Rightarrow> string \<Rightarrow> string \<Rightarrow> bool" where
  "wrong_credentials s em pw =
     (case find (\<lambda>u. email u = em) (object_values (fakeUsersDb s)) of
        None \<Rightarrow> True
      | Some u \<Rightarrow> passwordHash u \<noteq> Some pw)"

definition right_credentials :: "users_state \<Rightarrow> string \<Rightarrow> string \<Rightarrow> bool" where
  "right_credentials s em pw =
     (case find (\<lambda>u. email u = em) (object_values (fakeUsersDb s)) of
        None \<Rightarrow> False
      | Some u \<Rightarrow> passwordHash u = Some pw)"

definition invalid_login :: response where
  "invalid_login = Response 401 (error_envelope ''Invalid email or password'')"

text \<open>What a run of attempts shows of each: the status, the number of calls fired, the
  client's hits against the credential-issuing limiter.\<close>

definition observed :: "(response \<times> upstream_call list \<times> nat) list \<Rightarrow> (int \<times> nat \<times> nat) list" where
  "observed rs = map (\<lambda>r. (status (fst r), length (fst (snd r)), snd (snd r))) rs"

text \<open>A login scenario: one registered user, and a client that has made no request yet.\<close>

definition alice :: user where
  "alice =
     \<lparr>user_id = 1, email = ''alice@example.com'', passwordHash = Some ''secret'',
      name = ''Alice'', roles = [''Customer''],
      createdAt = ''2024-01-01T00:00:00.000Z'', updatedAt = ''2024-01-01T00:00:00.000Z''\<rparr>"

definition login_scenario :: gateway_state where
  "login_scenario =
     \<lparr>general_buckets = [], auth_buckets = [],
      users = \<lparr>fakeUsersDb = [(1, alice)], currentId = 2\<rparr>\<rparr>"

definition scenario_users_env :: users_env where
  "scenario_users_env =
     \<lparr>jwt_sign = (\<lambda>p. ''signed.token''), parseInt = (\<lambda>s. None), toLowerCase = (\<lambda>s. s),
      sort_users = (\<lambda>sortBy sortOrder us. us)\<rparr>"

definition login_body :: "string \<Rightarrow> gw_request" where
  "login_body pw =
     \<lparr>authorization = None, req_user = JUndefined,
      req_body = JObj [(''email'', JStr ''alice@example.com''), (''password'', JStr pw)],
      param_userId = []\<rparr>"

section \<open>A run of the orders service\<close>


section \<open>No password hash leaves the users service\<close>

lemma sanitizeUser_no_passwordHash: "\<not> has_key ''passwordHash'' (sanitizeUser u)"
  by (simp add: sanitizeUser_def rest_without_def user_obj_def opt_str_def list_ex_iff
      split: option.split)

lemma sanitized_list_no_passwordHash:
  "\<not> has_key ''passwordHash'' (JArr (map sanitizeUser us))"
  by (simp add: list_ex_iff sanitizeUser_no_passwordHash)

lemma error_list_no_passwordHash: "\<not> has_key ''passwordHash'' (error_list errs)"
  by (simp add: error_list_def list_ex_iff)

lemma num_or_nan_no_key: "\<not> has_key k (num_or_nan n)"
  by (simp add: num_or_nan_def split: option.split)

lemma str_or_null_no_key: "\<not> has_key k (str_or_null a)"
  by (simp add: str_or_null_def)

lemmas no_pw =
  sanitizeUser_no_passwordHash sanitized_list_no_passwordHash error_list_no_passwordHash
  num_or_nan_no_key str_or_null_no_key

text \<open>The stored object does carry the hash, so the property is one of \<open>sanitizeUser\<close>
  and not of the predicate.\<close>

lemma stored_user_has_passwordHash: "has_key ''passwordHash'' (JObj (user_obj u))"
  by (simp add: user_obj_def)

lemma register_no_passwordHash:
  "\<not> has_key ''passwordHash'' (body (fst (register env now parsed s)))"
  by (auto simp: register_def validation_failed_envelope_def error_envelope_def
      token_user_envelope_def no_pw Let_def split: sum.split option.split prod.split)

lemma login_no_passwordHash:
  "\<not> has_key ''passwordHash'' (body (fst (login env parsed s)))"
  by (auto simp: login_def validation_failed_envelope_def error_envelope_def
      token_user_envelope_def no_pw Let_def split: sum.split option.split prod.split)

lemma getProfile_no_passwordHash:
  "\<not> has_key ''passwordHash'' (body (fst (getProfile userId s)))"
  by (auto simp: getProfile_def error_envelope_def user_envelope_def no_pw
      split: option.split)

lemma putProfile_no_passwordHash:
  "\<not> has_key ''passwordHash'' (body (fst (putProfile now userId validation s)))"
  by (auto simp: putProfile_def validation_failed_envelope_def error_envelope_def
      user_envelope_def no_pw Let_def split: sum.split option.split prod.split)

lemma listUsers_no_passwordHash:
  "\<not> has_key ''passwordHash'' (body (fst (listUsers env q s)))"
  by (simp add: listUsers_def Let_def no_pw del: has_key.simps(6))

lemma listUsers_plain_no_passwordHash:
  "\<not> has_key ''passwordHash'' (body (fst (listUsers_plain s)))"
  by (simp add: listUsers_plain_def no_pw del: has_key.simps(6))

lemma createUser_no_passwordHash:
  "\<not> has_key ''passwordHash'' (body (fst (createUser now validation s)))"
  by (auto simp: createUser_def validation_failed_plain_def plain_error_def
      no_pw Let_def split: sum.split option.split prod.split)

lemma getUser_no_passwordHash:
  "\<not> has_key ''passwordHash'' (body (fst (getUser userId s)))"
  by (auto simp: getUser_def plain_error_def no_pw split: option.split)

lemma putUser_no_passwordHash:
  "\<not> has_key ''passwordHash'' (body (fst (putUser now userId validation s)))"
  by (auto simp: putUser_def validation_failed_plain_def plain_error_def
      no_pw Let_def split: sum.split option.split prod.split)

lemma deleteUser_no_passwordHash:
  "\<not> has_key ''passwordHash'' (body (fst (deleteUser userId s)))"
  by (auto simp: deleteUser_def plain_error_def no_pw split: option.split)

lemma users_health_status_no_passwordHash:
  "\<not> has_key ''passwordHash'' (body (fst (users_health now s)))"
  "\<not> has_key ''passwordHash'' (body (fst (users_status s)))"
  by (simp_all add: users_health_def users_status_def)

text \<open>
  Claim C9. Whatever the state of the store and whatever the request, the body of the
  response of every endpoint of the users service (register, login, profile read and
  update, list, create, read, update, delete) has no property named \<open>passwordHash\<close>,
  at any depth: every user object in a response is the result of \<open>sanitizeUser\<close>.
\<close>

theorem users_service_never_returns_passwordHash:
  "\<not> has_key ''passwordHash'' (body (fst (users_service env s req)))"
  by (cases req)
     (simp_all add: register_no_passwordHash login_no_passwordHash getProfile_no_passwordHash
        putProfile_no_passwordHash listUsers_no_passwordHash listUsers_plain_no_passwordHash
        createUser_no_passwordHash getUser_no_passwordHash putUser_no_passwordHash
        deleteUser_no_passwordHash users_health_status_no_passwordHash)

section \<open>Fresh ids\<close>

lemma created_ids_same: "created_ids f db db = []"
  by (simp add: created_ids_def)

lemma update_fresh_key: "k \<notin> fst ` set db \<Longrightarrow> AList.update k v db = db @ [(k, v)]"
  by (induction db) auto

lemma keys_below_not_key: "keys_below db n \<Longrightarrow> n \<notin> fst ` set db"
  by (auto simp: keys_below_def list_all_iff)

lemma created_ids_fresh:
  "keys_below db n \<Longrightarrow> created_ids f db (AList.update n v db) = [f v]"
  by (frule keys_below_not_key) (simp add: created_ids_def update_fresh_key)

lemma keys_db_put:
  "db_get db k \<noteq> None \<Longrightarrow> map fst (db_put k v db) = map fst db"
proof (cases k)
  case None
  then show ?thesis by (simp add: db_put_def)
next
  case (Some i)
  assume "db_get db k \<noteq> None"
  with Some have "i \<in> fst ` set db"
    by (auto simp: db_get_def dest!: map_of_SomeD intro: rev_image_eqI)
  with Some show ?thesis by (simp add: db_put_def update_keys)
qed

lemma keys_db_delete: "set (map fst (db_delete k db)) \<subseteq> set (map fst db)"
  by (cases k) (auto simp: db_delete_def delete_keys simp del: set_map)

lemma created_ids_subset:
  assumes "set (map fst db') \<subseteq> set (map fst db)"
  shows "created_ids f db db' = []"
proof -
  have "fst p \<in> set (map fst db)" if "p \<in> set db'" for p
  proof -
    from that have "fst p \<in> set (map fst db')" by simp
    with assms show ?thesis by blast
  qed
  then show ?thesis by (simp add: created_ids_def filter_empty_conv del: set_map)
qed

lemma created_ids_put:
  "db_get db k \<noteq> None \<Longrightarrow> created_ids f db (db_put k v db) = []"
  by (rule created_ids_subset) (simp add: keys_db_put del: set_map)

lemma created_ids_delete: "created_ids f db (db_delete k db) = []"
  by (rule created_ids_subset) (rule keys_db_delete)

lemma keys_below_fresh:
  "keys_below db n \<Longrightarrow> keys_below (AList.update n v db) (n + 1)"
  by (auto simp: keys_below_def update_keys list_all_iff)

lemma keys_below_put:
  "db_get db k \<noteq> None \<Longrightarrow> keys_below db n \<Longrightarrow> keys_below (db_put k v db) n"
  by (simp add: keys_below_def keys_db_put)

lemma keys_below_delete: "keys_below db n \<Longrightarrow> keys_below (db_delete k db) n"
  using keys_db_delete [of k db]
  by (auto simp: keys_below_def list_all_iff simp del: set_map)

subsection \<open>The users store\<close>

lemma createUserModel_id:
  "createUserModel now d s = (u, s') \<Longrightarrow>
     user_id u = currentId s \<and> currentId s' = currentId s + 1 \<and> fakeUsersDb s' = fakeUsersDb s"
  by (auto simp: createUserModel_def generateUserId_def Let_def)

lemma register_fresh:
  assumes "keys_below (fakeUsersDb s) (currentId s)"
  shows "users_fresh_step s (snd (register env now parsed s))"
  using assms
  by (auto simp: register_def users_fresh_step_def created_ids_same created_ids_fresh
      keys_below_fresh Let_def dest!: createUserModel_id
      split: sum.split option.split prod.split)

lemma createUser_fresh:
  assumes "keys_below (fakeUsersDb s) (currentId s)"
  shows "users_fresh_step s (snd (createUser now validation s))"
  using assms
  by (auto simp: createUser_def users_fresh_step_def created_ids_same created_ids_fresh
      keys_below_fresh Let_def dest!: createUserModel_id
      split: sum.split option.split prod.split)

lemma putProfile_fresh:
  assumes "keys_below (fakeUsersDb s) (currentId s)"
  shows "users_fresh_step s (snd (putProfile now userId validation s))"
  using assms
  by (auto simp: putProfile_def users_fresh_step_def created_ids_same created_ids_put
      keys_below_put Let_def split: sum.split option.split prod.split)

lemma putUser_fresh:
  assumes "keys_below (fakeUsersDb s) (currentId s)"
  shows "users_fresh_step s (snd (putUser now userId validation s))"
  using assms
  by (auto simp: putUser_def users_fresh_step_def created_ids_same created_ids_put
      keys_below_put Let_def split: sum.split option.split prod.split)

lemma deleteUser_fresh:
  assumes "keys_below (fakeUsersDb s) (currentId s)"
  shows "users_fresh_step s (snd (deleteUser userId s))"
  using assms
  by (auto simp: deleteUser_def users_fresh_step_def created_ids_same created_ids_delete
      keys_below_delete split: option.split)

lemma users_readonly_fresh:
  assumes "keys_below (fakeUsersDb s) (currentId s)"
  shows "users_fresh_step s (snd (login env parsed s))"
    and "users_fresh_step s (snd (getProfile userId s))"
    and "users_fresh_step s (snd (listUsers env q s))"
    and "users_fresh_step s (snd (listUsers_plain s))"
    and "users_fresh_step s (snd (getUser userId s))"
    and "users_fresh_step s (snd (users_health now s))"
    and "users_fresh_step s (snd (users_status s))"
  using assms
  by (auto simp: login_def getProfile_def listUsers_def listUsers_plain_def getUser_def
      users_health_def users_status_def users_fresh_step_def created_ids_same Let_def
      split: sum.split option.split prod.split)

lemma users_service_fresh:
  assumes "keys_below (fakeUsersDb s) (currentId s)"
  shows "users_fresh_step s (snd (users_service env s r))"
  using assms
  by (cases r)
     (simp_all add: register_fresh createUser_fresh putProfile_fresh putUser_fresh
        deleteUser_fresh users_readonly_fresh)

lemma users_issued_increasing:
  "keys_below (fakeUsersDb s) (currentId s) \<Longrightarrow>
     sorted_wrt (<) (users_issued env s rs) \<and>
     list_all (\<lambda>k. currentId s \<le> k) (users_issued env s rs)"
proof (induction rs arbitrary: s)
  case Nil
  then show ?case by simp
next
  case (Cons r rs)
  let ?s' = "snd (users_service env s r)"
  have step: "users_fresh_step s ?s'"
    using Cons.prems by (rule users_service_fresh)
  then have inv': "keys_below (fakeUsersDb ?s') (currentId ?s')"
    by (simp add: users_fresh_step_def)
  from Cons.IH [OF inv'] have
    rest: "sorted_wrt (<) (users_issued env ?s' rs)"
      "list_all (\<lambda>k. currentId ?s' \<le> k) (users_issued env ?s' rs)"
    by simp_all
  from step consider
      (same) "created_ids user_id (fakeUsersDb s) (fakeUsersDb ?s') = []" "currentId ?s' = currentId s"
    | (fresh) "created_ids user_id (fakeUsersDb s) (fakeUsersDb ?s') = [currentId s]"
        "currentId ?s' = currentId s + 1"
    by (auto simp: users_fresh_step_def)
  then show ?case
  proof cases
    case same
    with rest show ?thesis by (simp add: Let_def)
  next
    case fresh
    with rest show ?thesis by (auto simp: Let_def list_all_iff)
  qed
qed

lemma users_init_keys_below: "keys_below (fakeUsersDb users_init) (currentId users_init)"
  by (simp add: users_init_def keys_below_def)

subsection \<open>The orders store\<close>

lemma digit_value_digit_char: "d < 10 \<Longrightarrow> digit_value (digit_char d) = d"
proof -
  assume "d < 10"
  then have "d \<in> {0, 1, 2, 3, 4, 5, 6, 7, 8, 9}" by auto
  then show ?thesis by (auto simp: digit_value_def digit_char_def)
qed

lemma digit_char_digit: "d < 10 \<Longrightarrow> digit_char d \<in> set ''0123456789''"
proof -
  assume "d < 10"
  then have "d \<in> {0, 1, 2, 3, 4, 5, 6, 7, 8, 9}" by auto
  then show ?thesis by (auto simp: digit_char_def)
qed

lemma read_nat_snoc: "read_nat (cs @ [c]) = 10 * read_nat cs + digit_value c"
  by (simp add: read_nat_def)

lemma read_show_nat: "read_nat (show_nat n) = n"
proof (induction n rule: show_nat.induct)
  case (1 n)
  show ?case
  proof (cases "n < 10")
    case True
    then show ?thesis
      by (subst show_nat.simps) (simp add: read_nat_def digit_value_digit_char)
  next
    case False
    with 1 have "read_nat (show_nat (n div 10)) = n div 10" by simp
    with False show ?thesis
      by (subst show_nat.simps) (simp add: read_nat_snoc digit_value_digit_char)
  qed
qed

lemma show_nat_digits: "set (show_nat n) \<subseteq> set ''0123456789''"
proof (induction n rule: show_nat.induct)
  case (1 n)
  show ?case
  proof (cases "n < 10")
    case True
    then show ?thesis
      using digit_char_digit [of n] by (subst show_nat.simps) simp
  next
    case False
    with 1 have "set (show_nat (n div 10)) \<subseteq> set ''0123456789''" by simp
    with False show ?thesis
      using digit_char_digit [of "n mod 10"] by (subst show_nat.simps) simp
  qed
qed

lemma show_nat_hd: "show_nat n \<noteq> [] \<and> hd (show_nat n) \<in> set ''0123456789''"
proof -
  have ne: "show_nat n \<noteq> []"
    by (subst show_nat.simps) simp
  then have "hd (show_nat n) \<in> set (show_nat n)"
    by (rule hd_in_set)
  with show_nat_digits [of n] ne show ?thesis by blast
qed

lemma names_hd:
  "k \<in> set update_names \<union> set Object_prototype_functions \<union> {''__proto__'', ''id''} \<Longrightarrow>
     hd k \<notin> set ''0123456789''"
  by (auto simp: update_names_def Object_prototype_functions_def)

lemma show_nat_not_name:
  "show_nat n \<notin> set update_names \<union> set Object_prototype_functions \<union> {''__proto__'', ''id''}"
  using show_nat_hd [of n] names_hd [of "show_nat n"] by blast

lemma numeral_below_show_nat: "numeral_below c (show_nat n) \<longleftrightarrow> int n < c"
  by (simp add: numeral_below_def read_show_nat)

lemma numeral_below_name:
  assumes "k \<in> set update_names \<union> set Object_prototype_functions"
  shows "numeral_below c k"
proof -
  have "show_nat (read_nat k) \<noteq> k"
    using assms show_nat_not_name [of "read_nat k"] by auto
  then show ?thesis by (simp add: numeral_below_def)
qed

lemma numeral_below_mono: "numeral_below c k \<Longrightarrow> c \<le> c' \<Longrightarrow> numeral_below c' k"
  by (auto simp: numeral_below_def)

lemma indexed_keys: "fst ` set (indexed vs) \<subseteq> range show_nat"
  by (auto simp: indexed_def dest!: set_zip_leftD)

lemma show_nat_not_id: "show_nat n \<noteq> ''id''"
  using show_nat_not_name [of n] by blast

lemma indexed_no_id: "map_of (indexed vs) ''id'' = None"
proof -
  have "''id'' \<notin> fst ` set (indexed vs)"
  proof
    assume "''id'' \<in> fst ` set (indexed vs)"
    with indexed_keys [of vs] have "''id'' \<in> range show_nat" by blast
    then obtain n where "''id'' = show_nat n" by blast
    then have "show_nat n = ''id''" by (rule sym)
    with show_nat_not_id [of n] show False by blast
  qed
  then show ?thesis by (simp only: map_of_eq_None_iff not_False_eq_True)
qed

lemma spread_no_id: "\<not> is_object v \<Longrightarrow> map_of (spread v) ''id'' = None"
  by (cases v) (simp_all add: spread_def is_object_def indexed_no_id)

lemma created_order_ids_same: "created_order_ids db db = []"
  by (simp add: created_order_ids_def)

lemma created_order_ids_subset:
  assumes "set (map fst db') \<subseteq> set (map fst db)"
  shows "created_order_ids db db' = []"
proof -
  have "fst p \<in> set (map fst db)" if "p \<in> set db'" for p
  proof -
    from that have "fst p \<in> set (map fst db')" by simp
    with assms show ?thesis by blast
  qed
  then have "filter (\<lambda>p. fst p \<notin> set (map fst db)) db' = []"
    by (simp add: filter_empty_conv del: set_map)
  then show ?thesis by (simp add: created_order_ids_def)
qed

lemma created_order_ids_fresh:
  "k \<notin> fst ` set db \<Longrightarrow> created_order_ids db (AList.update k v db) = record_ids v"
  by (simp add: created_order_ids_def update_fresh_key)

lemma assign_props_other:
  "k \<notin> fst ` set props \<Longrightarrow> map_of (assign_props props obj) k = map_of obj k"
  unfolding assign_props_def
  by (induction props arbitrary: obj) (auto simp: update_conv')

lemma updateData_props_keys: "fst ` set (updateData_props u) \<subseteq> set update_names"
  by (auto simp: updateData_props_def update_names_def split: option.splits)

lemma updateOrderModel_id:
  "map_of (updateOrderModel now r u) ''id'' = map_of (spread_value r) ''id''"
proof -
  have "''id'' \<notin> fst ` set (updateData_props u)"
    using updateData_props_keys [of u] by (auto simp: update_names_def)
  then show ?thesis
    by (simp add: updateOrderModel_def Let_def update_conv' assign_props_other
        split: option.split)
qed

lemma list_all_update:
  "list_all P al \<Longrightarrow> P (k, v) \<Longrightarrow> list_all P (AList.update k v al)"
  by (induction al) auto

lemma list_all_assign_props:
  "list_all P props \<Longrightarrow> list_all P obj \<Longrightarrow> list_all P (assign_props props obj)"
  unfolding assign_props_def
  by (induction props arbitrary: obj) (auto simp: list_all_update)

lemma updateData_props_plain:
  "list_all (\<lambda>p. fst p \<in> set update_names \<and> \<not> is_object (snd p)) (updateData_props u)"
  by (simp add: updateData_props_def update_names_def is_object_def split: option.split)

lemma updateOrderModel_plain:
  assumes "list_all (\<lambda>p. fst p \<in> set update_names \<and> \<not> is_object (snd p)) (spread_value r)"
  shows "list_all (\<lambda>p. fst p \<in> set update_names \<and> \<not> is_object (snd p))
           (updateOrderModel now r u)"
proof -
  let ?P = "\<lambda>p. fst p \<in> set update_names \<and> \<not> is_object (snd p)"
  have base: "list_all ?P (AList.update ''updatedAt'' (JStr now)
                 (assign_props (updateData_props u) (spread_value r)))"
    using assms updateData_props_plain [of u]
    by (intro list_all_update list_all_assign_props) (simp_all add: update_names_def is_object_def)
  show ?thesis
    unfolding updateOrderModel_def Let_def
    using base
    by (auto simp: update_names_def is_object_def split: option.split
        intro!: list_all_update)
qed
lemma createOrderModel_id:
  "createOrderModel now d s = (ord, s') \<Longrightarrow>
     order_id ord = orders_currentId s \<and> orders_currentId s' = orders_currentId s + 1 \<and>
     fakeOrdersDb s' = fakeOrdersDb s \<and>
     fakeOrdersDb_prototype s' = fakeOrdersDb_prototype s"
  by (auto simp: createOrderModel_def generateOrderId_def Let_def)

lemma record_ids_order_obj: "record_ids (order_obj ord) = [order_id ord]"
  by (simp add: record_ids_def order_obj_def js_get_def get_prop_def)

lemma orders_inv_fresh_key:
  assumes "orders_inv s"
  shows "show_nat (nat (orders_currentId s)) \<notin> fst ` set (fakeOrdersDb s)"
proof
  assume "show_nat (nat (orders_currentId s)) \<in> fst ` set (fakeOrdersDb s)"
  with assms have "numeral_below (orders_currentId s) (show_nat (nat (orders_currentId s)))"
    by (auto simp: orders_inv_def list_all_iff)
  with assms show False
    by (simp add: numeral_below_show_nat orders_inv_def)
qed

lemma orders_inv_new_key:
  assumes "orders_inv s" and "k \<notin> fst ` set (fakeOrdersDb s)" and "k \<noteq> ''__proto__''"
    and "numeral_below c k" and "orders_currentId s \<le> c"
  shows "orders_inv (s\<lparr>fakeOrdersDb := AList.update k v (fakeOrdersDb s), orders_currentId := c\<rparr>)"
proof -
  have keys: "map fst (AList.update k v (fakeOrdersDb s)) = map fst (fakeOrdersDb s) @ [k]"
    using assms(2) by (simp add: update_keys)
  have old: "list_all (\<lambda>k. k \<noteq> ''__proto__'' \<and> numeral_below c k) (map fst (fakeOrdersDb s))"
    using assms(1,5) by (auto simp: orders_inv_def list_all_iff intro: numeral_below_mono)
  show ?thesis
    using assms old by (simp add: orders_inv_def keys)
qed

lemma createOrder_fresh:
  assumes "orders_inv s"
  shows "orders_fresh_step s (snd (createOrder now userFetch reqBody s))"
proof (cases "createOrderSchema reqBody")
  case (Inl errs)
  then show ?thesis
    using assms by (simp add: createOrder_def orders_fresh_step_def created_order_ids_same)
next
  case (Inr d)
  show ?thesis
  proof (cases "checkUserExists userFetch")
    case False
    with Inr show ?thesis
      using assms by (simp add: createOrder_def orders_fresh_step_def created_order_ids_same)
  next
    case True
    obtain ord s1 where m: "createOrderModel now d s = (ord, s1)"
      by (cases "createOrderModel now d s")
    from createOrderModel_id [OF m] have
      ord: "order_id ord = orders_currentId s" and
      s1: "s1 = s\<lparr>orders_currentId := orders_currentId s + 1\<rparr>"
      using m by (auto simp: createOrderModel_def generateOrderId_def Let_def)
    let ?k = "show_nat (nat (orders_currentId s))"
    have key: "number_key (order_id ord) = ?k"
      using assms by (simp add: number_key_def orders_inv_def ord)
    have not_proto: "?k \<noteq> ''__proto__''"
      using show_nat_not_name [of "nat (orders_currentId s)"] by blast
    have fresh: "?k \<notin> fst ` set (fakeOrdersDb s)"
      using assms by (rule orders_inv_fresh_key)
    have s2: "snd (createOrder now userFetch reqBody s) =
              s\<lparr>fakeOrdersDb := AList.update ?k (order_obj ord) (fakeOrdersDb s),
                orders_currentId := orders_currentId s + 1\<rparr>"
      using not_proto by (simp add: createOrder_def Inr True m key fakeOrdersDb_set_def s1)
    have below: "numeral_below (orders_currentId s + 1) ?k"
      using assms by (simp add: numeral_below_show_nat orders_inv_def)
    have inv: "orders_inv (snd (createOrder now userFetch reqBody s))"
      unfolding s2 using assms fresh not_proto below by (rule orders_inv_new_key) simp
    have created: "created_order_ids (fakeOrdersDb s)
                     (fakeOrdersDb (snd (createOrder now userFetch reqBody s))) =
                   [orders_currentId s]"
      unfolding s2 using fresh by (simp add: created_order_ids_fresh record_ids_order_obj ord)
    have counter: "orders_currentId (snd (createOrder now userFetch reqBody s)) =
                   orders_currentId s + 1"
      unfolding s2 by simp
    show ?thesis
      unfolding orders_fresh_step_def using inv created counter by blast
  qed
qed

lemma inherited_read:
  assumes "orders_inv s" and "k \<notin> fst ` set (fakeOrdersDb s)" and "k \<noteq> ''__proto__''"
    and "truthy_value (fakeOrdersDb_get s k)"
  shows "k \<in> set update_names \<union> set Object_prototype_functions"
    and "map_of (spread_value (fakeOrdersDb_get s k)) ''id'' = None"
proof -
  have own: "map_of (fakeOrdersDb s) k = None"
    using assms(2) by (simp add: map_of_eq_None_iff)
  have builtin: "k \<in> set Object_prototype_functions \<and>
                 map_of (spread_value (Object_prototype_get p k)) ''id'' = None"
    if "truthy_value (Object_prototype_get p k)" for p
    using that assms(3)
    by (auto simp: Object_prototype_get_def truthy_value_def js_truthy_def spread_value_def
        split: if_splits)
  have "k \<in> set update_names \<union> set Object_prototype_functions \<and>
        map_of (spread_value (fakeOrdersDb_get s k)) ''id'' = None"
  proof (cases "fakeOrdersDb_prototype s")
    case None
    with own assms(4) builtin [of None] show ?thesis
      by (simp add: fakeOrdersDb_get_def)
  next
    case (Some kvs)
    show ?thesis
    proof (cases "map_of kvs k")
      case None
      with own Some assms(4) builtin [of "Some kvs"] show ?thesis
        by (simp add: fakeOrdersDb_get_def)
    next
      case (Some v)
      then have "(k, v) \<in> set kvs" by (rule map_of_SomeD)
      with assms(1) \<open>fakeOrdersDb_prototype s = Some kvs\<close>
      have "k \<in> set update_names" "\<not> is_object v"
        by (auto simp: orders_inv_def list_all_iff)
      with own Some \<open>fakeOrdersDb_prototype s = Some kvs\<close> show ?thesis
        by (simp add: fakeOrdersDb_get_def spread_value_def spread_no_id)
    qed
  qed
  then show "k \<in> set update_names \<union> set Object_prototype_functions"
    and "map_of (spread_value (fakeOrdersDb_get s k)) ''id'' = None"
    by simp_all
qed

lemma prototype_read:
  assumes "orders_inv s"
  shows "list_all (\<lambda>p. fst p \<in> set update_names \<and> \<not> is_object (snd p))
           (spread_value (fakeOrdersDb_get s ''__proto__''))"
proof -
  have "''__proto__'' \<notin> fst ` set (fakeOrdersDb s)"
    using assms by (auto simp: orders_inv_def list_all_iff)
  then have own: "map_of (fakeOrdersDb s) ''__proto__'' = None"
    by (simp add: map_of_eq_None_iff)
  show ?thesis
  proof (cases "fakeOrdersDb_prototype s")
    case None
    with own show ?thesis
      by (simp add: fakeOrdersDb_get_def Object_prototype_get_def spread_value_def)
  next
    case (Some kvs)
    with assms have plain: "list_all (\<lambda>p. fst p \<in> set update_names \<and> \<not> is_object (snd p)) kvs"
      by (simp add: orders_inv_def)
    then have "''__proto__'' \<notin> fst ` set kvs"
      by (auto simp: list_all_iff update_names_def)
    then have "map_of kvs ''__proto__'' = None"
      by (simp add: map_of_eq_None_iff)
    with own Some plain show ?thesis
      by (simp add: fakeOrdersDb_get_def Object_prototype_get_def spread_value_def spread_def)
  qed
qed

lemma record_ids_no_id: "map_of kvs ''id'' = None \<Longrightarrow> record_ids (JObj kvs) = []"
  by (simp add: record_ids_def js_get_def get_prop_def)

lemma putOrder_fresh:
  assumes "orders_inv s"
  shows "orders_fresh_step s (snd (putOrder now orderId validation s))"
proof -
  let ?r = "fakeOrdersDb_get s orderId"
  have same: "orders_fresh_step s s"
    using assms by (simp add: orders_fresh_step_def created_order_ids_same)
  show ?thesis
  proof (cases "truthy_value ?r")
    case False
    with same show ?thesis by (simp add: putOrder_def)
  next
    case True
    show ?thesis
    proof (cases validation)
      case (Inl errs)
      with same show ?thesis by (simp add: putOrder_def Let_def)
    next
      case (Inr updateData)
      let ?new = "updateOrderModel now ?r updateData"
      have s': "snd (putOrder now orderId validation s) = fakeOrdersDb_set s orderId (JObj ?new)"
        using True Inr by (simp add: putOrder_def Let_def)
      show ?thesis
      proof (cases "orderId = ''__proto__''")
        case True
        have "orders_inv (s\<lparr>fakeOrdersDb_prototype := Some ?new\<rparr>)"
          using assms updateOrderModel_plain [OF prototype_read [OF assms], of now updateData]
          by (simp add: orders_inv_def True)
        then show ?thesis
          unfolding s' by (simp add: True fakeOrdersDb_set_def orders_fresh_step_def
              created_order_ids_same)
      next
        case False
        have set: "fakeOrdersDb_set s orderId (JObj ?new) =
                   s\<lparr>fakeOrdersDb := AList.update orderId (JObj ?new) (fakeOrdersDb s)\<rparr>"
          using False by (simp add: fakeOrdersDb_set_def)
        show ?thesis
        proof (cases "orderId \<in> fst ` set (fakeOrdersDb s)")
          case True
          then have keys: "map fst (AList.update orderId (JObj ?new) (fakeOrdersDb s)) =
                           map fst (fakeOrdersDb s)"
            by (simp add: update_keys)
          have "created_order_ids (fakeOrdersDb s)
                  (AList.update orderId (JObj ?new) (fakeOrdersDb s)) = []"
            by (rule created_order_ids_subset) (simp only: keys subset_refl)
          moreover have "orders_inv (s\<lparr>fakeOrdersDb :=
                            AList.update orderId (JObj ?new) (fakeOrdersDb s)\<rparr>)"
            using assms by (simp add: orders_inv_def keys)
          ultimately show ?thesis
            unfolding s' set by (simp add: orders_fresh_step_def)
        next
          case not_own: False
          from inherited_read [OF assms not_own False \<open>truthy_value ?r\<close>] have
            name: "orderId \<in> set update_names \<union> set Object_prototype_functions" and
            no_id: "map_of (spread_value ?r) ''id'' = None"
            by simp_all
          have "record_ids (JObj ?new) = []"
            using no_id by (simp add: record_ids_no_id updateOrderModel_id)
          then have created: "created_order_ids (fakeOrdersDb s)
                  (AList.update orderId (JObj ?new) (fakeOrdersDb s)) = []"
            using not_own by (simp add: created_order_ids_fresh)
          have "orders_inv (s\<lparr>fakeOrdersDb := AList.update orderId (JObj ?new) (fakeOrdersDb s),
                              orders_currentId := orders_currentId s\<rparr>)"
            using assms not_own False numeral_below_name [OF name]
            by (rule orders_inv_new_key) simp
          then have "orders_inv (s\<lparr>fakeOrdersDb :=
                            AList.update orderId (JObj ?new) (fakeOrdersDb s)\<rparr>)"
            by simp
          with created show ?thesis
            unfolding s' set by (simp add: orders_fresh_step_def)
        qed
      qed
    qed
  qed
qed

lemma deleteOrder_fresh:
  assumes "orders_inv s"
  shows "orders_fresh_step s (snd (deleteOrder orderId s))"
proof -
  have sub: "set (map fst (AList.delete orderId (fakeOrdersDb s))) \<subseteq> set (map fst (fakeOrdersDb s))"
    by (auto simp: delete_keys simp del: set_map)
  have "created_order_ids (fakeOrdersDb s) (AList.delete orderId (fakeOrdersDb s)) = []"
    using sub by (rule created_order_ids_subset)
  moreover have "orders_inv (s\<lparr>fakeOrdersDb := AList.delete orderId (fakeOrdersDb s)\<rparr>)"
    using assms sub by (auto simp: orders_inv_def list_all_iff simp del: set_map)
  ultimately show ?thesis
    using assms
    by (simp add: deleteOrder_def fakeOrdersDb_delete_def orders_fresh_step_def
        created_order_ids_same Let_def)
qed

lemma orders_readonly_fresh:
  assumes "orders_inv s"
  shows "orders_fresh_step s (snd (getOrder orderId s))"
    and "orders_fresh_step s (snd (listOrders oenv userIdQ statusQ s))"
    and "orders_fresh_step s (snd (listUserOrders oenv userId q s))"
    and "orders_fresh_step s (snd (orders_health now s))"
    and "orders_fresh_step s (snd (orders_status s))"
  using assms
  by (auto simp: getOrder_def listOrders_def listUserOrders_def orders_health_def
      orders_status_def orders_fresh_step_def created_order_ids_same Let_def
      split: option.split)

lemma orders_service_fresh:
  assumes "orders_inv s"
  shows "orders_fresh_step s (snd (orders_service oenv s r))"
  using assms
  by (cases r)
     (simp_all add: createOrder_fresh putOrder_fresh deleteOrder_fresh orders_readonly_fresh)

lemma orders_issued_increasing:
  "orders_inv s \<Longrightarrow>
     sorted_wrt (<) (orders_issued oenv s rs) \<and>
     list_all (\<lambda>k. orders_currentId s \<le> k) (orders_issued oenv s rs)"
proof (induction rs arbitrary: s)
  case Nil
  then show ?case by simp
next
  case (Cons r rs)
  let ?s' = "snd (orders_service oenv s r)"
  have step: "orders_fresh_step s ?s'"
    using Cons.prems by (rule orders_service_fresh)
  then have inv': "orders_inv ?s'"
    by (simp add: orders_fresh_step_def)
  from Cons.IH [OF inv'] have
    rest: "sorted_wrt (<) (orders_issued oenv ?s' rs)"
      "list_all (\<lambda>k. orders_currentId ?s' \<le> k) (orders_issued oenv ?s' rs)"
    by simp_all
  from step consider
      (same) "created_order_ids (fakeOrdersDb s) (fakeOrdersDb ?s') = []"
        "orders_currentId ?s' = orders_currentId s"
    | (fresh) "created_order_ids (fakeOrdersDb s) (fakeOrdersDb ?s') = [orders_currentId s]"
        "orders_currentId ?s' = orders_currentId s + 1"
    by (auto simp: orders_fresh_step_def)
  then show ?case
  proof cases
    case same
    with rest show ?thesis by (simp add: Let_def)
  next
    case fresh
    with rest show ?thesis by (auto simp: Let_def list_all_iff)
  qed
qed

lemma orders_init_inv: "orders_inv orders_init"
  by (simp add: orders_init_def orders_inv_def)


lemma number_key_not_proto: "number_key n \<noteq> ''__proto__''"
proof (cases "n < 0")
  case True
  then show ?thesis by (simp add: number_key_def)
next
  case False
  then show ?thesis
    using show_nat_not_name [of "nat n"] by (simp add: number_key_def)
qed

section \<open>What the breakers count as a failure\<close>

text \<open>
  Claim C1, as stated, fails for a 5xx response: the action of each breaker passes
  \<open>validateStatus: () => true\<close>, so every response that arrives resolves the action,
  and a response with status 500 is not recorded as a failure.
\<close>

theorem server_error_is_no_breaker_failure:
  "\<not> breaker_failure
       (usersCircuit_action
          (Responded (Response 500 (JObj [(''error'', JStr ''Internal server error'')]))))"
  by (simp add: usersCircuit_action_def circuit_action_def axios_def breaker_failure_def)

text \<open>
  Claim C1, amended. For every call through either breaker, the call is recorded as a
  breaker failure exactly when no response arrives, by a timeout or a connection
  failure; a call that completes with an HTTP response is recorded as no failure
  whatever its status, 4xx and 5xx alike.
\<close>

theorem breaker_failure_iff_no_response:
  "breaker_failure (usersCircuit_action t) = (t = TimedOut \<or> t = ConnectionFailed) \<and>
   breaker_failure (ordersCircuit_action t) = (t = TimedOut \<or> t = ConnectionFailed)"
  by (cases t)
     (simp_all add: usersCircuit_action_def ordersCircuit_action_def circuit_action_def
        axios_def breaker_failure_def)

section \<open>What the caller gets when the fallback fires\<close>

lemmas fire_defs =
  fire_call_def circuit_of_def fire_def action_of_def usersCircuit_action_def
  ordersCircuit_action_def circuit_action_def axios_def

lemma fire_open: "fire u Open t = fallback_of u"
  by (simp add: fire_def)

lemma fire_failed:
  "t = TimedOut \<or> t = ConnectionFailed \<Longrightarrow> fire u st t = fallback_of u"
  by (cases u)
     (auto simp: fire_def action_of_def usersCircuit_action_def ordersCircuit_action_def
        circuit_action_def axios_def)

lemma fire_responded:
  "st \<noteq> Open \<Longrightarrow>
   fire u st (Responded r) = JObj [(''data'', body r), (''status'', JNum (status r))]"
  by (cases u)
     (auto simp: fire_def action_of_def usersCircuit_action_def ordersCircuit_action_def
        circuit_action_def axios_def)

text \<open>The fallback's value has neither a \<open>status\<close> nor a \<open>data\<close> property, so forwarding
  it throws and the handler's \<open>catch\<close> answers.\<close>

lemma forward_fallback: "forward (fallback_of u) = internal_error"
  by (cases u)
     (simp_all add: forward_def fallback_of_def usersCircuit_fallback_def
        ordersCircuit_fallback_def js_get_def get_prop_def res_status_json_def)

text \<open>So every route that fires one call and forwards its result answers 500 when the
  breaker of the call's upstream is open, and when the call fails.\<close>

lemma proxy_open_breaker:
  "circuit_of be (target c) = Open \<Longrightarrow> proxy be c pub = (internal_error, [c], pub)"
  by (simp add: proxy_def fire_call_def fire_open forward_fallback)

lemma proxy_failed_call:
  "net be c = TimedOut \<or> net be c = ConnectionFailed \<Longrightarrow>
   proxy be c pub = (internal_error, [c], pub)"
  by (simp add: proxy_def fire_call_def fire_failed forward_fallback)

text \<open>
  Claim C2. With the users breaker open, and also with the breaker closed and the call
  timing out, \<open>GET /api/v1/users/status\<close> answers 500 with the body
  \<open>{error: 'Internal server error'}\<close>: the fallback's message
  \<open>Users service temporarily unavailable\<close> does not reach the caller, and the status
  is not 503.
\<close>

theorem users_status_fallback_gives_500:
  "run_route env GET_users_status (users_status_handler (be\<lparr>usersCircuit := Open\<rparr>)) req pub =
     (Response 500 (JObj [(''error'', JStr ''Internal server error'')]),
      [\<lparr>target = UsersUpstream, url = ''http://service_users:8000/users/status'',
        http_method = ''GET'', payload = JUndefined\<rparr>], pub) \<and>
   fst (run_route env GET_users_status
          (users_status_handler
             \<lparr>usersCircuit = Closed, ordersCircuit = Closed, net = (\<lambda>c. TimedOut)\<rparr>) req pub) =
     Response 500 (JObj [(''error'', JStr ''Internal server error'')])"
  by (simp add: run_route_def route_guards_def route_auth_def users_status_handler_def
      proxy_def fire_call_def circuit_of_def fire_open fire_failed forward_fallback
      internal_error_def plain_error_def USERS_SERVICE_URL_def)

text \<open>
  Claim C6. With the users service answering 200 and the orders breaker open, and also
  with the orders breaker closed and the call to the orders service refused, the
  handler of \<open>GET /api/v1/users/:userId/details\<close> answers 500 with
  \<open>{success: false, error: 'Internal server error'}\<close>: reading \<open>.data.data\<close> of the
  fallback's value throws.
\<close>

theorem details_orders_fallback_gives_500:
  "fst (details_handler env
          \<lparr>usersCircuit = Closed, ordersCircuit = Open,
           net = (\<lambda>c. Responded (Response 200 u))\<rparr> req pub) =
     Response 500
       (JObj [(''success'', JBool False), (''error'', JStr ''Internal server error'')]) \<and>
   fst (details_handler env
          \<lparr>usersCircuit = Closed, ordersCircuit = Closed,
           net = (\<lambda>c. if target c = UsersUpstream then Responded (Response 200 u)
                       else ConnectionFailed)\<rparr> req pub) =
     Response 500
       (JObj [(''success'', JBool False), (''error'', JStr ''Internal server error'')])"
  by (simp add: details_handler_def details_calls_def fire_call_def circuit_of_def fire_open
      fire_failed fire_responded details_try_def js_get_def get_prop_def fallback_of_def
      ordersCircuit_fallback_def internal_error_envelope_def orders_failed_def)

text \<open>When the orders service itself answers with an error, the list of orders is empty
  and the response is a success.\<close>

lemma details_orders_error_response:
  "fst (details_handler env
          \<lparr>usersCircuit = Closed, ordersCircuit = Closed,
           net = (\<lambda>c. if target c = UsersUpstream then Responded (Response 200 u)
                       else Responded (Response 500 (orders_failed ''Internal server error'')))\<rparr>
          req pub) =
     Response 200 (JObj [(''success'', JBool True),
                         (''data'', JObj [(''user'', u), (''orders'', JArr [])])])"
  by (simp add: details_handler_def details_calls_def fire_call_def circuit_of_def
      fire_responded details_try_def js_get_def get_prop_def orders_failed_def js_truthy_def)

section \<open>The guards\<close>

lemma authenticateJWT_rejects:
  assumes "case bearer_token (authorization req) of
             None \<Rightarrow> True | Some token \<Rightarrow> token = [] \<or> jwt_verify env token = None"
  shows "\<exists>msg. authenticateJWT env req = Respond (Response 401 (gw_error msg))"
  using assms by (auto simp: authenticateJWT_def split: option.splits)

lemma route_bad_credential:
  assumes "route_auth r"
    and "case bearer_token (authorization req) of
           None \<Rightarrow> True | Some token \<Rightarrow> token = [] \<or> jwt_verify env token = None"
  shows "\<exists>msg. run_route env r h req pub = (Response 401 (gw_error msg), [], pub)"
proof -
  from authenticateJWT_rejects [OF assms(2)] obtain msg where
    "authenticateJWT env req = Respond (Response 401 (gw_error msg))" ..
  with assms(1) have "run_route env r h req pub = (Response 401 (gw_error msg), [], pub)"
    by (simp add: run_route_def route_guards_def)
  then show ?thesis ..
qed

subsection \<open>The guards behind the middleware of every route\<close>

lemma route_auth_no_limiter: "route_auth r \<Longrightarrow> route_limiter r = None"
  by (auto simp: route_auth_def route_limiter_def)

lemma gateway_body_error:
  "gateway lim env (Some e) ls clientKey now r h req pub = ((e, [], pub), ls)"
  by (simp add: gateway_def)

lemma gateway_throttled:
  assumes "\<not> fst (count_request lim generalLimiter (general_store ls) clientKey now)"
  shows "fst (gateway lim env None ls clientKey now r h req pub) =
         (throttled generalLimiter, [], pub)"
  using assms by (simp add: gateway_def split_beta)

lemma gateway_admitted:
  assumes "route_limiter r = None"
    and "fst (count_request lim generalLimiter (general_store ls) clientKey now)"
  shows "fst (gateway lim env None ls clientKey now r h req pub) = run_route env r h req pub"
  using assms by (simp add: gateway_def split_beta Let_def)

text \<open>The login route of the six attempts is the gateway's middleware stack with the
  limiter of the spec, a body the parser accepted and the login handler.\<close>

lemma login_request_gateway:
  "fst (login_request env uenv gs clientKey now req parsed) =
     (let be = \<lparr>usersCircuit = Closed, ordersCircuit = Closed,
                net = (\<lambda>c. Responded (fst (users_service uenv (users gs) (Login parsed))))\<rparr>;
          out = fst (gateway express_rate_limit env None
                       \<lparr>general_store = general_buckets gs, auth_store = auth_buckets gs\<rparr>
                       clientKey now POST_users_login (login_handler be) req eventPublisher)
      in (fst out, fst (snd out)))"
  by (simp add: login_request_def gateway_def express_rate_limit_def route_limiter_def
      split_beta Let_def)

text \<open>
  Claim C4, as stated, fails for a client that has used up the general request budget:
  the general limiter runs before every route, and the client's next request is answered
  429 whatever its credential. Here the client \<open>203.0.113.7\<close> has 100 requests in its
  running window and sends \<open>GET /api/v1/orders\<close> with an expired token.
\<close>

theorem throttled_bad_credential_gets_429:
  "route_auth GET_orders \<and>
   fst (fst (gateway express_rate_limit
       \<lparr>jwt_verify = (\<lambda>t. None), loose_eq = (\<lambda>v s. False), new_event_id = ''e1'',
        clock = ''2024-01-01T00:00:00.000Z''\<rparr>
       None
       \<lparr>general_store = [(''203.0.113.7'', \<lparr>windowStart = 0, hits = 100\<rparr>)],
        auth_store = []\<rparr>
       ''203.0.113.7'' 1000
       GET_orders
       (\<lambda>req. proxy \<lparr>usersCircuit = Closed, ordersCircuit = Closed,
                      net = (\<lambda>c. ConnectionFailed)\<rparr>
                 \<lparr>target = OrdersUpstream, url = ''http://service_orders:8000/orders'',
                  http_method = ''GET'', payload = JUndefined\<rparr>)
       \<lparr>authorization = Some ''Bearer expired.token'', req_user = JUndefined,
        req_body = JUndefined, param_userId = []\<rparr>
       eventPublisher)) =
     Response 429
       (JObj [(''success'', JBool False),
              (''error'', JStr ''Too many requests from this IP, please try again later.'')])"
  by (simp add: route_auth_def gateway_def express_rate_limit_def admit_def live_bucket_def
      generalLimiter_def throttled_def)

text \<open>
  Claim C4, amended. On every route registered with \<open>authenticateJWT\<close>, take a request
  whose \<open>Authorization\<close> header is absent or does not start with \<open>Bearer \<close>, whose token
  is empty, or whose token \<open>jwt.verify\<close> rejects (bad signature, expired). When the
  body parser accepts its body and the general limiter admits it, the gateway answers
  401; when the body parser accepts its body and the general limiter does not admit it,
  the gateway answers 429 with the limiter's message. In every case, also when the body
  parser rejects the body, the route's handler does not run: no upstream call is fired.
  This holds for every rate limiter and every handler.
\<close>

theorem bad_credential_gets_401_unless_throttled:
  assumes "route_auth r"
    and "case bearer_token (authorization req) of
           None \<Rightarrow> True | Some token \<Rightarrow> token = [] \<or> jwt_verify env token = None"
  shows "(bodyError = None \<and>
          fst (count_request lim generalLimiter (general_store ls) clientKey now) \<longrightarrow>
            (\<exists>msg. fst (gateway lim env bodyError ls clientKey now r h req pub) =
                     (Response 401 (gw_error msg), [], pub))) \<and>
         (bodyError = None \<and>
          \<not> fst (count_request lim generalLimiter (general_store ls) clientKey now) \<longrightarrow>
            fst (gateway lim env bodyError ls clientKey now r h req pub) =
              (throttled generalLimiter, [], pub)) \<and>
         fst (snd (fst (gateway lim env bodyError ls clientKey now r h req pub))) = []"
proof -
  from route_bad_credential [OF assms] obtain msg where
    route: "run_route env r h req pub = (Response 401 (gw_error msg), [], pub)" ..
  have limiter: "route_limiter r = None"
    using assms(1) by (rule route_auth_no_limiter)
  have admitted: "fst (gateway lim env None ls clientKey now r h req pub) =
                    (Response 401 (gw_error msg), [], pub)"
    if "fst (count_request lim generalLimiter (general_store ls) clientKey now)"
    using gateway_admitted [OF limiter that] route by simp
  have throttled: "fst (gateway lim env None ls clientKey now r h req pub) =
                     (throttled generalLimiter, [], pub)"
    if "\<not> fst (count_request lim generalLimiter (general_store ls) clientKey now)"
    using that by (rule gateway_throttled)
  have no_call: "fst (snd (fst (gateway lim env bodyError ls clientKey now r h req pub))) = []"
  proof (cases bodyError)
    case (Some e)
    then show ?thesis by (simp add: gateway_body_error)
  next
    case None
    show ?thesis
      using admitted throttled unfolding None
      by (cases "fst (count_request lim generalLimiter (general_store ls) clientKey now)")
        simp_all
  qed
  show ?thesis
    using admitted throttled no_call by blast
qed

text \<open>An expired token on \<open>GET /api/v1/orders\<close>: from a client without a running window,
  and from a client with 100 requests in its running window.\<close>

theorem bad_credential_gets_401_unless_throttled_witness:
  "route_auth GET_orders \<and>
   bearer_token (Some ''Bearer expired.token'') = Some ''expired.token'' \<and>
   fst (count_request express_rate_limit generalLimiter [] ''203.0.113.7'' 1000) \<and>
   (\<exists>msg. fst (gateway express_rate_limit
       \<lparr>jwt_verify = (\<lambda>t. None), loose_eq = (\<lambda>v s. False), new_event_id = ''e1'',
        clock = ''2024-01-01T00:00:00.000Z''\<rparr>
       None \<lparr>general_store = [], auth_store = []\<rparr> ''203.0.113.7'' 1000
       GET_orders
       (\<lambda>req. proxy \<lparr>usersCircuit = Closed, ordersCircuit = Closed,
                      net = (\<lambda>c. ConnectionFailed)\<rparr>
                 \<lparr>target = OrdersUpstream, url = ''http://service_orders:8000/orders'',
                  http_method = ''GET'', payload = JUndefined\<rparr>)
       \<lparr>authorization = Some ''Bearer expired.token'', req_user = JUndefined,
        req_body = JUndefined, param_userId = []\<rparr>
       eventPublisher) =
     (Response 401 (gw_error msg), [], eventPublisher)) \<and>
   \<not> fst (count_request express_rate_limit generalLimiter
            [(''203.0.113.7'', \<lparr>windowStart = 0, hits = 100\<rparr>)] ''203.0.113.7'' 1000) \<and>
   fst (gateway express_rate_limit
       \<lparr>jwt_verify = (\<lambda>t. None), loose_eq = (\<lambda>v s. False), new_event_id = ''e1'',
        clock = ''2024-01-01T00:00:00.000Z''\<rparr>
       None
       \<lparr>general_store = [(''203.0.113.7'', \<lparr>windowStart = 0, hits = 100\<rparr>)],
        auth_store = []\<rparr>
       ''203.0.113.7'' 1000
       GET_orders
       (\<lambda>req. proxy \<lparr>usersCircuit = Closed, ordersCircuit = Closed,
                      net = (\<lambda>c. ConnectionFailed)\<rparr>
                 \<lparr>target = OrdersUpstream, url = ''http://service_orders:8000/orders'',
                  http_method = ''GET'', payload = JUndefined\<rparr>)
       \<lparr>authorization = Some ''Bearer expired.token'', req_user = JUndefined,
        req_body = JUndefined, param_userId = []\<rparr>
       eventPublisher) =
     (throttled generalLimiter, [], eventPublisher)"
  using bad_credential_gets_401_unless_throttled [where r = GET_orders
      and req = "\<lparr>authorization = Some ''Bearer expired.token'', req_user = JUndefined,
        req_body = JUndefined, param_userId = []\<rparr>"
      and env = "\<lparr>jwt_verify = (\<lambda>t. None), loose_eq = (\<lambda>v s. False), new_event_id = ''e1'',
        clock = ''2024-01-01T00:00:00.000Z''\<rparr>"
      and bodyError = None and lim = express_rate_limit
      and ls = "\<lparr>general_store = [], auth_store = []\<rparr>"
      and clientKey = "''203.0.113.7''" and now = 1000
      and h = "\<lambda>req. proxy \<lparr>usersCircuit = Closed, ordersCircuit = Closed,
                      net = (\<lambda>c. ConnectionFailed)\<rparr>
                 \<lparr>target = OrdersUpstream, url = ''http://service_orders:8000/orders'',
                  http_method = ''GET'', payload = JUndefined\<rparr>"
      and pub = eventPublisher]
    bad_credential_gets_401_unless_throttled [where r = GET_orders
      and req = "\<lparr>authorization = Some ''Bearer expired.token'', req_user = JUndefined,
        req_body = JUndefined, param_userId = []\<rparr>"
      and env = "\<lparr>jwt_verify = (\<lambda>t. None), loose_eq = (\<lambda>v s. False), new_event_id = ''e1'',
        clock = ''2024-01-01T00:00:00.000Z''\<rparr>"
      and bodyError = None and lim = express_rate_limit
      and ls = "\<lparr>general_store = [(''203.0.113.7'', \<lparr>windowStart = 0, hits = 100\<rparr>)],
                 auth_store = []\<rparr>"
      and clientKey = "''203.0.113.7''" and now = 1000
      and h = "\<lambda>req. proxy \<lparr>usersCircuit = Closed, ordersCircuit = Closed,
                      net = (\<lambda>c. ConnectionFailed)\<rparr>
                 \<lparr>target = OrdersUpstream, url = ''http://service_orders:8000/orders'',
                  http_method = ''GET'', payload = JUndefined\<rparr>"
      and pub = eventPublisher]
  by (simp add: route_auth_def bearer_token_def express_rate_limit_def admit_def
      live_bucket_def generalLimiter_def)

lemma roles_array_truthy: "roles_array user = Some rs \<Longrightarrow> js_truthy user"
  by (cases user) (simp_all add: roles_array_def js_get_def js_truthy_def)

lemma roles_array_obj: "roles_array user = Some rs \<Longrightarrow> \<exists>kvs. user = JObj kvs"
  by (cases user) (simp_all add: roles_array_def js_get_def)

lemma list_ex_roles:
  "list_ex (\<lambda>role. JStr role \<in> set rs) allowed \<longleftrightarrow> set (map JStr allowed) \<inter> set rs \<noteq> {}"
  by (auto simp: list_ex_iff)

lemma requireRoles_grants_iff:
  assumes "roles_array (req_user req) = Some rs"
  shows "(\<exists>req'. requireRoles allowed req = Next req') \<longleftrightarrow>
         set (map JStr allowed) \<inter> set rs \<noteq> {}"
  using assms roles_array_truthy [OF assms]
  by (simp add: requireRoles_def list_ex_roles del: set_map)

lemma requireRoles_disjoint:
  assumes "roles_array (req_user req) = Some rs" "set (map JStr allowed) \<inter> set rs = {}"
  shows "\<exists>msg. requireRoles allowed req = Respond (Response 403 (gw_error msg))"
  using assms roles_array_truthy [OF assms(1)]
  by (auto simp: requireRoles_def list_ex_roles simp del: set_map)

lemma route_disjoint_roles_403:
  assumes "route_auth r" "route_roles r = Some allowed"
    and "bearer_token (authorization req) = Some token" "token \<noteq> []"
    and "jwt_verify env token = Some user"
    and "roles_array user = Some rs" "set (map JStr allowed) \<inter> set rs = {}"
  shows "\<exists>msg. run_route env r h req pub = (Response 403 (gw_error msg), [], pub)"
proof -
  have auth: "authenticateJWT env req = Next (req\<lparr>req_user := user\<rparr>)"
    using assms(3-5) by (simp add: authenticateJWT_def)
  have "roles_array (req_user (req\<lparr>req_user := user\<rparr>)) = Some rs"
    using assms(6) by simp
  from requireRoles_disjoint [OF this assms(7)] obtain msg where
    "requireRoles allowed (req\<lparr>req_user := user\<rparr>) = Respond (Response 403 (gw_error msg))" ..
  with auth assms(1,2) have "run_route env r h req pub = (Response 403 (gw_error msg), [], pub)"
    by (simp add: run_route_def route_guards_def)
  then show ?thesis ..
qed

lemma guards_pass:
  assumes "route_auth r" "route_roles r = Some allowed"
    and "bearer_token (authorization req) = Some token" "token \<noteq> []"
    and "jwt_verify env token = Some user"
    and "roles_array user = Some rs" "set (map JStr allowed) \<inter> set rs \<noteq> {}"
  shows "run_route env r h req pub = h (req\<lparr>req_user := user\<rparr>) pub"
  using assms roles_array_truthy [OF assms(6)]
  by (simp add: run_route_def route_guards_def authenticateJWT_def requireRoles_def
      list_ex_roles del: set_map)

text \<open>
  Claim C5, as stated, fails where Claims is absent: the role guard then answers 401
  (\<open>Authentication required\<close>), not 403.
\<close>

theorem absent_claims_get_401_not_403:
  "requireRoles [''Admin'']
     \<lparr>authorization = None, req_user = JUndefined, req_body = JUndefined, param_userId = []\<rparr> =
   Respond (Response 401 (gw_error ''Authentication required''))"
  by (simp add: requireRoles_def js_truthy_def)

text \<open>
  Claim C5, amended. The role guard lets a request whose claims carry a role array pass
  exactly when some required role is in the array. On a route with a required role
  list, a request with a valid credential whose role array is disjoint from the list,
  whose body the body parser accepts and which the general limiter admits, is answered
  403; whatever the body parser and the limiter decide, its handler does not run (no
  upstream call). Claims without a role array are answered 403. When Claims is absent
  the guard answers 401, not 403.
\<close>

theorem role_guard_decision:
  "(roles_array (req_user req1) = Some rs1 \<longrightarrow>
      ((\<exists>req'. requireRoles allowed1 req1 = Next req') \<longleftrightarrow>
       set (map JStr allowed1) \<inter> set rs1 \<noteq> {})) \<and>
   (route_auth r \<and> route_roles r = Some allowed \<and>
    bearer_token (authorization req) = Some token \<and> token \<noteq> [] \<and>
    jwt_verify env token = Some user \<and> roles_array user = Some rs \<and>
    set (map JStr allowed) \<inter> set rs = {} \<longrightarrow>
      (bodyError = None \<and>
       fst (count_request lim generalLimiter (general_store ls) clientKey now) \<longrightarrow>
         (\<exists>msg. fst (gateway lim env bodyError ls clientKey now r h req pub) =
                  (Response 403 (gw_error msg), [], pub))) \<and>
      fst (snd (fst (gateway lim env bodyError ls clientKey now r h req pub))) = []) \<and>
   (js_truthy (req_user req2) \<and> roles_array (req_user req2) = None \<longrightarrow>
      requireRoles allowed2 req2 = Respond (Response 403 (gw_error ''User roles not found''))) \<and>
   (\<not> js_truthy (req_user req3) \<longrightarrow>
      requireRoles allowed3 req3 = Respond (Response 401 (gw_error ''Authentication required'')))"
proof (intro conjI impI)
  assume "roles_array (req_user req1) = Some rs1"
  then show "(\<exists>req'. requireRoles allowed1 req1 = Next req') \<longleftrightarrow>
             set (map JStr allowed1) \<inter> set rs1 \<noteq> {}"
    by (rule requireRoles_grants_iff)
next
  assume a: "route_auth r \<and> route_roles r = Some allowed \<and>
    bearer_token (authorization req) = Some token \<and> token \<noteq> [] \<and>
    jwt_verify env token = Some user \<and> roles_array user = Some rs \<and>
    set (map JStr allowed) \<inter> set rs = {}"
  assume b: "bodyError = None \<and>
    fst (count_request lim generalLimiter (general_store ls) clientKey now)"
  from a obtain msg where
    route: "run_route env r h req pub = (Response 403 (gw_error msg), [], pub)"
    using route_disjoint_roles_403 by blast
  have limiter: "route_limiter r = None"
    using a by (simp add: route_auth_no_limiter)
  have admitted: "fst (count_request lim generalLimiter (general_store ls) clientKey now)"
    using b by simp
  have "fst (gateway lim env bodyError ls clientKey now r h req pub) =
        (Response 403 (gw_error msg), [], pub)"
    using gateway_admitted [OF limiter admitted] route b by simp
  then show "\<exists>msg. fst (gateway lim env bodyError ls clientKey now r h req pub) =
                   (Response 403 (gw_error msg), [], pub)" ..
next
  assume a: "route_auth r \<and> route_roles r = Some allowed \<and>
    bearer_token (authorization req) = Some token \<and> token \<noteq> [] \<and>
    jwt_verify env token = Some user \<and> roles_array user = Some rs \<and>
    set (map JStr allowed) \<inter> set rs = {}"
  then obtain msg where
    route: "run_route env r h req pub = (Response 403 (gw_error msg), [], pub)"
    using route_disjoint_roles_403 by blast
  have limiter: "route_limiter r = None"
    using a by (simp add: route_auth_no_limiter)
  show "fst (snd (fst (gateway lim env bodyError ls clientKey now r h req pub))) = []"
  proof (cases bodyError)
    case (Some e)
    then show ?thesis by (simp add: gateway_body_error)
  next
    case None
    show ?thesis
    proof (cases "fst (count_request lim generalLimiter (general_store ls) clientKey now)")
      case True
      then show ?thesis
        unfolding None using gateway_admitted [OF limiter True] route by simp
    next
      case False
      then show ?thesis
        unfolding None by (simp add: gateway_throttled)
    qed
  qed
next
  assume "js_truthy (req_user req2) \<and> roles_array (req_user req2) = None"
  then show "requireRoles allowed2 req2 =
             Respond (Response 403 (gw_error ''User roles not found''))"
    by (simp add: requireRoles_def)
next
  assume "\<not> js_truthy (req_user req3)"
  then show "requireRoles allowed3 req3 =
             Respond (Response 401 (gw_error ''Authentication required''))"
    by (simp add: requireRoles_def)
qed

text \<open>A customer's token on the role guard of order creation, on the users list (for
  managers and admins) from a client without a running window, claims without roles,
  and no claims.\<close>

theorem role_guard_decision_witness:
  "roles_array scenario_claims = Some [JStr ''Customer''] \<and>
   (\<exists>req'. requireRoles [''Customer'', ''Manager'', ''Admin'']
             \<lparr>authorization = Some ''Bearer valid.token'', req_user = scenario_claims,
              req_body = JUndefined, param_userId = []\<rparr> = Next req') \<and>
   route_roles GET_users = Some [''Manager'', ''Admin''] \<and>
   fst (count_request express_rate_limit generalLimiter [] ''203.0.113.7'' 1000) \<and>
   (\<exists>msg. fst (gateway express_rate_limit scenario_env None
                  \<lparr>general_store = [], auth_store = []\<rparr> ''203.0.113.7'' 1000 GET_users
             (\<lambda>req. proxy \<lparr>usersCircuit = Closed, ordersCircuit = Closed,
                            net = (\<lambda>c. ConnectionFailed)\<rparr>
                       \<lparr>target = UsersUpstream, url = ''http://service_users:8000/users'',
                        http_method = ''GET'', payload = JUndefined\<rparr>)
             \<lparr>authorization = Some ''Bearer valid.token'', req_user = JUndefined,
              req_body = JUndefined, param_userId = []\<rparr>
             eventPublisher) =
           (Response 403 (gw_error msg), [], eventPublisher)) \<and>
   requireRoles [''Admin'']
     \<lparr>authorization = None, req_user = JObj [(''id'', JNum 1)], req_body = JUndefined,
      param_userId = []\<rparr> =
     Respond (Response 403 (gw_error ''User roles not found'')) \<and>
   requireRoles [''Admin'']
     \<lparr>authorization = None, req_user = JNull, req_body = JUndefined, param_userId = []\<rparr> =
     Respond (Response 401 (gw_error ''Authentication required''))"
  using role_guard_decision
    [where ?req1.0 = "\<lparr>authorization = Some ''Bearer valid.token'',
                       req_user = scenario_claims, req_body = JUndefined, param_userId = []\<rparr>"
       and ?rs1.0 = "[JStr ''Customer'']"
       and ?allowed1.0 = "[''Customer'', ''Manager'', ''Admin'']"
       and r = GET_users and allowed = "[''Manager'', ''Admin'']"
       and req = "\<lparr>authorization = Some ''Bearer valid.token'', req_user = JUndefined,
                   req_body = JUndefined, param_userId = []\<rparr>"
       and token = "''valid.token''" and env = scenario_env and user = scenario_claims
       and rs = "[JStr ''Customer'']"
       and bodyError = None and lim = express_rate_limit
       and ls = "\<lparr>general_store = [], auth_store = []\<rparr>"
       and clientKey = "''203.0.113.7''" and now = 1000
       and h = "\<lambda>req. proxy \<lparr>usersCircuit = Closed, ordersCircuit = Closed,
                            net = (\<lambda>c. ConnectionFailed)\<rparr>
                       \<lparr>target = UsersUpstream, url = ''http://service_users:8000/users'',
                        http_method = ''GET'', payload = JUndefined\<rparr>"
       and pub = eventPublisher
       and ?req2.0 = "\<lparr>authorization = None, req_user = JObj [(''id'', JNum 1)],
                       req_body = JUndefined, param_userId = []\<rparr>"
       and ?allowed2.0 = "[''Admin'']"
       and ?req3.0 = "\<lparr>authorization = None, req_user = JNull, req_body = JUndefined,
                       param_userId = []\<rparr>"
       and ?allowed3.0 = "[''Admin'']"]
  by (simp add: scenario_claims_def scenario_env_def roles_array_def js_get_def get_prop_def
      js_truthy_def route_auth_def bearer_token_def express_rate_limit_def admit_def
      live_bucket_def generalLimiter_def)

section \<open>Creating an order through the gateway\<close>

lemma show_nat_0: "show_nat 0 = ''0''"
  by (simp add: show_nat.simps digit_char_def)

lemmas guard_defs =
  run_route_def route_guards_def route_auth_def authenticateJWT_def bearer_token_def
  requireRoles_def js_truthy_def roles_array_def

lemmas schema_defs =
  createOrderSchema_def z_number_min_def z_items_min1_def OrderItemSchema_def
  z_string_min1_def invalid_type_def dot_def show_nat_0 z_totalAmount_def
  z_status_default_def errors_of_def

text \<open>
  Claim C8. The item \<open>{productId: "p1", quantity: 2, price: 10}\<close> has no
  \<open>productName\<close>, which the orders service's \<open>OrderItemSchema\<close> requires: a customer
  with a valid token who posts it (with \<open>userId: 1\<close>) gets 400 \<open>Validation failed\<close> for
  the field \<open>items.0.productName\<close>, no order is created and no event is published.
\<close>

theorem scenario_item_without_productName_is_rejected:
  "fst (fst (place_order scenario_env ''2024-01-01T00:00:00.000Z'' (Some (Response 200 JNull))
               orders_init
               (scenario_request
                  (JObj [(''productId'', JStr ''p1''), (''quantity'', JNum 2),
                         (''price'', JNum 10)]))
               eventPublisher)) =
     Response 400
       (JObj [(''success'', JBool False), (''error'', JStr ''Validation failed''),
              (''errors'', JArr [JObj [(''field'', JStr ''items.0.productName''),
                                       (''message'', JStr ''Required'')]])]) \<and>
   published (snd (snd (fst (place_order scenario_env ''2024-01-01T00:00:00.000Z''
               (Some (Response 200 JNull)) orders_init
               (scenario_request
                  (JObj [(''productId'', JStr ''p1''), (''quantity'', JNum 2),
                         (''price'', JNum 10)]))
               eventPublisher)))) = [] \<and>
   snd (place_order scenario_env ''2024-01-01T00:00:00.000Z'' (Some (Response 200 JNull))
          orders_init
          (scenario_request
             (JObj [(''productId'', JStr ''p1''), (''quantity'', JNum 2),
                    (''price'', JNum 10)]))
          eventPublisher) = orders_init"
  by (simp add: place_order_def scenario_env_def scenario_request_def scenario_claims_def
      guard_defs js_get_def get_prop_def post_orders_handler_def post_orders_call_def
      fire_defs createOrder_def schema_defs orders_invalid_def error_list_def
      forward_def res_status_json_def Let_def eventPublisher_def subscribe_def)

lemma createOrder_scenario:
  assumes "1 \<le> uid" "pname \<noteq> []" "checkUserExists userFetch"
  shows "createOrder now userFetch
           (JObj [(''userId'', JNum uid),
                  (''items'', JArr [JObj [(''productId'', JStr ''p1''),
                                          (''productName'', JStr pname),
                                          (''quantity'', JNum 2), (''price'', JNum 10)]])]) s =
         (Response 201 (orders_ok (order_obj (scenario_order now uid pname (orders_currentId s)))),
          fakeOrdersDb_set (s\<lparr>orders_currentId := orders_currentId s + 1\<rparr>)
            (number_key (orders_currentId s))
            (order_obj (scenario_order now uid pname (orders_currentId s))))"
  using assms
  by (simp add: createOrder_def schema_defs get_prop_def createOrderModel_def
      processOrderItems_def sum_subtotals_def falsy_num_def generateOrderId_def
      scenario_order_def ORDER_STATUS_CREATED_def Let_def)

lemma post_orders_handler_created:
  assumes "req_user req = JObj kvs"
    and "net be (post_orders_call req) = Responded (Response 201 (orders_ok (order_obj ord)))"
    and "ordersCircuit be = Closed"
  shows "post_orders_handler env be req pub =
         (Response 201 (orders_ok (order_obj ord)), [post_orders_call req],
          publish (OrderCreatedEvent (new_event_id env) (clock env)
                     [(''id'', JNum (order_id ord)), (''userId'', get_prop kvs ''id''),
                      (''items'', JArr (map item_obj (order_items ord))),
                      (''totalAmount'', JNum (order_totalAmount ord)),
                      (''status'', js_or (JStr (order_status ord)) (JStr ''pending'')),
                      (''createdAt'', js_or (JStr (order_createdAt ord)) (JStr (clock env)))])
            pub)"
proof -
  have tgt: "target (post_orders_call req) = OrdersUpstream"
    by (simp add: post_orders_call_def)
  have res: "fire_call be (post_orders_call req) =
             JObj [(''data'', orders_ok (order_obj ord)), (''status'', JNum 201)]"
    using assms(2,3) by (simp add: fire_defs tgt)
  have created: "created_order_of env req (orders_ok (order_obj ord)) =
      Some [(''id'', JNum (order_id ord)), (''userId'', get_prop kvs ''id''),
            (''items'', JArr (map item_obj (order_items ord))),
            (''totalAmount'', JNum (order_totalAmount ord)),
            (''status'', js_or (JStr (order_status ord)) (JStr ''pending'')),
            (''createdAt'', js_or (JStr (order_createdAt ord)) (JStr (clock env)))]"
    using assms(1)
    by (simp add: created_order_of_def orders_ok_def order_obj_def js_get_def get_prop_def
        js_or_def js_truthy_def Let_def)
  show ?thesis
    unfolding post_orders_handler_def Let_def res
    by (simp add: js_get_def get_prop_def created [unfolded orders_ok_def get_prop_def]
        forward_def res_status_json_def js_truthy_def orders_ok_def)
qed

text \<open>With a product name on the item the scenario goes through: for a caller with a
  valid token and one of the roles Customer, Manager, Admin, a positive \<open>userId\<close> of a
  user the users service knows and the item of the scenario, the response is 201 with
  a success envelope whose order has \<open>totalAmount = 20\<close>, exactly one
  \<open>order.created\<close> event is published, whose \<open>aggregateId\<close> is the id of the order,
  and the store holds the order under its id.\<close>

lemma order_with_named_product_is_created:
  assumes "bearer_token (authorization req) = Some token" "token \<noteq> []"
    and "jwt_verify env token = Some user" "roles_array user = Some rs"
    and "set (map JStr [''Customer'', ''Manager'', ''Admin'']) \<inter> set rs \<noteq> {}"
    and "req_body req =
           JObj [(''userId'', JNum uid),
                 (''items'', JArr [JObj [(''productId'', JStr ''p1''),
                                         (''productName'', JStr pname),
                                         (''quantity'', JNum 2), (''price'', JNum 10)]])]"
    and "1 \<le> uid" "pname \<noteq> []" "checkUserExists userFetch"
    and "place_order env now userFetch s req pub = ((resp, calls, pub'), s')"
  shows "status resp = 201 \<and>
         js_path (body resp) [''success''] = Some (JBool True) \<and>
         js_path (body resp) [''data'', ''totalAmount''] = Some (JNum 20) \<and>
         js_path (body resp) [''data'', ''id''] = Some (JNum (orders_currentId s)) \<and>
         (\<exists>ev. published pub' = published pub @ [ev] \<and>
               event_type ev = ''order.created'' \<and>
               aggregateId ev = JNum (orders_currentId s)) \<and>
         fakeOrdersDb_get s' (number_key (orders_currentId s)) =
           Data (order_obj (scenario_order now uid pname (orders_currentId s)))"
proof -
  let ?ord = "scenario_order now uid pname (orders_currentId s)"
  let ?req' = "req\<lparr>req_user := user\<rparr>"
  let ?be = "\<lparr>usersCircuit = Closed, ordersCircuit = Closed,
              net = (\<lambda>c. Responded (fst (createOrder now userFetch (payload c) s)))\<rparr>"
  from roles_array_obj [OF assms(4)] obtain kvs where user: "user = JObj kvs" ..
  have pass: "run_route env POST_orders (post_orders_handler env ?be) req pub =
              post_orders_handler env ?be ?req' pub"
    by (rule guards_pass [OF _ _ assms(1-5)]) (simp_all add: route_auth_def)
  have payload: "payload (post_orders_call ?req') = req_body req"
    by (simp add: post_orders_call_def)
  have created: "createOrder now userFetch (req_body req) s =
      (Response 201 (orders_ok (order_obj ?ord)),
       fakeOrdersDb_set (s\<lparr>orders_currentId := orders_currentId s + 1\<rparr>)
         (number_key (orders_currentId s)) (order_obj ?ord))"
    unfolding assms(6) by (rule createOrder_scenario [OF assms(7-9)])
  have handler: "post_orders_handler env ?be ?req' pub =
      (Response 201 (orders_ok (order_obj ?ord)), [post_orders_call ?req'],
       publish (OrderCreatedEvent (new_event_id env) (clock env)
                  [(''id'', JNum (order_id ?ord)), (''userId'', get_prop kvs ''id''),
                   (''items'', JArr (map item_obj (order_items ?ord))),
                   (''totalAmount'', JNum (order_totalAmount ?ord)),
                   (''status'', js_or (JStr (order_status ?ord)) (JStr ''pending'')),
                   (''createdAt'', js_or (JStr (order_createdAt ?ord)) (JStr (clock env)))])
         pub)"
    by (rule post_orders_handler_created) (simp_all add: user post_orders_call_def created)
  from assms(10) have
    resp: "resp = Response 201 (orders_ok (order_obj ?ord))" and
    pub': "pub' = publish (OrderCreatedEvent (new_event_id env) (clock env)
                  [(''id'', JNum (order_id ?ord)), (''userId'', get_prop kvs ''id''),
                   (''items'', JArr (map item_obj (order_items ?ord))),
                   (''totalAmount'', JNum (order_totalAmount ?ord)),
                   (''status'', js_or (JStr (order_status ?ord)) (JStr ''pending'')),
                   (''createdAt'', js_or (JStr (order_createdAt ?ord)) (JStr (clock env)))])
         pub" and
    s': "s' = fakeOrdersDb_set (s\<lparr>orders_currentId := orders_currentId s + 1\<rparr>)
               (number_key (orders_currentId s)) (order_obj ?ord)"
    unfolding place_order_def Let_def pass handler
    by (simp_all add: payload created)
  have "status resp = 201" by (simp add: resp)
  moreover have "js_path (body resp) [''success''] = Some (JBool True)"
    by (simp add: resp orders_ok_def js_get_def get_prop_def)
  moreover have "js_path (body resp) [''data'', ''totalAmount''] = Some (JNum 20)"
    by (simp add: resp orders_ok_def order_obj_def scenario_order_def js_get_def get_prop_def)
  moreover have "js_path (body resp) [''data'', ''id''] = Some (JNum (orders_currentId s))"
    by (simp add: resp orders_ok_def order_obj_def scenario_order_def js_get_def get_prop_def)
  moreover have "\<exists>ev. published pub' = published pub @ [ev] \<and>
               event_type ev = ''order.created'' \<and>
               aggregateId ev = JNum (orders_currentId s)"
    by (simp add: pub' publish_def notifyLocalSubscribers_def OrderCreatedEvent_def
        DomainEvent_def ORDER_CREATED_def get_prop_def scenario_order_def Let_def)
  moreover have "fakeOrdersDb_get s' (number_key (orders_currentId s)) = Data (order_obj ?ord)"
    using number_key_not_proto [of "orders_currentId s"]
    by (simp add: s' fakeOrdersDb_set_def fakeOrdersDb_get_def update_conv')
  ultimately show ?thesis by blast
qed

section \<open>Six failed logins\<close>

lemma admit_fresh:
  assumes "live_bucket opts bs k now = None"
  shows "admit opts bs k now =
         (1 \<le> max_requests opts, AList.update k \<lparr>windowStart = now, hits = 1\<rparr> bs)"
  using assms by (simp add: admit_def Let_def)

lemma admit_live:
  assumes "map_of bs k = Some \<lparr>windowStart = w, hits = n\<rparr>" "now < w + windowMs opts"
  shows "admit opts bs k now =
         (n + 1 \<le> max_requests opts, AList.update k \<lparr>windowStart = w, hits = n + 1\<rparr> bs)"
  using assms by (simp add: admit_def live_bucket_def Let_def)

lemma hits_of_update:
  "now < w + windowMs opts \<Longrightarrow>
   hits_of opts (AList.update k \<lparr>windowStart = w, hits = n\<rparr> bs) k now = n"
  by (simp add: hits_of_def live_bucket_def update_conv')

lemma login_route_delivers:
  assumes "100 \<le> status r" "status r \<le> 999"
  shows "run_route env POST_users_login
           (login_handler \<lparr>usersCircuit = Closed, ordersCircuit = Closed,
                           net = (\<lambda>c. Responded r)\<rparr>) req pub =
         (r, [login_call req], pub)"
  using assms
  by (cases r)
     (simp add: run_route_def route_guards_def route_auth_def login_handler_def proxy_def
        login_call_def fire_defs forward_def js_get_def get_prop_def res_status_json_def)

lemma login_wrong:
  assumes "wrong_credentials s em pw"
  shows "users_service uenv s (Login (Inr (em, pw))) = (invalid_login, s)"
  using assms
  by (auto simp: login_def wrong_credentials_def invalid_login_def split: option.splits)

lemma login_right:
  assumes "right_credentials s em pw"
  shows "\<exists>b. users_service uenv s (Login (Inr (em, pw))) = (Response 200 b, s)"
  using assms by (auto simp: login_def right_credentials_def split: option.splits)

lemma first_failed_attempt:
  assumes "live_bucket generalLimiter (general_buckets gs) k now = None"
    and "live_bucket authLimiter (auth_buckets gs) k now = None"
    and "wrong_credentials (users gs) em pw"
  shows "login_request env uenv gs k now req (Inr (em, pw)) =
         ((invalid_login, [login_call req]),
          \<lparr>general_buckets =
             AList.update k \<lparr>windowStart = now, hits = 1\<rparr> (general_buckets gs),
           auth_buckets = AList.update k \<lparr>windowStart = now, hits = 1\<rparr> (auth_buckets gs),
           users = users gs\<rparr>)"
proof -
  have route: "run_route env POST_users_login
           (login_handler \<lparr>usersCircuit = Closed, ordersCircuit = Closed,
                           net = (\<lambda>c. Responded invalid_login)\<rparr>) req eventPublisher =
         (invalid_login, [login_call req], eventPublisher)"
    by (rule login_route_delivers) (simp_all add: invalid_login_def)
  show ?thesis
    unfolding login_request_def admit_fresh [OF assms(1)] admit_fresh [OF assms(2)]
      login_wrong [OF assms(3)]
    by (simp add: Let_def generalLimiter_def authLimiter_def route settle_def
        invalid_login_def [symmetric])
       (simp add: invalid_login_def)
qed

lemma later_failed_attempt:
  assumes "map_of (general_buckets gs) k = Some \<lparr>windowStart = w, hits = g\<rparr>"
    and "map_of (auth_buckets gs) k = Some \<lparr>windowStart = w, hits = n\<rparr>"
    and "now < w + 900000" "g < 100" "n < 5"
    and "wrong_credentials (users gs) em pw"
  shows "login_request env uenv gs k now req (Inr (em, pw)) =
         ((invalid_login, [login_call req]),
          \<lparr>general_buckets =
             AList.update k \<lparr>windowStart = w, hits = g + 1\<rparr> (general_buckets gs),
           auth_buckets = AList.update k \<lparr>windowStart = w, hits = n + 1\<rparr> (auth_buckets gs),
           users = users gs\<rparr>)"
proof -
  have route: "run_route env POST_users_login
           (login_handler \<lparr>usersCircuit = Closed, ordersCircuit = Closed,
                           net = (\<lambda>c. Responded invalid_login)\<rparr>) req eventPublisher =
         (invalid_login, [login_call req], eventPublisher)"
    by (rule login_route_delivers) (simp_all add: invalid_login_def)
  have g: "admit generalLimiter (general_buckets gs) k now =
           (g + 1 \<le> max_requests generalLimiter,
            AList.update k \<lparr>windowStart = w, hits = g + 1\<rparr> (general_buckets gs))"
    by (rule admit_live [OF assms(1)]) (simp add: generalLimiter_def assms(3))
  have a: "admit authLimiter (auth_buckets gs) k now =
           (n + 1 \<le> max_requests authLimiter,
            AList.update k \<lparr>windowStart = w, hits = n + 1\<rparr> (auth_buckets gs))"
    by (rule admit_live [OF assms(2)]) (simp add: authLimiter_def assms(3))
  show ?thesis
    unfolding login_request_def g a login_wrong [OF assms(6)]
    using assms(4,5)
    by (simp add: Let_def generalLimiter_def authLimiter_def route settle_def
        invalid_login_def [symmetric])
       (simp add: invalid_login_def)
qed

lemma throttled_attempt:
  assumes "map_of (general_buckets gs) k = Some \<lparr>windowStart = w, hits = g\<rparr>"
    and "map_of (auth_buckets gs) k = Some \<lparr>windowStart = w, hits = n\<rparr>"
    and "now < w + 900000" "g < 100" "5 \<le> n"
  shows "login_request env uenv gs k now req parsed =
         ((throttled authLimiter, []),
          gs\<lparr>general_buckets :=
               AList.update k \<lparr>windowStart = w, hits = g + 1\<rparr> (general_buckets gs),
             auth_buckets :=
               AList.update k \<lparr>windowStart = w, hits = n + 1\<rparr> (auth_buckets gs)\<rparr>)"
proof -
  have g: "admit generalLimiter (general_buckets gs) k now =
           (g + 1 \<le> max_requests generalLimiter,
            AList.update k \<lparr>windowStart = w, hits = g + 1\<rparr> (general_buckets gs))"
    by (rule admit_live [OF assms(1)]) (simp add: generalLimiter_def assms(3))
  have a: "admit authLimiter (auth_buckets gs) k now =
           (n + 1 \<le> max_requests authLimiter,
            AList.update k \<lparr>windowStart = w, hits = n + 1\<rparr> (auth_buckets gs))"
    by (rule admit_live [OF assms(2)]) (simp add: authLimiter_def assms(3))
  show ?thesis
    unfolding login_request_def g a
    using assms(4,5)
    by (simp add: Let_def generalLimiter_def authLimiter_def)
qed

lemma successful_attempt_not_counted:
  assumes "live_bucket generalLimiter (general_buckets gs) k now = None"
    and "live_bucket authLimiter (auth_buckets gs) k now = None"
    and "right_credentials (users gs) em pw"
  shows "observed (login_attempts env uenv gs k [(now, req, Inr (em, pw))]) = [(200, 1, 0)]"
proof -
  from login_right [OF assms(3)] obtain b where
    up: "users_service uenv (users gs) (Login (Inr (em, pw))) = (Response 200 b, users gs)" ..
  have route: "run_route env POST_users_login
           (login_handler \<lparr>usersCircuit = Closed, ordersCircuit = Closed,
                           net = (\<lambda>c. Responded (Response 200 b))\<rparr>) req eventPublisher =
         (Response 200 b, [login_call req], eventPublisher)"
    by (rule login_route_delivers) simp_all
  have req: "login_request env uenv gs k now req (Inr (em, pw)) =
         ((Response 200 b, [login_call req]),
          \<lparr>general_buckets =
             AList.update k \<lparr>windowStart = now, hits = 1\<rparr> (general_buckets gs),
           auth_buckets = AList.update k \<lparr>windowStart = now, hits = 0\<rparr> (auth_buckets gs),
           users = users gs\<rparr>)"
    unfolding login_request_def admit_fresh [OF assms(1)] admit_fresh [OF assms(2)] up
    by (simp add: Let_def generalLimiter_def authLimiter_def route settle_def update_conv')
  show ?thesis
    by (simp add: req observed_def hits_of_def live_bucket_def update_conv' authLimiter_def)
qed

lemma six_failed_attempts:
  assumes "live_bucket generalLimiter (general_buckets gs) client t1 = None"
    and "live_bucket authLimiter (auth_buckets gs) client t1 = None"
    and "sorted [t1, t2, t3, t4, t5, t6]" "t6 < t1 + windowMs authLimiter"
    and "wrong_credentials (users gs) em pw"
  shows "observed
           (login_attempts env uenv gs client
              [(t1, req1, Inr (em, pw)), (t2, req2, Inr (em, pw)), (t3, req3, Inr (em, pw)),
               (t4, req4, Inr (em, pw)), (t5, req5, Inr (em, pw)), (t6, req6, Inr (em, pw))]) =
         [(401, 1, 1), (401, 1, 2), (401, 1, 3), (401, 1, 4), (401, 1, 5), (429, 0, 6)]"
proof -
  from assms(3,4) have w: "t1 < t1 + 900000" "t2 < t1 + 900000" "t3 < t1 + 900000"
    "t4 < t1 + 900000" "t5 < t1 + 900000" "t6 < t1 + 900000"
    by (simp_all add: authLimiter_def)
  define S where "S n =
    \<lparr>general_buckets =
       AList.update client \<lparr>windowStart = t1, hits = n\<rparr> (general_buckets gs),
     auth_buckets = AList.update client \<lparr>windowStart = t1, hits = n\<rparr> (auth_buckets gs),
     users = users gs\<rparr>" for n
  have s1: "login_request env uenv gs client t1 req1 (Inr (em, pw)) =
            ((invalid_login, [login_call req1]), S 1)"
    unfolding S_def by (rule first_failed_attempt [OF assms(1,2,5)])
  have step: "login_request env uenv (S n) client t req (Inr (em, pw)) =
            ((invalid_login, [login_call req]), S m)"
    if "n < 5" "t < t1 + 900000" "m = n + 1" for n m t req
    using later_failed_attempt [where gs = "S n" and k = client and w = t1 and g = n
        and n = n and now = t and em = em and pw = pw and env = env and uenv = uenv
        and req = req] that assms(5)
    by (simp add: S_def update_conv')
  have s2: "login_request env uenv (S 1) client t2 req2 (Inr (em, pw)) =
            ((invalid_login, [login_call req2]), S 2)"
    by (rule step) (use w in simp_all)
  have s3: "login_request env uenv (S 2) client t3 req3 (Inr (em, pw)) =
            ((invalid_login, [login_call req3]), S 3)"
    by (rule step) (use w in simp_all)
  have s4: "login_request env uenv (S 3) client t4 req4 (Inr (em, pw)) =
            ((invalid_login, [login_call req4]), S 4)"
    by (rule step) (use w in simp_all)
  have s5: "login_request env uenv (S 4) client t5 req5 (Inr (em, pw)) =
            ((invalid_login, [login_call req5]), S 5)"
    by (rule step) (use w in simp_all)
  have s6: "login_request env uenv (S 5) client t6 req6 (Inr (em, pw)) =
            ((throttled authLimiter, []), S 6)"
    using throttled_attempt [where gs = "S 5" and k = client and w = t1 and g = 5
        and n = 5 and now = t6 and env = env and uenv = uenv and req = req6
        and parsed = "Inr (em, pw)"] w(6)
    by (simp add: S_def update_conv')
  have h: "hits_of authLimiter (auth_buckets (S n)) client t = n" if "t < t1 + 900000" for n t
    using that by (simp add: S_def hits_of_update authLimiter_def)
  have run: "login_attempts env uenv gs client
              [(t1, req1, Inr (em, pw)), (t2, req2, Inr (em, pw)), (t3, req3, Inr (em, pw)),
               (t4, req4, Inr (em, pw)), (t5, req5, Inr (em, pw)), (t6, req6, Inr (em, pw))] =
         [(invalid_login, [login_call req1], 1), (invalid_login, [login_call req2], 2),
          (invalid_login, [login_call req3], 3), (invalid_login, [login_call req4], 4),
          (invalid_login, [login_call req5], 5), (throttled authLimiter, [], 6)]"
    by (simp only: login_attempts.simps s1 s2 s3 s4 s5 s6 Let_def prod.case fst_conv snd_conv
        h [OF w(1)] h [OF w(2)] h [OF w(3)] h [OF w(4)] h [OF w(5)] h [OF w(6)])
  show ?thesis
    unfolding run by (simp add: observed_def invalid_login_def throttled_def)
qed

text \<open>
  Claim C7. A client with no running window makes six login attempts within one window
  of the credential-issuing limiter, each with credentials the users service rejects:
  attempts 1 to 5 are answered 401, each after one upstream call, and bring the
  client's hits against the limit of 5 to 1, 2, 3, 4, 5; attempt 6 is answered 429 and
  no upstream call is fired. A login that succeeds is answered 200 and leaves the
  client's hits at 0.
\<close>

theorem six_failed_logins:
  assumes "live_bucket generalLimiter (general_buckets gs) client t1 = None"
    and "live_bucket authLimiter (auth_buckets gs) client t1 = None"
    and "sorted [t1, t2, t3, t4, t5, t6]" "t6 < t1 + windowMs authLimiter"
    and "wrong_credentials (users gs) em pw"
    and "right_credentials (users gs) em' pw'"
  shows "observed
           (login_attempts env uenv gs client
              [(t1, req1, Inr (em, pw)), (t2, req2, Inr (em, pw)), (t3, req3, Inr (em, pw)),
               (t4, req4, Inr (em, pw)), (t5, req5, Inr (em, pw)), (t6, req6, Inr (em, pw))]) =
         [(401, 1, 1), (401, 1, 2), (401, 1, 3), (401, 1, 4), (401, 1, 5), (429, 0, 6)] \<and>
         observed (login_attempts env uenv gs client [(t1, req1, Inr (em', pw'))]) =
         [(200, 1, 0)]"
  using six_failed_attempts [OF assms(1-5)] successful_attempt_not_counted [OF assms(1,2,6)]
  by simp

theorem six_failed_logins_witness:
  "wrong_credentials (users login_scenario) ''alice@example.com'' ''guess'' \<and>
   right_credentials (users login_scenario) ''alice@example.com'' ''secret'' \<and>
   observed
     (login_attempts scenario_env scenario_users_env login_scenario ''203.0.113.7''
        [(0, login_body ''guess'', Inr (''alice@example.com'', ''guess'')),
         (1000, login_body ''guess'', Inr (''alice@example.com'', ''guess'')),
         (2000, login_body ''guess'', Inr (''alice@example.com'', ''guess'')),
         (3000, login_body ''guess'', Inr (''alice@example.com'', ''guess'')),
         (4000, login_body ''guess'', Inr (''alice@example.com'', ''guess'')),
         (5000, login_body ''guess'', Inr (''alice@example.com'', ''guess''))]) =
     [(401, 1, 1), (401, 1, 2), (401, 1, 3), (401, 1, 4), (401, 1, 5), (429, 0, 6)] \<and>
   observed
     (login_attempts scenario_env scenario_users_env login_scenario ''203.0.113.7''
        [(0, login_body ''guess'', Inr (''alice@example.com'', ''secret''))]) = [(200, 1, 0)]"
  using six_failed_logins
    [where gs = login_scenario and client = "''203.0.113.7''"
       and ?t1.0 = 0 and ?t2.0 = 1000 and ?t3.0 = 2000 and ?t4.0 = 3000 and ?t5.0 = 4000
       and ?t6.0 = 5000 and em = "''alice@example.com''" and pw = "''guess''"
       and em' = "''alice@example.com''" and pw' = "''secret''"
       and env = scenario_env and uenv = scenario_users_env
       and ?req1.0 = "login_body ''guess''" and ?req2.0 = "login_body ''guess''"
       and ?req3.0 = "login_body ''guess''" and ?req4.0 = "login_body ''guess''"
       and ?req5.0 = "login_body ''guess''" and ?req6.0 = "login_body ''guess''"]
  by (simp add: login_scenario_def alice_def live_bucket_def wrong_credentials_def
      right_credentials_def object_values_def authLimiter_def)

section \<open>The breaker after it has tripped\<close>

lemma open_within_cooldown:
  assumes "state b = Open" "now < openedAt b + resetTimeout (options cfg)"
  shows "breaker_call cfg u b now t = (\<lparr>returned = fallback_of u, network = False\<rparr>, b)"
  using assms by (simp add: breaker_call_def)

lemma open_breaker_calls:
  assumes "state b = Open"
    and "list_all (\<lambda>c. fst c < openedAt b + resetTimeout (options cfg)) calls"
  shows "list_all (short_circuited u) (breaker_calls cfg u b calls) \<and>
         length (breaker_calls cfg u b calls) = length calls"
  using assms(2)
proof (induction calls)
  case Nil
  then show ?case by simp
next
  case (Cons c calls)
  obtain now t where c: "c = (now, t)" by (cases c)
  with Cons.prems have "now < openedAt b + resetTimeout (options cfg)" by simp
  from open_within_cooldown [OF assms(1) this]
  have "breaker_call cfg u b now t = (\<lparr>returned = fallback_of u, network = False\<rparr>, b)" .
  with Cons c show ?case by (simp add: short_circuited_def)
qed

lemma closed_trips:
  assumes "state b = Closed"
    and "ratio_exceeded cfg (recorded cfg b now (breaker_failure (action_of u t)))"
  shows "state (snd (breaker_call cfg u b now t)) = Open \<and>
         openedAt (snd (breaker_call cfg u b now t)) = now"
  using assms by (simp add: breaker_call_def Let_def)

text \<open>
  Claim C3. A closed breaker takes a call whose outcome brings the failure ratio over
  the rolling window above the threshold, with at least the minimum number of samples:
  the breaker is open afterwards with \<open>openedAt\<close> the time of that call, and every
  call of any sequence of later calls before the cool-down has elapsed returns the
  fallback's value and issues no network request.
\<close>

theorem tripped_breaker_short_circuits:
  assumes "state b = Closed"
    and "ratio_exceeded cfg (recorded cfg b now (breaker_failure (action_of u t)))"
    and "list_all (\<lambda>c. now \<le> fst c \<and> fst c < now + resetTimeout (options cfg)) calls"
  shows "state (snd (breaker_call cfg u b now t)) = Open \<and>
         openedAt (snd (breaker_call cfg u b now t)) = now \<and>
         list_all (short_circuited u)
           (breaker_calls cfg u (snd (breaker_call cfg u b now t)) calls) \<and>
         length (breaker_calls cfg u (snd (breaker_call cfg u b now t)) calls) = length calls"
proof -
  let ?b' = "snd (breaker_call cfg u b now t)"
  from closed_trips [OF assms(1,2)] have opened: "state ?b' = Open" "openedAt ?b' = now"
    by simp_all
  from assms(3) have "list_all (\<lambda>c. fst c < openedAt ?b' + resetTimeout (options cfg)) calls"
    by (simp add: opened list_all_iff)
  from open_breaker_calls [OF opened(1) this] opened show ?thesis by simp
qed

text \<open>With the gateway's options, a minimum of two samples and a window of ten seconds:
  one success and two failures open the breaker at 1000 ms, and the calls at 1500 ms
  and 3999 ms short-circuit.\<close>

theorem tripped_breaker_short_circuits_witness:
  "ratio_exceeded \<lparr>options = circuitOptions, minimumSamples = 2, windowLength = 10000\<rparr>
     (recorded \<lparr>options = circuitOptions, minimumSamples = 2, windowLength = 10000\<rparr>
        \<lparr>state = Closed, samples = [(200, False), (700, True)], openedAt = 0\<rparr> 1000
        (breaker_failure (action_of UsersUpstream ConnectionFailed))) \<and>
   state (snd (breaker_call \<lparr>options = circuitOptions, minimumSamples = 2, windowLength = 10000\<rparr>
             UsersUpstream \<lparr>state = Closed, samples = [(200, False), (700, True)], openedAt = 0\<rparr>
             1000 ConnectionFailed)) = Open \<and>
   breaker_calls \<lparr>options = circuitOptions, minimumSamples = 2, windowLength = 10000\<rparr>
     UsersUpstream
     (snd (breaker_call \<lparr>options = circuitOptions, minimumSamples = 2, windowLength = 10000\<rparr>
             UsersUpstream \<lparr>state = Closed, samples = [(200, False), (700, True)], openedAt = 0\<rparr>
             1000 ConnectionFailed))
     [(1500, Responded (Response 200 JNull)), (3999, ConnectionFailed)] =
   [\<lparr>returned = usersCircuit_fallback, network = False\<rparr>,
    \<lparr>returned = usersCircuit_fallback, network = False\<rparr>]"
  using tripped_breaker_short_circuits
    [where b = "\<lparr>state = Closed, samples = [(200, False), (700, True)], openedAt = 0\<rparr>"
       and cfg = "\<lparr>options = circuitOptions, minimumSamples = 2, windowLength = 10000\<rparr>"
       and now = 1000 and u = UsersUpstream and t = ConnectionFailed
       and calls = "[(1500, Responded (Response 200 JNull)), (3999, ConnectionFailed)]"]
  by (simp add: ratio_exceeded_def recorded_def window_def requests_in_def failures_in_def
      circuitOptions_def breaker_failure_def action_of_def usersCircuit_action_def
      circuit_action_def axios_def breaker_call_def fallback_of_def Let_def)

section \<open>Fresh ids in both stores\<close>

text \<open>The orders store is a plain object: on a new store \<open>GET /orders/constructor\<close> finds
  the function every object inherits under that name and answers 200 with
  \<open>{success: true}\<close>, and \<open>PUT /orders/constructor\<close> passes the existence check and
  stores, as an own property, a record that has no \<open>id\<close>; a later \<open>POST /orders\<close> is
  not affected.\<close>

lemma getOrder_inherited_name:
  "getOrder ''constructor'' orders_init =
     (Response 200 (JObj [(''success'', JBool True)]), orders_init)"
  by (simp add: getOrder_def orders_init_def fakeOrdersDb_get_def Object_prototype_get_def
      Object_prototype_functions_def truthy_value_def with_data_def)

lemma putOrder_inherited_name:
  "putOrder now ''constructor''
     (Inr \<lparr>ou_items = None, ou_totalAmount = None, ou_status = Some ''completed''\<rparr>)
     orders_init =
     (Response 200
        (orders_ok (JObj [(''status'', JStr ''completed''), (''updatedAt'', JStr now)])),
      orders_init\<lparr>fakeOrdersDb :=
        [(''constructor'', JObj [(''status'', JStr ''completed''), (''updatedAt'', JStr now)])]\<rparr>)"
  by (simp add: putOrder_def orders_init_def fakeOrdersDb_get_def Object_prototype_get_def
      Object_prototype_functions_def truthy_value_def updateOrderModel_def
      updateData_props_def assign_props_def spread_value_def fakeOrdersDb_set_def Let_def)

lemma deleteOrder_inherited_name:
  "deleteOrder ''toString'' orders_init =
     (Response 200
        (JObj [(''success'', JBool True), (''message'', JStr ''Order deleted successfully'')]),
      orders_init)"
  by (simp add: deleteOrder_def orders_init_def fakeOrdersDb_get_def Object_prototype_get_def
      Object_prototype_functions_def truthy_value_def with_data_def fakeOrdersDb_delete_def)

text \<open>Every id issued in a run is at most the number of its requests: in a run of fewer
  than \<open>2^53\<close> requests the counter stays in the range where a JavaScript number counts
  exactly, as the integers of the model do.\<close>

lemma users_issued_bounded:
  "keys_below (fakeUsersDb s) (currentId s) \<Longrightarrow>
     list_all (\<lambda>k. k < currentId s + int (length rs)) (users_issued env s rs)"
proof (induction rs arbitrary: s)
  case Nil
  then show ?case by simp
next
  case (Cons r rs)
  let ?s' = "snd (users_service env s r)"
  have step: "users_fresh_step s ?s'"
    using Cons.prems by (rule users_service_fresh)
  then have inv': "keys_below (fakeUsersDb ?s') (currentId ?s')"
    by (simp add: users_fresh_step_def)
  from Cons.IH [OF inv'] have
    rest: "list_all (\<lambda>k. k < currentId ?s' + int (length rs)) (users_issued env ?s' rs)" .
  from step consider
      (same) "created_ids user_id (fakeUsersDb s) (fakeUsersDb ?s') = []" "currentId ?s' = currentId s"
    | (fresh) "created_ids user_id (fakeUsersDb s) (fakeUsersDb ?s') = [currentId s]"
        "currentId ?s' = currentId s + 1"
    by (auto simp: users_fresh_step_def)
  then show ?case
  proof cases
    case same
    with rest show ?thesis by (auto simp: Let_def list_all_iff)
  next
    case fresh
    with rest show ?thesis by (auto simp: Let_def list_all_iff)
  qed
qed

lemma orders_issued_bounded:
  "orders_inv s \<Longrightarrow>
     list_all (\<lambda>k. k < orders_currentId s + int (length rs)) (orders_issued oenv s rs)"
proof (induction rs arbitrary: s)
  case Nil
  then show ?case by simp
next
  case (Cons r rs)
  let ?s' = "snd (orders_service oenv s r)"
  have step: "orders_fresh_step s ?s'"
    using Cons.prems by (rule orders_service_fresh)
  then have inv': "orders_inv ?s'"
    by (simp add: orders_fresh_step_def)
  from Cons.IH [OF inv'] have
    rest: "list_all (\<lambda>k. k < orders_currentId ?s' + int (length rs))
             (orders_issued oenv ?s' rs)" .
  from step consider
      (same) "created_order_ids (fakeOrdersDb s) (fakeOrdersDb ?s') = []"
        "orders_currentId ?s' = orders_currentId s"
    | (fresh) "created_order_ids (fakeOrdersDb s) (fakeOrdersDb ?s') = [orders_currentId s]"
        "orders_currentId ?s' = orders_currentId s + 1"
    by (auto simp: orders_fresh_step_def)
  then show ?case
  proof cases
    case same
    with rest show ?thesis by (auto simp: Let_def list_all_iff)
  next
    case fresh
    with rest show ?thesis by (auto simp: Let_def list_all_iff)
  qed
qed

lemma issued_ids_bounded:
  "list_all (\<lambda>k. 1 \<le> k \<and> k \<le> int (length reqs)) (users_issued env users_init reqs) \<and>
   list_all (\<lambda>k. 1 \<le> k \<and> k \<le> int (length oreqs)) (orders_issued oenv orders_init oreqs)"
  using users_issued_bounded [OF users_init_keys_below, of reqs env]
    users_issued_increasing [OF users_init_keys_below, of env reqs]
    orders_issued_bounded [OF orders_init_inv, of oreqs oenv]
    orders_issued_increasing [OF orders_init_inv, of oenv oreqs]
  by (auto simp: list_all_iff users_init_def orders_init_def)











end
